(* ===== verification/Prelude.thy ===== *)
theory Prelude
  imports Complex_Main "HOL-Library.Monad_Syntax"
begin

text \<open>
  Shared vocabulary of the development.
  \<^item> \<open>vec3\<close> and \<open>vec6\<close> are Eigen's \<open>Vector3d\<close> and \<open>Vector6d\<close>.  A 6-vector
    is a spatial twist or wrench: \<open>head6\<close> is Eigen's \<open>head<3>()\<close> (angular part,
    moment), \<open>tail6\<close> is \<open>tail<3>()\<close> (linear part, force).  Coordinates are
    \<open>real\<close>: floating-point rounding is not modelled.
  \<^item> Both are instances of \<open>ab_group_add\<close>, so \<open>0\<close>, \<open>+\<close>, \<open>-\<close> and the library's
    \<open>algebra_simps\<close> apply to them; \<open>dot\<close>, \<open>cross\<close> and \<open>dot6\<close> come with their
    bilinearity and triple-product lemmas, collected in \<open>vec_simps\<close>.
  \<^item> \<open>map_opt\<close> is a loop over a list whose body may fail (return \<open>None\<close>): the
    loop fails as soon as one iteration does.  It is how the Jacobian loops of
    the contact constraint are written.
  \<^item> \<open>col\<close> reads a column of a matrix stored as its list of columns, with the
    out-of-range read (Eigen's \<open>.col(i)\<close> with a bad index) as \<open>None\<close>.
\<close>

named_theorems vec_simps "algebra of 3- and 6-vectors"

section \<open>Three-vectors\<close>

datatype vec3 = V3 (vx: real) (vy: real) (vz: real)

instantiation vec3 :: ab_group_add
begin

definition zero_vec3 :: vec3 where
  "zero_vec3 = V3 0 0 0"

definition plus_vec3 :: "vec3 \<Rightarrow> vec3 \<Rightarrow> vec3" where
  "plus_vec3 a b = V3 (vx a + vx b) (vy a + vy b) (vz a + vz b)"

definition uminus_vec3 :: "vec3 \<Rightarrow> vec3" where
  "uminus_vec3 a = V3 (- vx a) (- vy a) (- vz a)"

definition minus_vec3 :: "vec3 \<Rightarrow> vec3 \<Rightarrow> vec3" where
  "minus_vec3 a b = V3 (vx a - vx b) (vy a - vy b) (vz a - vz b)"

instance
proof
  fix a b c :: vec3
  show "a + b + c = a + (b + c)" by (simp add: plus_vec3_def)
  show "a + b = b + a" by (simp add: plus_vec3_def)
  show "0 + a = a" by (simp add: plus_vec3_def zero_vec3_def)
  show "- a + a = 0" by (simp add: plus_vec3_def uminus_vec3_def zero_vec3_def)
  show "a - b = a + - b" by (simp add: plus_vec3_def uminus_vec3_def minus_vec3_def)
qed

end

lemma vec3_components_zero [simp]: "vx 0 = 0" "vy 0 = 0" "vz 0 = 0"
  by (simp_all add: zero_vec3_def)

lemma V3_zero [simp]: "V3 0 0 0 = 0"
  by (simp add: zero_vec3_def)

lemma vec3_components_plus [simp]:
  "vx (a + b) = vx a + vx b" "vy (a + b) = vy a + vy b" "vz (a + b) = vz a + vz b"
  by (simp_all add: plus_vec3_def)

lemma vec3_components_uminus [simp]:
  "vx (- a) = - vx a" "vy (- a) = - vy a" "vz (- a) = - vz a"
  by (simp_all add: uminus_vec3_def)

lemma V3_arith [simp]:
  "V3 a b c + V3 d e f = V3 (a + d) (b + e) (c + f)"
  "V3 a b c - V3 d e f = V3 (a - d) (b - e) (c - f)"
  "- V3 a b c = V3 (- a) (- b) (- c)"
  by (simp_all add: plus_vec3_def minus_vec3_def uminus_vec3_def)

lemma vec3_eq_iff: "a = b \<longleftrightarrow> vx a = vx b \<and> vy a = vy b \<and> vz a = vz b"
  by (cases a, cases b) simp

definition dot :: "vec3 \<Rightarrow> vec3 \<Rightarrow> real" where
  "dot a b = vx a * vx b + vy a * vy b + vz a * vz b"

definition cross :: "vec3 \<Rightarrow> vec3 \<Rightarrow> vec3" where
  "cross a b = V3 (vy a * vz b - vz a * vy b)
                  (vz a * vx b - vx a * vz b)
                  (vx a * vy b - vy a * vx b)"

definition squaredNorm :: "vec3 \<Rightarrow> real" where
  "squaredNorm a = dot a a"

definition scale3 :: "real \<Rightarrow> vec3 \<Rightarrow> vec3" where
  "scale3 r a = V3 (r * vx a) (r * vy a) (r * vz a)"

lemma dot_V3 [simp]: "dot (V3 a b c) (V3 d e f) = a * d + b * e + c * f"
  by (simp add: dot_def)

lemma cross_V3 [simp]:
  "cross (V3 a1 a2 a3) (V3 b1 b2 b3) = V3 (a2 * b3 - a3 * b2) (a3 * b1 - a1 * b3) (a1 * b2 - a2 * b1)"
  by (simp add: cross_def)

lemma dot_zero [simp, vec_simps]: "dot 0 a = 0" "dot a 0 = 0"
  by (simp_all add: dot_def)

lemma cross_zero [simp, vec_simps]: "cross 0 a = 0" "cross a 0 = 0"
  by (simp_all add: cross_def vec3_eq_iff)

lemma dot_commute [vec_simps]: "dot a b = dot b a"
  by (simp add: dot_def algebra_simps)

lemma dot_add [vec_simps]:
  "dot (a + b) c = dot a c + dot b c" "dot a (b + c) = dot a b + dot a c"
  by (simp_all add: dot_def algebra_simps)

lemma cross_add [vec_simps]:
  "cross (a + b) c = cross a c + cross b c" "cross a (b + c) = cross a b + cross a c"
  by (simp_all add: cross_def plus_vec3_def algebra_simps)

lemma cross_antisym [vec_simps]: "cross b a = - cross a b"
  by (simp add: cross_def uminus_vec3_def algebra_simps)

lemma cross_self [simp, vec_simps]: "cross a a = 0"
  by (simp add: cross_def vec3_eq_iff)

text \<open>The cross product is orthogonal to both of its factors.\<close>

lemma dot_cross_left [simp, vec_simps]: "dot (cross a b) a = 0"
  by (simp add: dot_def cross_def algebra_simps)

lemma dot_cross_right [simp, vec_simps]: "dot (cross a b) b = 0"
  by (simp add: dot_def cross_def algebra_simps)

text \<open>The scalar triple product is invariant under cyclic shifts.\<close>

lemma triple_product [vec_simps]: "dot a (cross b c) = dot (cross a b) c"
  by (simp add: dot_def cross_def algebra_simps)

lemma squaredNorm_zero [simp]: "squaredNorm 0 = 0"
  by (simp add: squaredNorm_def)

section \<open>Six-vectors (twists and wrenches)\<close>

datatype vec6 = V6 (head6: vec3) (tail6: vec3)

instantiation vec6 :: ab_group_add
begin

definition zero_vec6 :: vec6 where
  "zero_vec6 = V6 0 0"

definition plus_vec6 :: "vec6 \<Rightarrow> vec6 \<Rightarrow> vec6" where
  "plus_vec6 a b = V6 (head6 a + head6 b) (tail6 a + tail6 b)"

definition uminus_vec6 :: "vec6 \<Rightarrow> vec6" where
  "uminus_vec6 a = V6 (- head6 a) (- tail6 a)"

definition minus_vec6 :: "vec6 \<Rightarrow> vec6 \<Rightarrow> vec6" where
  "minus_vec6 a b = V6 (head6 a - head6 b) (tail6 a - tail6 b)"

instance
proof
  fix a b c :: vec6
  show "a + b + c = a + (b + c)" by (simp add: plus_vec6_def add.assoc)
  show "a + b = b + a" by (simp add: plus_vec6_def add.commute)
  show "0 + a = a" by (simp add: plus_vec6_def zero_vec6_def)
  show "- a + a = 0" by (simp add: plus_vec6_def uminus_vec6_def zero_vec6_def)
  show "a - b = a + - b" by (simp add: plus_vec6_def uminus_vec6_def minus_vec6_def)
qed

end

lemma vec6_parts_zero [simp]: "head6 0 = 0" "tail6 0 = 0"
  by (simp_all add: zero_vec6_def)

lemma V6_zero [simp]: "V6 0 0 = 0"
  by (simp add: zero_vec6_def)

lemma vec6_parts_plus [simp]:
  "head6 (a + b) = head6 a + head6 b" "tail6 (a + b) = tail6 a + tail6 b"
  by (simp_all add: plus_vec6_def)

definition dot6 :: "vec6 \<Rightarrow> vec6 \<Rightarrow> real" where
  "dot6 a b = dot (head6 a) (head6 b) + dot (tail6 a) (tail6 b)"

lemma dot6_V6 [simp]: "dot6 (V6 a b) (V6 c d) = dot a c + dot b d"
  by (simp add: dot6_def)

lemma dot6_zero [simp, vec_simps]: "dot6 0 a = 0" "dot6 a 0 = 0"
  by (simp_all add: dot6_def)

lemma dot6_commute [vec_simps]: "dot6 a b = dot6 b a"
  by (simp add: dot6_def dot_commute)

lemma dot6_add [vec_simps]:
  "dot6 (a + b) c = dot6 a c + dot6 b c" "dot6 a (b + c) = dot6 a b + dot6 a c"
  by (simp_all add: dot6_def dot_add)

section \<open>Loops whose body may fail\<close>

primrec map_opt :: "('a \<Rightarrow> 'b option) \<Rightarrow> 'a list \<Rightarrow> 'b list option" where
  "map_opt f [] = Some []"
| "map_opt f (x # xs) = do { y \<leftarrow> f x; ys \<leftarrow> map_opt f xs; Some (y # ys) }"

lemma map_opt_Some_length:
  "map_opt f xs = Some ys \<Longrightarrow> length ys = length xs"
  by (induction xs arbitrary: ys) (auto split: Option.bind_splits)

lemma map_opt_Some_nth:
  "map_opt f xs = Some ys \<Longrightarrow> i < length xs \<Longrightarrow> f (xs ! i) = Some (ys ! i)"
proof (induction xs arbitrary: ys i)
  case Nil
  then show ?case by simp
next
  case (Cons x xs)
  then show ?case
    by (cases i) (auto split: Option.bind_splits)
qed

lemma map_opt_total:
  "(\<And>x. x \<in> set xs \<Longrightarrow> f x = Some (g x)) \<Longrightarrow> map_opt f xs = Some (map g xs)"
  by (induction xs) auto

lemma map_opt_Some_fun [simp]: "map_opt (\<lambda>x. Some (g x)) xs = Some (map g xs)"
  by (induction xs) simp_all

lemma map_opt_cong:
  "(\<And>x. x \<in> set xs \<Longrightarrow> f x = h x) \<Longrightarrow> map_opt f xs = map_opt h xs"
  by (induction xs) auto

lemma map_opt_append:
  "map_opt f (xs @ ys) = do { as \<leftarrow> map_opt f xs; bs \<leftarrow> map_opt f ys; Some (as @ bs) }"
  by (induction xs) (auto split: Option.bind_split)

lemma map_opt_None:
  "map_opt f xs = None \<longleftrightarrow> (\<exists>x \<in> set xs. f x = None)"
  by (induction xs) (auto split: Option.bind_split)

text \<open>Two independent fallible computations may be run in either order.\<close>

lemma bind_commute_option:
  "do { a \<leftarrow> (A :: 'a option); b \<leftarrow> (B :: 'b option); (f a b :: 'c option) }
   = do { b \<leftarrow> B; a \<leftarrow> A; f a b }"
  by (cases A; cases B) simp_all

text \<open>Two loops over the same list whose results are zipped are one loop.\<close>

lemma map_opt_map2:
  "do { ps \<leftarrow> map_opt P xs; qs \<leftarrow> map_opt Q xs; Some (map2 g ps qs) }
   = map_opt (\<lambda>x. do { p \<leftarrow> P x; q \<leftarrow> Q x; Some (g p q) }) xs"
proof (induction xs)
  case Nil
  then show ?case by simp
next
  case (Cons x xs)
  then show ?case
    by (cases "P x"; cases "Q x"; cases "map_opt P xs"; cases "map_opt Q xs")
      (simp_all add: Cons.IH [symmetric])
qed

lemma map_opt_zip_Some:
  assumes "map_opt Q xs = Some qs"
  shows "map_opt (\<lambda>(x, q). f x q) (zip xs qs) = map_opt (\<lambda>x. do { q \<leftarrow> Q x; f x q }) xs"
  using assms
proof (induction xs arbitrary: qs)
  case Nil
  then show ?case by simp
next
  case (Cons x xs)
  then show ?case
    by (auto split: Option.bind_splits)
qed

section \<open>Matrices as lists of columns\<close>

definition col :: "'a list \<Rightarrow> int \<Rightarrow> 'a option" where
  "col cs i = (if 0 \<le> i \<and> nat i < length cs then Some (cs ! nat i) else None)"

lemma col_Some_iff: "col cs i = Some c \<longleftrightarrow> 0 \<le> i \<and> nat i < length cs \<and> cs ! nat i = c"
  by (auto simp: col_def)

end
