(* ===== verification/DenseMatrix.thy ===== *)
theory DenseMatrix
  imports Prelude
begin

text \<open>
  Eigen's dynamic matrices \<open>MatrixXd\<close> as the backprop snapshot uses them.  A
  matrix is a function of its row and column index, as in the quad-tree
  matrices of the AFP; its dimensions are not part of the value, so every
  product names its inner dimension (\<open>mmul k A B\<close> sums over \<open>l < k\<close>) and
  two matrices are compared on an \<open>m \<times> n\<close> block (\<open>matEq\<close>).  Vectors
  (\<open>VectorXd\<close>) stay lists, as everywhere else in the development; \<open>mulVec m A v\<close>
  is the \<open>m\<close>-row product.  Coordinates are \<open>real\<close>: rounding is not
  modelled.
\<close>

type_synonym mat = "nat \<Rightarrow> nat \<Rightarrow> real"

definition matOfRows :: "real list list \<Rightarrow> mat" where
  "matOfRows rows = (\<lambda>i j. rows ! i ! j)"

definition mtrans :: "mat \<Rightarrow> mat" where
  "mtrans A = (\<lambda>i j. A j i)"

definition eye :: mat where
  "eye = (\<lambda>i j. if i = j then 1 else 0)"

definition mmul :: "nat \<Rightarrow> mat \<Rightarrow> mat \<Rightarrow> mat" where
  "mmul k A B = (\<lambda>i j. \<Sum>l<k. A i l * B l j)"

definition msub :: "mat \<Rightarrow> mat \<Rightarrow> mat" where
  "msub A B = (\<lambda>i j. A i j - B i j)"

definition madd :: "mat \<Rightarrow> mat \<Rightarrow> mat" where
  "madd A B = (\<lambda>i j. A i j + B i j)"

definition mscale :: "real \<Rightarrow> mat \<Rightarrow> mat" where
  "mscale r A = (\<lambda>i j. r * A i j)"

definition mulVec :: "nat \<Rightarrow> mat \<Rightarrow> real list \<Rightarrow> real list" where
  "mulVec m A v = map (\<lambda>i. \<Sum>l<length v. A i l * v ! l) [0..<m]"

definition matCol :: "nat \<Rightarrow> mat \<Rightarrow> nat \<Rightarrow> real list" where
  "matCol m A j = map (\<lambda>i. A i j) [0..<m]"

definition matEq :: "nat \<Rightarrow> nat \<Rightarrow> mat \<Rightarrow> mat \<Rightarrow> bool" where
  "matEq m n A B = (\<forall>i<m. \<forall>j<n. A i j = B i j)"

definition rightInverseOn :: "nat \<Rightarrow> mat \<Rightarrow> mat \<Rightarrow> bool" where
  "rightInverseOn k A B = (\<forall>i<k. \<forall>j<k. mmul k A B i j = eye i j)"

definition vadd :: "real list \<Rightarrow> real list \<Rightarrow> real list" where
  "vadd a b = map2 (+) a b"

definition vsub :: "real list \<Rightarrow> real list \<Rightarrow> real list" where
  "vsub a b = map2 (-) a b"

definition vscale :: "real \<Rightarrow> real list \<Rightarrow> real list" where
  "vscale r a = map ((*) r) a"

section \<open>Products\<close>

lemma mmul_assoc: "mmul k (mmul l A B) C = mmul l A (mmul k B C)"
proof -
  have "(\<Sum>a<k. (\<Sum>b<l. A i b * B b a) * C a j) = (\<Sum>b<l. A i b * (\<Sum>a<k. B b a * C a j))" for i j
  proof -
    have "(\<Sum>a<k. (\<Sum>b<l. A i b * B b a) * C a j) = (\<Sum>a<k. \<Sum>b<l. A i b * (B b a * C a j))"
      by (simp add: sum_distrib_right mult.assoc)
    also have "\<dots> = (\<Sum>b<l. \<Sum>a<k. A i b * (B b a * C a j))"
      by (rule sum.swap)
    also have "\<dots> = (\<Sum>b<l. A i b * (\<Sum>a<k. B b a * C a j))"
      by (simp add: sum_distrib_left)
    finally show ?thesis .
  qed
  then show ?thesis by (simp add: mmul_def fun_eq_iff)
qed

lemma eye_mult:
  "eye i l * x = (if l = i then x else 0)" "x * eye l j = (if l = j then x else 0)"
  by (simp_all add: eye_def)

lemma mmul_eye_left: "i < k \<Longrightarrow> mmul k eye B i j = B i j"
  by (simp add: mmul_def eye_mult sum.delta)

lemma mmul_eye_right: "j < k \<Longrightarrow> mmul k A eye i j = A i j"
  by (simp add: mmul_def eye_mult sum.delta)

lemma mmul_msub_right: "mmul k A (msub B C) = msub (mmul k A B) (mmul k A C)"
  by (simp add: mmul_def msub_def fun_eq_iff right_diff_distrib sum_subtractf)

lemma mmul_msub_left: "mmul k (msub A B) C = msub (mmul k A C) (mmul k B C)"
  by (simp add: mmul_def msub_def fun_eq_iff left_diff_distrib sum_subtractf)

lemma mmul_mscale_left: "mmul k (mscale r A) B = mscale r (mmul k A B)"
  by (simp add: mmul_def mscale_def fun_eq_iff sum_distrib_left mult.assoc)

text \<open>A product reads its factors only inside the inner dimension; a factor
  that is the identity there drops out.\<close>

lemma mmul_cong_left:
  "(\<forall>l<k. A i l = A' i l) \<Longrightarrow> mmul k A B i j = mmul k A' B i j"
  by (simp add: mmul_def)

lemma mmul_cong_right:
  "(\<forall>l<k. B l j = B' l j) \<Longrightarrow> mmul k A B i j = mmul k A B' i j"
  by (simp add: mmul_def)

lemma mmul_cong_inner:
  "(\<forall>a<k. \<forall>j. B a j = B' a j) \<Longrightarrow> mmul k A B = mmul k A B'"
  by (simp add: mmul_def fun_eq_iff)

lemma mmul_inverse_left:
  assumes "\<forall>a<k. \<forall>c<k. P a c = eye a c" "a < k"
  shows "mmul k P K a j = K a j"
proof -
  have "mmul k P K a j = mmul k eye K a j"
    using assms by (intro mmul_cong_left) simp
  then show ?thesis using assms(2) by (simp add: mmul_eye_left)
qed

lemma mmul_zero_dim [simp]: "mmul 0 A B = (\<lambda>i j. 0)"
  by (simp add: mmul_def)

section \<open>Matrix times vector\<close>

lemma length_mulVec [simp]: "length (mulVec m A v) = m"
  by (simp add: mulVec_def)

lemma nth_mulVec [simp]: "i < m \<Longrightarrow> mulVec m A v ! i = (\<Sum>l<length v. A i l * v ! l)"
  by (simp add: mulVec_def)

lemma mulVec_mmul:
  "mulVec m (mmul k A B) v = mulVec m A (mulVec k B v)"
proof -
  have "(\<Sum>l<length v. (\<Sum>a<k. A i a * B a l) * v ! l) = (\<Sum>a<k. A i a * (\<Sum>l<length v. B a l * v ! l))" for i
  proof -
    have "(\<Sum>l<length v. (\<Sum>a<k. A i a * B a l) * v ! l) = (\<Sum>l<length v. \<Sum>a<k. A i a * (B a l * v ! l))"
      by (simp add: sum_distrib_right mult.assoc)
    also have "\<dots> = (\<Sum>a<k. \<Sum>l<length v. A i a * (B a l * v ! l))"
      by (rule sum.swap)
    finally show ?thesis by (simp add: sum_distrib_left)
  qed
  then show ?thesis by (simp add: mulVec_def mmul_def)
qed

lemma mulVec_eye: "mulVec (length v) eye v = v"
  by (rule nth_equalityI) (simp_all add: mulVec_def eye_mult sum.delta)

lemma mulVec_msub: "mulVec m (msub A B) v = vsub (mulVec m A v) (mulVec m B v)"
  by (simp add: mulVec_def msub_def vsub_def map2_map_map left_diff_distrib sum_subtractf)

lemma mulVec_mscale: "mulVec m (mscale r A) v = vscale r (mulVec m A v)"
  by (simp add: mulVec_def mscale_def vscale_def sum_distrib_left mult.assoc)

lemma mulVec_vadd:
  "length a = length b \<Longrightarrow> mulVec m A (vadd a b) = vadd (mulVec m A a) (mulVec m A b)"
  by (simp add: mulVec_def vadd_def map2_map_map distrib_left sum.distrib)

lemma mulVec_vscale: "mulVec m A (vscale r v) = vscale r (mulVec m A v)"
  by (simp add: mulVec_def vscale_def sum_distrib_left mult.left_commute)

lemma mulVec_Nil [simp]: "mulVec m A [] = replicate m 0"
  by (simp add: mulVec_def map_replicate_const)

lemma mulVec_cong:
  "(\<forall>i<m. \<forall>l<length v. A i l = A' i l) \<Longrightarrow> mulVec m A v = mulVec m A' v"
  by (simp add: mulVec_def)

text \<open>Perturbing coordinate \<open>j\<close> of the argument by \<open>eps\<close> moves a product by
  \<open>eps\<close> times column \<open>j\<close>.\<close>

lemma mulVec_update:
  assumes "j < length v"
  shows "mulVec m A (v[j := v ! j + eps]) = vadd (mulVec m A v) (vscale eps (matCol m A j))"
proof -
  have "(\<Sum>l<length v. A i l * v[j := v ! j + eps] ! l) = (\<Sum>l<length v. A i l * v ! l) + eps * A i j" for i
  proof -
    have "(\<Sum>l<length v. A i l * v[j := v ! j + eps] ! l)
        = (\<Sum>l<length v. A i l * v ! l + (if l = j then eps * A i j else 0))"
      by (rule sum.cong) (auto simp: nth_list_update algebra_simps)
    then show ?thesis using assms by (simp add: sum.distrib)
  qed
  then show ?thesis by (simp add: mulVec_def vadd_def vscale_def matCol_def map2_map_map)
qed

section \<open>Vectors\<close>

lemma length_vadd [simp]: "length (vadd a b) = min (length a) (length b)"
  by (simp add: vadd_def)

lemma length_vsub [simp]: "length (vsub a b) = min (length a) (length b)"
  by (simp add: vsub_def)

lemma length_vscale [simp]: "length (vscale r a) = length a"
  by (simp add: vscale_def)

lemma vadd_neg_vadd:
  "length a = length b \<Longrightarrow> length b = length c
   \<Longrightarrow> vadd a (vscale (-1) (vadd b c)) = vsub (vsub a b) c"
  by (rule nth_equalityI) (simp_all add: vadd_def vsub_def vscale_def)

lemma vadd_replicate_zero: "length v = n \<Longrightarrow> vadd v (replicate n 0) = v"
  by (rule nth_equalityI) (simp_all add: vadd_def)

lemma msub_zero [simp]: "msub A (\<lambda>i j. 0) = A"
  by (simp add: msub_def)

lemma length_matCol [simp]: "length (matCol m A j) = m"
  by (simp add: matCol_def)

end
