(* ===== verification/Spatial.thy ===== *)
theory Spatial
  imports Prelude
begin

text \<open>
  The spatial-algebra helpers of DART's \<open>dart/math\<close> that the contact
  constraint calls (\<open>math::AdT\<close>, \<open>math::ad\<close>, \<open>math::gradientWrtTheta\<close>,
  \<open>math::gradientWrtThetaPureRotation\<close>).  Their source is not part of this
  repository's \<open>src/\<close>; they are written from the spec (a twist \<open>[w; v]\<close>
  moves a world point \<open>p\<close> with velocity \<open>w \<times> p + v\<close>, the Lie bracket \<open>ad\<close>
  transports a descendant screw axis) and from DART's conventions (angular part
  first).  The gradients are only ever called at \<open>theta = 0\<close> in
  \<open>DifferentiableContactConstraint.cpp\<close>, so they are modelled at that value.
\<close>

record transform =
  rot_row1 :: vec3
  rot_row2 :: vec3
  rot_row3 :: vec3
  translation :: vec3

definition rotate :: "transform \<Rightarrow> vec3 \<Rightarrow> vec3" where
  "rotate T v = V3 (dot (rot_row1 T) v) (dot (rot_row2 T) v) (dot (rot_row3 T) v)"

text \<open>\<open>AdT(T, V)\<close>: the adjoint action of a rigid transform on a twist.\<close>

definition AdT :: "transform \<Rightarrow> vec6 \<Rightarrow> vec6" where
  "AdT T V = (let w = rotate T (head6 V)
              in V6 w (cross (translation T) w + rotate T (tail6 V)))"

text \<open>\<open>s * V\<close> on a 6-vector (Eigen's scalar product).\<close>

definition scale6 :: "real \<Rightarrow> vec6 \<Rightarrow> vec6" where
  "scale6 s v = V6 (scale3 s (head6 v)) (scale3 s (tail6 v))"

text \<open>\<open>ad(X, Y)\<close>: the Lie bracket of two twists.\<close>

definition ad :: "vec6 \<Rightarrow> vec6 \<Rightarrow> vec6" where
  "ad X Y = V6 (cross (head6 X) (head6 Y))
               (cross (head6 X) (tail6 Y) + cross (tail6 X) (head6 Y))"

text \<open>Velocity of the world point \<open>p\<close> under a unit rate of the screw \<open>S\<close>.\<close>

definition gradientWrtTheta :: "vec6 \<Rightarrow> vec3 \<Rightarrow> vec3" where
  "gradientWrtTheta S p = cross (head6 S) p + tail6 S"

text \<open>Velocity of the direction \<open>p\<close> under a unit rate of the rotation axis \<open>w\<close>.\<close>

definition gradientWrtThetaPureRotation :: "vec3 \<Rightarrow> vec3 \<Rightarrow> vec3" where
  "gradientWrtThetaPureRotation w p = cross w p"

lemma gradientWrtTheta_zero [simp]: "gradientWrtTheta 0 p = 0"
  by (simp add: gradientWrtTheta_def)

lemma gradientWrtThetaPureRotation_zero [simp]: "gradientWrtThetaPureRotation 0 p = 0"
  by (simp add: gradientWrtThetaPureRotation_def)

text \<open>A pure rotation moves a direction orthogonally to itself.\<close>

lemma gradientWrtThetaPureRotation_orth [simp]:
  "dot (gradientWrtThetaPureRotation w p) p = 0"
  by (simp add: gradientWrtThetaPureRotation_def)

text \<open>
  Virtual power of a point force: the pairing of a twist with the wrench of the
  force \<open>f\<close> applied at \<open>p\<close> (moment \<open>p \<times> f\<close>, force \<open>f\<close>) is the power of \<open>f\<close>
  on the velocity of \<open>p\<close>.
\<close>

lemma dot6_point_wrench:
  "dot6 S (V6 (cross p f) f) = dot (gradientWrtTheta S p) f"
  by (simp add: dot6_def gradientWrtTheta_def dot_add triple_product)

lemma ad_self [simp]: "ad X X = 0"
  by (simp add: ad_def cross_antisym [of "tail6 X" "head6 X"] flip: V6_zero)

lemma ad_zero [simp]: "ad 0 Y = 0" "ad X 0 = 0"
  by (simp_all add: ad_def flip: V6_zero)

end
