(* ===== verification/Kinematics.thy ===== *)
theory Kinematics
  imports Spatial
begin

text \<open>
  The articulated-body side of the contact differentiator: the kinematic
  oracle it queries (DART's \<open>Joint\<close>, \<open>BodyNode\<close>, \<open>DegreeOfFreedom\<close>,
  \<open>Skeleton\<close> and \<open>World\<close>, not part of \<open>src/\<close>, so given here as an interface
  record of their getters), the two \<open>isParent\<close> ancestor walks of
  \<open>DifferentiableContactConstraint.cpp\<close>, and \<open>getWorldScrewAxis\<close>.

  Joints and bodies are named by numbers; a null pointer is \<open>None\<close>.  The walk
  up the parent joints is a loop that does not stop on a cyclic parent graph,
  so it is a \<open>partial_function (option)\<close>: \<open>None\<close> is "does not return".  The
  main results are that on a well-formed tree (\<open>wf_kin\<close>: every parent joint
  lies in the same skeleton and tree and has a smaller index in the tree) the
  walks always return, and return exactly the ancestor relation
  \<open>jointAncestor\<close>, the reflexive-transitive closure of the parent step;
  the skeleton-name, tree-index and index-order early exits of the code are
  sound short cuts of it.
\<close>

section \<open>The kinematic oracle\<close>

record kin =
  k_joints :: "nat list"
  k_bodies :: "nat list"
  jointSkeletonName :: "nat \<Rightarrow> string"
  jointTreeIndex :: "nat \<Rightarrow> nat"
  jointIndexInTree :: "nat \<Rightarrow> nat"
  jointParentBodyNode :: "nat \<Rightarrow> nat option"
  jointChildBodyNode :: "nat \<Rightarrow> nat"
  jointRelativeJacobian :: "nat \<Rightarrow> nat \<Rightarrow> vec6"
  bodyParentJoint :: "nat \<Rightarrow> nat option"
  bodyWorldTransform :: "nat \<Rightarrow> transform"

record dof =
  dofJoint :: nat
  dofIndexInJoint :: nat

record skeleton =
  skelName :: string
  skelDofs :: "dof list"

record world =
  worldKin :: kin
  worldSkeletons :: "skeleton list"

text \<open>\<open>World::getDofs()\<close>: the skeletons' DOFs in registration order.\<close>

definition worldDofs :: "world \<Rightarrow> dof list" where
  "worldDofs w = concat (map skelDofs (worldSkeletons w))"

section \<open>The ancestor walks (\<open>isParent\<close>)\<close>

text \<open>One step of the loop: \<open>joint->getParentBodyNode()->getParentJoint()\<close>,
  \<open>None\<close> when either pointer is null.\<close>

definition parentJointOf :: "kin \<Rightarrow> nat \<Rightarrow> nat option" where
  "parentJointOf k j =
     (case jointParentBodyNode k j of
        None \<Rightarrow> None
      | Some b \<Rightarrow> bodyParentJoint k b)"

partial_function (option) walkToJoint :: "kin \<Rightarrow> nat \<Rightarrow> nat \<Rightarrow> bool option" where
  "walkToJoint k target j =
     (if j = target then Some True
      else case parentJointOf k j of
             None \<Rightarrow> Some False
           | Some p \<Rightarrow> walkToJoint k target p)"

text \<open>\<open>isParent(const DegreeOfFreedom*, const BodyNode*)\<close>.  The body's parent
  joint is dereferenced unconditionally: a null one does not return.\<close>

definition isParentBody :: "kin \<Rightarrow> dof \<Rightarrow> nat \<Rightarrow> bool option" where
  "isParentBody k d node =
     (case bodyParentJoint k node of
        None \<Rightarrow> None
      | Some nj \<Rightarrow>
          (let dj = dofJoint d in
           if jointSkeletonName k dj \<noteq> jointSkeletonName k nj
              \<or> jointTreeIndex k dj \<noteq> jointTreeIndex k nj then Some False
           else if jointIndexInTree k dj > jointIndexInTree k nj then Some False
           else walkToJoint k dj nj))"

text \<open>\<open>isParent(const DegreeOfFreedom*, const DegreeOfFreedom*)\<close>: two DOFs of
  one joint affect each other unless they are the same axis.\<close>

definition isParentDof :: "kin \<Rightarrow> dof \<Rightarrow> dof \<Rightarrow> bool option" where
  "isParentDof k parent child =
     (let pj = dofJoint parent; cj = dofJoint child in
      if pj = cj then Some (dofIndexInJoint parent \<noteq> dofIndexInJoint child)
      else if jointSkeletonName k pj \<noteq> jointSkeletonName k cj
              \<or> jointTreeIndex k pj \<noteq> jointTreeIndex k cj then Some False
      else if jointIndexInTree k pj > jointIndexInTree k cj then Some False
      else walkToJoint k pj cj)"

text \<open>\<open>getWorldScrewAxis(dof)\<close>: the DOF's column of its joint's relative
  Jacobian, carried to world coordinates by the child body's transform.\<close>

definition getWorldScrewAxis :: "kin \<Rightarrow> dof \<Rightarrow> vec6" where
  "getWorldScrewAxis k d =
     AdT (bodyWorldTransform k (jointChildBodyNode k (dofJoint d)))
         (jointRelativeJacobian k (dofJoint d) (dofIndexInJoint d))"

section \<open>Reference semantics and well-formedness\<close>

inductive jointAncestor :: "kin \<Rightarrow> nat \<Rightarrow> nat \<Rightarrow> bool" where
  ancestor_refl: "jointAncestor k j j"
| ancestor_step: "parentJointOf k c = Some p \<Longrightarrow> jointAncestor k a p \<Longrightarrow> jointAncestor k a c"

definition dofAncestorOfBody :: "kin \<Rightarrow> dof \<Rightarrow> nat \<Rightarrow> bool" where
  "dofAncestorOfBody k d b \<longleftrightarrow>
     (case bodyParentJoint k b of None \<Rightarrow> False | Some nj \<Rightarrow> jointAncestor k (dofJoint d) nj)"

definition wf_kin :: "kin \<Rightarrow> bool" where
  "wf_kin k \<longleftrightarrow>
     list_all (\<lambda>j. case parentJointOf k j of
                    None \<Rightarrow> True
                  | Some p \<Rightarrow> p \<in> set (k_joints k)
                      \<and> jointSkeletonName k p = jointSkeletonName k j
                      \<and> jointTreeIndex k p = jointTreeIndex k j
                      \<and> jointIndexInTree k p < jointIndexInTree k j) (k_joints k)
   \<and> list_all (\<lambda>b. case bodyParentJoint k b of
                    None \<Rightarrow> False
                  | Some j \<Rightarrow> j \<in> set (k_joints k)) (k_bodies k)"

definition wf_world :: "world \<Rightarrow> bool" where
  "wf_world w \<longleftrightarrow> wf_kin (worldKin w)
     \<and> list_all (\<lambda>s. list_all (\<lambda>d. dofJoint d \<in> set (k_joints (worldKin w))
                        \<and> jointSkeletonName (worldKin w) (dofJoint d) = skelName s) (skelDofs s))
         (worldSkeletons w)"

section \<open>Lemmas\<close>

lemma walkToJoint_here [simp]: "walkToJoint k t t = Some True"
  by (simp add: walkToJoint.simps)

lemma walkToJoint_root:
  "j \<noteq> t \<Longrightarrow> parentJointOf k j = None \<Longrightarrow> walkToJoint k t j = Some False"
  by (simp add: walkToJoint.simps)

lemma walkToJoint_up:
  "j \<noteq> t \<Longrightarrow> parentJointOf k j = Some p \<Longrightarrow> walkToJoint k t j = walkToJoint k t p"
  by (simp add: walkToJoint.simps)

lemma jointAncestor_iff:
  "jointAncestor k a c \<longleftrightarrow> c = a \<or> (\<exists>p. parentJointOf k c = Some p \<and> jointAncestor k a p)"
  by (auto intro: jointAncestor.intros elim: jointAncestor.cases)

lemma wf_kin_parent:
  assumes "wf_kin k" "j \<in> set (k_joints k)" "parentJointOf k j = Some p"
  shows "p \<in> set (k_joints k) \<and> jointSkeletonName k p = jointSkeletonName k j
     \<and> jointTreeIndex k p = jointTreeIndex k j \<and> jointIndexInTree k p < jointIndexInTree k j"
  using assms by (fastforce simp: wf_kin_def list_all_iff)

lemma wf_kin_body:
  assumes "wf_kin k" "b \<in> set (k_bodies k)"
  obtains j where "bodyParentJoint k b = Some j" "j \<in> set (k_joints k)"
  using assms by (fastforce simp: wf_kin_def list_all_iff split: option.splits)

text \<open>On a well-formed tree an ancestor lies in the same skeleton and tree,
  not after its descendant: the code's early exits never cut a true answer.\<close>

lemma jointAncestor_same_tree:
  assumes "jointAncestor k a c" "wf_kin k" "c \<in> set (k_joints k)"
  shows "jointSkeletonName k a = jointSkeletonName k c \<and> jointTreeIndex k a = jointTreeIndex k c
     \<and> jointIndexInTree k a \<le> jointIndexInTree k c"
  using assms
proof (induction rule: jointAncestor.induct)
  case (ancestor_refl k j)
  then show ?case by simp
next
  case (ancestor_step k c p a)
  then have "p \<in> set (k_joints k) \<and> jointSkeletonName k p = jointSkeletonName k c
     \<and> jointTreeIndex k p = jointTreeIndex k c \<and> jointIndexInTree k p < jointIndexInTree k c"
    by (intro wf_kin_parent)
  with ancestor_step.IH ancestor_step.prems show ?case by auto
qed

text \<open>The walk returns, and returns the ancestor relation: induction on the
  index in the tree, which every step up decreases.\<close>

lemma walkToJoint_correct:
  assumes "wf_kin k" "j \<in> set (k_joints k)"
  shows "walkToJoint k t j = Some (jointAncestor k t j)"
  using assms
proof (induction "jointIndexInTree k j" arbitrary: j rule: less_induct)
  case less
  show ?case
  proof (cases "j = t")
    case True
    then show ?thesis by (simp add: ancestor_refl)
  next
    case False
    show ?thesis
    proof (cases "parentJointOf k j")
      case None
      with False show ?thesis
        by (simp add: walkToJoint_root jointAncestor_iff [of k t j])
    next
      case (Some p)
      with less.prems have p: "p \<in> set (k_joints k)" "jointIndexInTree k p < jointIndexInTree k j"
        by (auto dest: wf_kin_parent)
      with less.hyps less.prems have "walkToJoint k t p = Some (jointAncestor k t p)"
        by blast
      with False Some show ?thesis
        by (simp add: walkToJoint_up jointAncestor_iff [of k t j])
    qed
  qed
qed

text \<open>\<open>isParent(dof, body)\<close> returns on every body of a well-formed world, and
  returns whether the DOF's joint is an ancestor of the body's parent joint.\<close>

lemma isParentBody_correct:
  assumes "wf_kin k" "b \<in> set (k_bodies k)"
  shows "isParentBody k d b = Some (dofAncestorOfBody k d b)"
proof -
  obtain nj where nj: "bodyParentJoint k b = Some nj" "nj \<in> set (k_joints k)"
    using assms by (rule wf_kin_body)
  have walk: "walkToJoint k (dofJoint d) nj = Some (jointAncestor k (dofJoint d) nj)"
    using assms(1) nj(2) by (rule walkToJoint_correct)
  have exits: "jointAncestor k (dofJoint d) nj \<Longrightarrow>
      jointSkeletonName k (dofJoint d) = jointSkeletonName k nj
      \<and> jointTreeIndex k (dofJoint d) = jointTreeIndex k nj
      \<and> jointIndexInTree k (dofJoint d) \<le> jointIndexInTree k nj"
    using jointAncestor_same_tree [OF _ assms(1) nj(2)] by blast
  show ?thesis
    using nj(1) walk exits
    by (auto simp: isParentBody_def dofAncestorOfBody_def Let_def not_less)
qed

text \<open>\<open>isParent(dof, dof)\<close>: the same joint compares the axis indices, any
  other pair is the ancestor relation of the two joints.\<close>

lemma isParentDof_correct:
  assumes "wf_kin k" "dofJoint c \<in> set (k_joints k)"
  shows "isParentDof k p c =
    Some (if dofJoint p = dofJoint c then dofIndexInJoint p \<noteq> dofIndexInJoint c
          else jointAncestor k (dofJoint p) (dofJoint c))"
proof -
  have walk: "walkToJoint k (dofJoint p) (dofJoint c) = Some (jointAncestor k (dofJoint p) (dofJoint c))"
    using assms by (rule walkToJoint_correct)
  have exits: "jointAncestor k (dofJoint p) (dofJoint c) \<Longrightarrow>
      jointSkeletonName k (dofJoint p) = jointSkeletonName k (dofJoint c)
      \<and> jointTreeIndex k (dofJoint p) = jointTreeIndex k (dofJoint c)
      \<and> jointIndexInTree k (dofJoint p) \<le> jointIndexInTree k (dofJoint c)"
    using jointAncestor_same_tree [OF _ assms] by blast
  show ?thesis
    using walk exits by (auto simp: isParentDof_def Let_def not_less)
qed

lemma wf_world_dof:
  assumes "wf_world w" "s \<in> set (worldSkeletons w)" "d \<in> set (skelDofs s)"
  shows "dofJoint d \<in> set (k_joints (worldKin w))"
    "jointSkeletonName (worldKin w) (dofJoint d) = skelName s"
  using assms by (auto simp: wf_world_def list_all_iff)

lemma wf_world_kin: "wf_world w \<Longrightarrow> wf_kin (worldKin w)"
  by (simp add: wf_world_def)

section \<open>An example world\<close>

text \<open>A three-link arm (joints and bodies 0, 1, 2, one revolute DOF each,
  body \<open>i\<close> at \<open>x = i\<close>) and a welded ground (joint and body 3, no DOF), the
  world the witnesses below evaluate on.\<close>

definition ex_kin :: kin where
  "ex_kin = \<lparr> k_joints = [0, 1, 2, 3], k_bodies = [0, 1, 2, 3],
     jointSkeletonName = (\<lambda>j. if j = 3 then ''ground'' else ''arm''),
     jointTreeIndex = (\<lambda>j. 0),
     jointIndexInTree = (\<lambda>j. if j = 3 then 0 else j),
     jointParentBodyNode = (\<lambda>j. if j = 1 then Some 0 else if j = 2 then Some 1 else None),
     jointChildBodyNode = (\<lambda>j. j),
     jointRelativeJacobian = (\<lambda>j i. V6 (V3 0 0 1) 0),
     bodyParentJoint = (\<lambda>b. Some b),
     bodyWorldTransform = (\<lambda>b. \<lparr> rot_row1 = V3 1 0 0, rot_row2 = V3 0 1 0,
                                   rot_row3 = V3 0 0 1, translation = V3 (real b) 0 0 \<rparr>) \<rparr>"

definition ex_dof :: "nat \<Rightarrow> dof" where
  "ex_dof j = \<lparr> dofJoint = j, dofIndexInJoint = 0 \<rparr>"

definition ex_world :: world where
  "ex_world = \<lparr> worldKin = ex_kin,
     worldSkeletons = [\<lparr> skelName = ''arm'', skelDofs = [ex_dof 0, ex_dof 1, ex_dof 2] \<rparr>,
                       \<lparr> skelName = ''ground'', skelDofs = [] \<rparr>] \<rparr>"

lemma ex_screw: "getWorldScrewAxis ex_kin (ex_dof j) = V6 (V3 0 0 1) (V3 0 (- real j) 0)"
  by (simp add: getWorldScrewAxis_def AdT_def rotate_def ex_kin_def ex_dof_def)

lemma ex_world_kin [simp]: "worldKin ex_world = ex_kin"
  by (simp add: ex_world_def)

lemma ex_world_dofs: "worldDofs ex_world = [ex_dof 0, ex_dof 1, ex_dof 2]"
  by (simp add: ex_world_def worldDofs_def)

lemma wf_ex_kin: "wf_kin ex_kin"
  by (simp add: wf_kin_def ex_kin_def parentJointOf_def)

lemma wf_ex_world: "wf_world ex_world"
  by (simp add: wf_world_def ex_world_def wf_ex_kin ex_dof_def) (simp add: ex_kin_def)

lemma ex_parentJointOf [simp]:
  "parentJointOf ex_kin 0 = None" "parentJointOf ex_kin 1 = Some 0"
  "parentJointOf ex_kin 2 = Some 1" "parentJointOf ex_kin 3 = None"
  by (simp_all add: parentJointOf_def ex_kin_def)

lemma ex_bodyParentJoint [simp]: "bodyParentJoint ex_kin b = Some b"
  by (simp add: ex_kin_def)

lemma ex_parentJointOf_gen:
  "parentJointOf ex_kin j = (if j = 1 then Some 0 else if j = 2 then Some 1 else None)"
  by (simp add: parentJointOf_def ex_kin_def)

text \<open>In the example, a joint's ancestors are the arm joints before it.\<close>

lemma ex_jointAncestor_iff: "jointAncestor ex_kin a j \<longleftrightarrow> a = j \<or> (a < j \<and> j \<le> 2)"
proof -
  have a0: "jointAncestor ex_kin a 0 \<longleftrightarrow> a = 0"
    by (subst jointAncestor_iff) (simp add: ex_parentJointOf_gen)
  have a1: "jointAncestor ex_kin a 1 \<longleftrightarrow> a \<le> 1"
    by (subst jointAncestor_iff) (auto simp: ex_parentJointOf_gen a0)
  have a2: "jointAncestor ex_kin a 2 \<longleftrightarrow> a \<le> 2"
    by (subst jointAncestor_iff) (auto simp: ex_parentJointOf_gen a1 a1 [unfolded One_nat_def])
  have a3: "j > 2 \<Longrightarrow> jointAncestor ex_kin a j \<longleftrightarrow> a = j"
    by (subst jointAncestor_iff) (auto simp: ex_parentJointOf_gen)
  show ?thesis
  proof (cases "j \<le> 2")
    case True
    then consider "j = 0" | "j = 1" | "j = 2" by linarith
    then show ?thesis by cases (auto simp: a0 a1 a2 a1 [unfolded One_nat_def])
  next
    case False
    then show ?thesis by (simp add: a3)
  qed
qed

lemma ex_jointAncestor_0_2: "jointAncestor ex_kin 0 2"
  by (rule ancestor_step [OF _ ancestor_step [OF _ ancestor_refl]]) (simp_all add: parentJointOf_def ex_kin_def)

lemma ex_not_jointAncestor_2_0: "\<not> jointAncestor ex_kin 2 0"
  by (subst jointAncestor_iff) simp

section \<open>Properties of the ancestor walks\<close>

text \<open>
  C1.  Both ancestor walks always return on a well-formed skeleton tree.
  \<open>isParent(dof, body)\<close> is true exactly when the DOF's joint lies on the
  chain of parent joints from the body up to the root: the skeleton-name,
  tree-index and index-order short cuts never change the answer of the walk.
  \<open>isParent(dof, dof)\<close> is, for two axes of one joint, true exactly when they
  are different axes, and otherwise exactly when the first DOF's joint is an
  ancestor of the second's.
\<close>

theorem isParent_terminates_ancestor:
  assumes "wf_kin k"
  shows "(b \<in> set (k_bodies k) \<longrightarrow>
            (\<exists>r. isParentBody k d b = Some r \<and> (r \<longleftrightarrow> dofAncestorOfBody k d b)))
       \<and> (dofJoint c \<in> set (k_joints k) \<longrightarrow>
            isParentDof k p c =
              Some (if dofJoint p = dofJoint c then dofIndexInJoint p \<noteq> dofIndexInJoint c
                    else jointAncestor k (dofJoint p) (dofJoint c)))"
  using isParentBody_correct [OF assms] isParentDof_correct [OF assms] by simp

lemma isParent_terminates_ancestor_witness:
  "isParentBody ex_kin (ex_dof 0) 2 = Some True
   \<and> isParentDof ex_kin (ex_dof 2) (ex_dof 0) = Some False
   \<and> isParentDof ex_kin (ex_dof 0) (ex_dof 2) = Some True"
proof -
  have b: "2 \<in> set (k_bodies ex_kin)" by (simp add: ex_kin_def)
  have j0: "dofJoint (ex_dof 0) \<in> set (k_joints ex_kin)"
    and j2: "dofJoint (ex_dof 2) \<in> set (k_joints ex_kin)"
    by (simp_all add: ex_kin_def ex_dof_def)
  obtain r where r: "isParentBody ex_kin (ex_dof 0) 2 = Some r"
    and iff: "r \<longleftrightarrow> dofAncestorOfBody ex_kin (ex_dof 0) 2"
    using isParent_terminates_ancestor [OF wf_ex_kin] b by blast
  have "dofAncestorOfBody ex_kin (ex_dof 0) 2"
    using ex_jointAncestor_0_2 by (simp add: dofAncestorOfBody_def ex_dof_def)
  with r iff have "isParentBody ex_kin (ex_dof 0) 2 = Some True" by simp
  moreover have "isParentDof ex_kin (ex_dof 2) (ex_dof 0) = Some False
      \<and> isParentDof ex_kin (ex_dof 0) (ex_dof 2) = Some True"
    using isParent_terminates_ancestor [OF wf_ex_kin, where c = "ex_dof 0" and p = "ex_dof 2"]
      isParent_terminates_ancestor [OF wf_ex_kin, where c = "ex_dof 2" and p = "ex_dof 0"] j0 j2
      ex_jointAncestor_0_2 ex_not_jointAncestor_2_0
    by (simp add: ex_dof_def)
  ultimately show ?thesis by simp
qed

end
