(* ===== verification/ContactClassifier.thy ===== *)
theory ContactClassifier
  imports Kinematics
begin

text \<open>
  The state of a \<open>DifferentiableContactConstraint\<close> and its queries that do
  not differentiate: the contact record it copies, the classification of a DOF
  against the contact (\<open>getDofContactType\<close>), the sign of the DOF's share of
  the contact force (\<open>getForceMultiple\<close>), and the contact's world position,
  normal, force direction and 6-force.

  \<open>collision::Contact\<close> and \<open>constraint::ContactConstraint\<close> are not under
  \<open>src/\<close>: \<open>Contact\<close> has the fields the spec lists, and \<open>ContactConstraint\<close>
  has the two bodies and the two tangent-basis methods the code calls.  A
  query that dereferences the null \<open>mContactConstraint\<close> of a non-contact
  constraint does not return: it is \<open>None\<close>, as is a column read of the
  tangent basis out of range.
\<close>

section \<open>Data\<close>

datatype ContactType = UNSUPPORTED | FACE_VERTEX | VERTEX_FACE | EDGE_EDGE

datatype DofContactType =
    NONE | FACE | VERTEX | EDGE_A | EDGE_B
  | VERTEX_FACE_SELF_COLLISION | EDGE_EDGE_SELF_COLLISION | DOF_UNSUPPORTED

record Contact =
  point :: vec3
  normal :: vec3
  contactType :: ContactType
  edgeAFixedPoint :: vec3
  edgeADir :: vec3
  edgeBFixedPoint :: vec3
  edgeBDir :: vec3

record ContactConstraint =
  bodyNodeA :: nat
  bodyNodeB :: nat
  ccContact :: Contact
  tangentBasisMatrixODE :: "vec3 \<Rightarrow> vec3 list"
  tangentBasisMatrixODEGradient :: "vec3 \<Rightarrow> vec3 \<Rightarrow> vec3 list"

record ConstraintBase =
  cbContactConstraint :: "ContactConstraint option"
  cbSkeletons :: "string list"

text \<open>
  The object.  \<open>mContactConstraint\<close> is \<open>None\<close> when \<open>mConstraint\<close> is not a
  contact constraint.  \<open>mContact\<close> is the copy of the contact taken by the
  constructor; for a non-contact constraint the C++ pointer is null and the
  model holds \<open>nullContact\<close>, which no query reads.
\<close>

record DifferentiableContactConstraint =
  mContactConstraint :: "ContactConstraint option"
  mContact :: Contact
  mIndex :: int
  mSkeletons :: "string list"
  mOffsetIntoWorld :: int
  mIsUpperBoundConstraint :: bool

record EdgeData =
  edgeAPos :: vec3
  edgeADirection :: vec3
  edgeBPos :: vec3
  edgeBDirection :: vec3

definition nullContact :: Contact where
  "nullContact = \<lparr> point = 0, normal = 0, contactType = UNSUPPORTED,
     edgeAFixedPoint = 0, edgeADir = 0, edgeBFixedPoint = 0, edgeBDir = 0 \<rparr>"

text \<open>The constructor: the contact is copied, the skeleton names recorded.  The
  peer-lookup fields are set later by \<open>setOffsetIntoWorld\<close>; the model starts
  them at 0 and false.\<close>

definition newDifferentiableContactConstraint ::
  "ConstraintBase \<Rightarrow> int \<Rightarrow> DifferentiableContactConstraint" where
  "newDifferentiableContactConstraint cb index =
     \<lparr> mContactConstraint = cbContactConstraint cb,
       mContact = (case cbContactConstraint cb of
                     None \<Rightarrow> nullContact
                   | Some cc \<Rightarrow> ccContact cc),
       mIndex = index,
       mSkeletons = cbSkeletons cb,
       mOffsetIntoWorld = 0,
       mIsUpperBoundConstraint = False \<rparr>"

definition isContactConstraint :: "DifferentiableContactConstraint \<Rightarrow> bool" where
  "isContactConstraint c \<longleftrightarrow> mContactConstraint c \<noteq> None"

section \<open>Geometry of the contact\<close>

definition getContactWorldPosition :: "DifferentiableContactConstraint \<Rightarrow> vec3" where
  "getContactWorldPosition c = (if \<not> isContactConstraint c then 0 else point (mContact c))"

definition getContactWorldNormal :: "DifferentiableContactConstraint \<Rightarrow> vec3" where
  "getContactWorldNormal c = (if \<not> isContactConstraint c then 0 else normal (mContact c))"

definition getContactWorldForceDirection ::
  "DifferentiableContactConstraint \<Rightarrow> vec3 option" where
  "getContactWorldForceDirection c =
     (case mContactConstraint c of
        None \<Rightarrow> Some 0
      | Some cc \<Rightarrow>
          (if mIndex c = 0 then Some (normal (mContact c))
           else col (tangentBasisMatrixODE cc (normal (mContact c))) (mIndex c - 1)))"

definition getWorldForce :: "DifferentiableContactConstraint \<Rightarrow> vec6 option" where
  "getWorldForce c =
     do { dir \<leftarrow> getContactWorldForceDirection c;
          Some (V6 (cross (getContactWorldPosition c) dir) dir) }"

definition getContactType :: "DifferentiableContactConstraint \<Rightarrow> ContactType" where
  "getContactType c = (if \<not> isContactConstraint c then UNSUPPORTED else contactType (mContact c))"

section \<open>Classification of a DOF against the contact\<close>

text \<open>The decision table of \<open>getDofContactType\<close>, on the two ancestor tests.\<close>

definition classifyDofContact :: "bool \<Rightarrow> bool \<Rightarrow> ContactType \<Rightarrow> DofContactType" where
  "classifyDofContact isParentA isParentB t =
     (if isParentA \<and> isParentB then
        (case t of
           FACE_VERTEX \<Rightarrow> VERTEX_FACE_SELF_COLLISION
         | VERTEX_FACE \<Rightarrow> VERTEX_FACE_SELF_COLLISION
         | EDGE_EDGE \<Rightarrow> EDGE_EDGE_SELF_COLLISION
         | _ \<Rightarrow> DOF_UNSUPPORTED)
      else if \<not> isParentA \<and> \<not> isParentB then NONE
      else if isParentA then
        (case t of
           FACE_VERTEX \<Rightarrow> FACE
         | VERTEX_FACE \<Rightarrow> VERTEX
         | EDGE_EDGE \<Rightarrow> EDGE_B
         | _ \<Rightarrow> DOF_UNSUPPORTED)
      else if isParentB then
        (case t of
           FACE_VERTEX \<Rightarrow> VERTEX
         | VERTEX_FACE \<Rightarrow> FACE
         | EDGE_EDGE \<Rightarrow> EDGE_A
         | _ \<Rightarrow> DOF_UNSUPPORTED)
      else NONE)"

definition getDofContactType ::
  "kin \<Rightarrow> DifferentiableContactConstraint \<Rightarrow> dof \<Rightarrow> DofContactType option" where
  "getDofContactType k c d =
     (case mContactConstraint c of
        None \<Rightarrow> None
      | Some cc \<Rightarrow>
          do { isParentA \<leftarrow> isParentBody k d (bodyNodeA cc);
               isParentB \<leftarrow> isParentBody k d (bodyNodeB cc);
               Some (classifyDofContact isParentA isParentB (getContactType c)) })"

text \<open>\<open>getForceMultiple\<close>: +1 on DOFs that move body A only, -1 on those that
  move body B only, 0 on shared ancestors (self-collision) and unrelated DOFs;
  1 for every DOF of a constraint that is not a contact.\<close>

definition getForceMultiple ::
  "kin \<Rightarrow> DifferentiableContactConstraint \<Rightarrow> dof \<Rightarrow> real option" where
  "getForceMultiple k c d =
     (case mContactConstraint c of
        None \<Rightarrow> Some 1
      | Some cc \<Rightarrow>
          do { isParentA \<leftarrow> isParentBody k d (bodyNodeA cc);
               isParentB \<leftarrow> isParentBody k d (bodyNodeB cc);
               Some (if isParentA \<and> isParentB then 0
                     else if isParentA then 1
                     else if isParentB then -1
                     else 0) })"

section \<open>Small accessors\<close>

definition setOffsetIntoWorld ::
  "int \<Rightarrow> bool \<Rightarrow> DifferentiableContactConstraint \<Rightarrow> DifferentiableContactConstraint" where
  "setOffsetIntoWorld offset isUpperBoundConstraint c =
     c\<lparr> mOffsetIntoWorld := offset, mIsUpperBoundConstraint := isUpperBoundConstraint \<rparr>"

definition getEdges :: "DifferentiableContactConstraint \<Rightarrow> EdgeData" where
  "getEdges c =
     (if getContactType c = EDGE_EDGE then
        \<lparr> edgeAPos = edgeAFixedPoint (mContact c), edgeADirection = edgeADir (mContact c),
          edgeBPos = edgeBFixedPoint (mContact c), edgeBDirection = edgeBDir (mContact c) \<rparr>
      else \<lparr> edgeAPos = 0, edgeADirection = 0, edgeBPos = 0, edgeBDirection = 0 \<rparr>)"

text \<open>\<open>getPeerConstraint\<close>: the constraint at the same offset in the upper-bound
  or clamping list of another snapshot.  The C++ indexes a \<open>std::vector\<close> with
  \<open>operator[]\<close>, unchecked: an offset out of range is \<open>None\<close>.\<close>

definition getPeerConstraint ::
  "DifferentiableContactConstraint \<Rightarrow> 'c list \<Rightarrow> 'c list \<Rightarrow> 'c option" where
  "getPeerConstraint c clamping upperBound =
     col (if mIsUpperBoundConstraint c then upperBound else clamping) (mOffsetIntoWorld c)"

section \<open>Lemmas\<close>

definition bodiesInKin :: "kin \<Rightarrow> ContactConstraint \<Rightarrow> bool" where
  "bodiesInKin k cc \<longleftrightarrow> bodyNodeA cc \<in> set (k_bodies k) \<and> bodyNodeB cc \<in> set (k_bodies k)"

text \<open>The same contact with its two bodies exchanged, as a test constructs it.\<close>

definition swapBodies :: "DifferentiableContactConstraint \<Rightarrow> DifferentiableContactConstraint" where
  "swapBodies c = c\<lparr> mContactConstraint := map_option
      (\<lambda>cc. cc\<lparr> bodyNodeA := bodyNodeB cc, bodyNodeB := bodyNodeA cc \<rparr>) (mContactConstraint c) \<rparr>"

lemma isContactConstraint_Some [simp]:
  "mContactConstraint c = Some cc \<Longrightarrow> isContactConstraint c"
  by (simp add: isContactConstraint_def)

lemma getDofContactType_eq:
  assumes "wf_kin k" "mContactConstraint c = Some cc" "bodiesInKin k cc"
  shows "getDofContactType k c d =
    Some (classifyDofContact (dofAncestorOfBody k d (bodyNodeA cc))
                             (dofAncestorOfBody k d (bodyNodeB cc)) (getContactType c))"
  using assms by (simp add: getDofContactType_def bodiesInKin_def isParentBody_correct)

lemma getForceMultiple_eq:
  assumes "wf_kin k" "mContactConstraint c = Some cc" "bodiesInKin k cc"
  shows "getForceMultiple k c d =
    Some (let a = dofAncestorOfBody k d (bodyNodeA cc); b = dofAncestorOfBody k d (bodyNodeB cc)
          in if a \<and> b then 0 else if a then 1 else if b then -1 else 0)"
  using assms by (simp add: getForceMultiple_def bodiesInKin_def isParentBody_correct)

lemma getDofContactType_not_contact [simp]:
  "mContactConstraint c = None \<Longrightarrow> getDofContactType k c d = None"
  by (simp add: getDofContactType_def)

lemma getForceMultiple_not_contact [simp]:
  "mContactConstraint c = None \<Longrightarrow> getForceMultiple k c d = Some 1"
  by (simp add: getForceMultiple_def)

lemma getWorldForce_not_contact [simp]:
  "mContactConstraint c = None \<Longrightarrow> getWorldForce c = Some 0"
  by (simp add: getWorldForce_def getContactWorldForceDirection_def
      getContactWorldPosition_def isContactConstraint_def)

lemma getWorldForce_Some_iff:
  "getWorldForce c = Some F \<longleftrightarrow>
     (\<exists>dir. getContactWorldForceDirection c = Some dir
           \<and> F = V6 (cross (getContactWorldPosition c) dir) dir)"
  by (auto simp: getWorldForce_def split: Option.bind_splits)

text \<open>Classification never looks at more than the two ancestor tests and the
  contact type; the non-contact placeholder is never read.\<close>

lemma classify_none_iff:
  "classifyDofContact a b t = NONE \<longleftrightarrow> \<not> a \<and> \<not> b"
  by (cases t) (auto simp: classifyDofContact_def)

lemma swapBodies_contact [simp]:
  "mContactConstraint c = Some cc \<Longrightarrow>
   mContactConstraint (swapBodies c) = Some (cc\<lparr> bodyNodeA := bodyNodeB cc, bodyNodeB := bodyNodeA cc \<rparr>)"
  by (simp add: swapBodies_def)

lemma getForceMultiple_swapBodies:
  assumes "isContactConstraint c"
  shows "getForceMultiple k (swapBodies c) d = map_option uminus (getForceMultiple k c d)"
proof -
  obtain cc where cc: "mContactConstraint c = Some cc"
    using assms by (auto simp: isContactConstraint_def)
  show ?thesis
    using cc by (auto simp: getForceMultiple_def split: Option.bind_split)
qed

section \<open>Example contacts\<close>

text \<open>A contact of type \<open>t\<close> between bodies \<open>a\<close> (A) and \<open>b\<close> (B) of the example
  world at \<open>(2, 1, 0)\<close>, normal \<open>+y\<close>, with a constant ODE tangent basis.\<close>

definition ex_cc :: "nat \<Rightarrow> nat \<Rightarrow> ContactType \<Rightarrow> ContactConstraint" where
  "ex_cc a b t = \<lparr> bodyNodeA = a, bodyNodeB = b,
     ccContact = \<lparr> point = V3 2 1 0, normal = V3 0 1 0, contactType = t,
                   edgeAFixedPoint = V3 2 1 0, edgeADir = V3 (3/5) (4/5) 0,
                   edgeBFixedPoint = V3 2 1 0, edgeBDir = V3 1 0 0 \<rparr>,
     tangentBasisMatrixODE = (\<lambda>n. [V3 1 0 0, V3 0 0 1]),
     tangentBasisMatrixODEGradient = (\<lambda>n g. [cross g (V3 1 0 0), cross g (V3 0 0 1)]) \<rparr>"

definition ex_dcc :: "nat \<Rightarrow> nat \<Rightarrow> ContactType \<Rightarrow> int \<Rightarrow> DifferentiableContactConstraint" where
  "ex_dcc a b t i = newDifferentiableContactConstraint
     \<lparr> cbContactConstraint = Some (ex_cc a b t), cbSkeletons = [''arm'', ''ground''] \<rparr> i"

lemma ex_dcc_contact [simp]: "mContactConstraint (ex_dcc a b t i) = Some (ex_cc a b t)"
  by (simp add: ex_dcc_def newDifferentiableContactConstraint_def)

lemma ex_dcc_type [simp]: "getContactType (ex_dcc a b t i) = t"
  by (simp add: ex_dcc_def newDifferentiableContactConstraint_def getContactType_def
      isContactConstraint_def ex_cc_def)

lemma ex_dcc_fields [simp]:
  "mContact (ex_dcc a b t i) = ccContact (ex_cc a b t)"
  "mIndex (ex_dcc a b t i) = i"
  "mSkeletons (ex_dcc a b t i) = [''arm'', ''ground'']"
  by (simp_all add: ex_dcc_def newDifferentiableContactConstraint_def)

lemma ex_dcc_geometry [simp]:
  "getContactWorldPosition (ex_dcc a b t i) = V3 2 1 0"
  "getContactWorldNormal (ex_dcc a b t i) = V3 0 1 0"
  "getContactWorldForceDirection (ex_dcc a b t 0) = Some (V3 0 1 0)"
  by (simp_all add: getContactWorldPosition_def getContactWorldNormal_def isContactConstraint_def
      getContactWorldForceDirection_def ex_cc_def)

lemma ex_bodiesInKin: "a \<le> 3 \<Longrightarrow> b \<le> 3 \<Longrightarrow> bodiesInKin ex_kin (ex_cc a b t)"
  by (auto simp: bodiesInKin_def ex_cc_def ex_kin_def)

lemma ex_dofAncestorOfBody [simp]:
  "dofAncestorOfBody ex_kin (ex_dof j) b \<longleftrightarrow> j = b \<or> (j < b \<and> b \<le> 2)"
  by (simp add: dofAncestorOfBody_def ex_dof_def ex_jointAncestor_iff)

section \<open>Properties of the classification\<close>

text \<open>
  C2.  On a well-formed tree \<open>getDofContactType\<close> returns for every DOF of a
  contact constraint, and it returns \<open>NONE\<close> exactly for the DOFs that are
  ancestors of neither contact body, whatever the contact type.  (The spec's
  table also lists \<open>UNSUPPORTED\<close> for "any, any, UNSUPPORTED"; the code tests
  the unrelated case first, so an unrelated DOF is \<open>NONE\<close> there too.)
\<close>

theorem dofContactType_NONE_iff:
  assumes "wf_kin k" "mContactConstraint c = Some cc" "bodiesInKin k cc"
  shows "\<exists>t. getDofContactType k c d = Some t \<and>
    (t = NONE \<longleftrightarrow> \<not> dofAncestorOfBody k d (bodyNodeA cc) \<and> \<not> dofAncestorOfBody k d (bodyNodeB cc))"
  using getDofContactType_eq [OF assms] by (simp add: classify_none_iff)

lemma dofContactType_NONE_iff_witness:
  "getDofContactType ex_kin (ex_dcc 1 3 UNSUPPORTED 0) (ex_dof 2) = Some NONE"
proof -
  obtain t where t: "getDofContactType ex_kin (ex_dcc 1 3 UNSUPPORTED 0) (ex_dof 2) = Some t"
    and iff: "t = NONE \<longleftrightarrow> \<not> dofAncestorOfBody ex_kin (ex_dof 2) 1 \<and> \<not> dofAncestorOfBody ex_kin (ex_dof 2) 3"
    using dofContactType_NONE_iff [OF wf_ex_kin ex_dcc_contact ex_bodiesInKin, of 1 3 UNSUPPORTED 0 "ex_dof 2"]
    by (auto simp: ex_cc_def)
  with t show ?thesis by simp
qed

text \<open>
  C3.  The classification table of the supported contact types.  For an
  edge-edge contact the edge a DOF moves is the far one: a DOF that moves only
  body A is \<open>EDGE_B\<close>, one that moves only body B is \<open>EDGE_A\<close>, a shared ancestor
  is an edge-edge self-collision.  For vertex-face contacts a DOF that moves
  only the vertex's body is \<open>VERTEX\<close>, one that moves only the face's body is
  \<open>FACE\<close>, a shared ancestor is a vertex-face self-collision; \<open>VERTEX_FACE\<close> has
  the vertex on A and \<open>FACE_VERTEX\<close> has it on B.
\<close>

theorem dofContactType_table:
  assumes "wf_kin k" "mContactConstraint c = Some cc" "bodiesInKin k cc"
  shows "(getContactType c = EDGE_EDGE \<longrightarrow> getDofContactType k c d =
      Some (let a = dofAncestorOfBody k d (bodyNodeA cc); b = dofAncestorOfBody k d (bodyNodeB cc)
            in if a \<and> b then EDGE_EDGE_SELF_COLLISION else if a then EDGE_B
               else if b then EDGE_A else NONE))
    \<and> (getContactType c \<in> {VERTEX_FACE, FACE_VERTEX} \<longrightarrow> getDofContactType k c d =
      Some (let a = dofAncestorOfBody k d (bodyNodeA cc); b = dofAncestorOfBody k d (bodyNodeB cc);
                onVertex = (if getContactType c = VERTEX_FACE then a else b);
                onFace = (if getContactType c = VERTEX_FACE then b else a)
            in if a \<and> b then VERTEX_FACE_SELF_COLLISION else if onVertex then VERTEX
               else if onFace then FACE else NONE))"
  using getDofContactType_eq [OF assms] by (auto simp: classifyDofContact_def Let_def)

lemma dofContactType_table_witness:
  "getDofContactType ex_kin (ex_dcc 2 3 EDGE_EDGE 0) (ex_dof 0) = Some EDGE_B
   \<and> getDofContactType ex_kin (ex_dcc 3 2 EDGE_EDGE 0) (ex_dof 0) = Some EDGE_A
   \<and> getDofContactType ex_kin (ex_dcc 2 3 VERTEX_FACE 0) (ex_dof 1) = Some VERTEX
   \<and> getDofContactType ex_kin (ex_dcc 2 3 FACE_VERTEX 0) (ex_dof 1) = Some FACE
   \<and> getDofContactType ex_kin (ex_dcc 2 1 VERTEX_FACE 0) (ex_dof 0) = Some VERTEX_FACE_SELF_COLLISION"
  using dofContactType_table [of ex_kin "ex_dcc 2 3 EDGE_EDGE 0" "ex_cc 2 3 EDGE_EDGE" "ex_dof 0"]
    dofContactType_table [of ex_kin "ex_dcc 3 2 EDGE_EDGE 0" "ex_cc 3 2 EDGE_EDGE" "ex_dof 0"]
    dofContactType_table [of ex_kin "ex_dcc 2 3 VERTEX_FACE 0" "ex_cc 2 3 VERTEX_FACE" "ex_dof 1"]
    dofContactType_table [of ex_kin "ex_dcc 2 3 FACE_VERTEX 0" "ex_cc 2 3 FACE_VERTEX" "ex_dof 1"]
    dofContactType_table [of ex_kin "ex_dcc 2 1 VERTEX_FACE 0" "ex_cc 2 1 VERTEX_FACE" "ex_dof 0"]
  by (simp add: wf_ex_kin ex_bodiesInKin) (simp add: ex_cc_def)

text \<open>
  C4.  On a well-formed tree \<open>getForceMultiple\<close> returns for every DOF of a
  contact constraint; it is nonzero exactly on the DOFs that are ancestors of
  one contact body but not of the other, +1 for body A and -1 for body B.
\<close>

theorem forceMultiple_xor:
  assumes "wf_kin k" "mContactConstraint c = Some cc" "bodiesInKin k cc"
  shows "getForceMultiple k c d =
    Some (let a = dofAncestorOfBody k d (bodyNodeA cc); b = dofAncestorOfBody k d (bodyNodeB cc)
          in if a = b then 0 else if a then 1 else -1)"
  using getForceMultiple_eq [OF assms] by (simp add: Let_def)

lemma forceMultiple_xor_witness:
  "getForceMultiple ex_kin (ex_dcc 2 3 VERTEX_FACE 0) (ex_dof 1) = Some 1
   \<and> getForceMultiple ex_kin (ex_dcc 3 2 VERTEX_FACE 0) (ex_dof 1) = Some (-1)
   \<and> getForceMultiple ex_kin (ex_dcc 2 1 VERTEX_FACE 0) (ex_dof 0) = Some 0"
  using forceMultiple_xor [of ex_kin "ex_dcc 2 3 VERTEX_FACE 0" "ex_cc 2 3 VERTEX_FACE" "ex_dof 1"]
    forceMultiple_xor [of ex_kin "ex_dcc 3 2 VERTEX_FACE 0" "ex_cc 3 2 VERTEX_FACE" "ex_dof 1"]
    forceMultiple_xor [of ex_kin "ex_dcc 2 1 VERTEX_FACE 0" "ex_cc 2 1 VERTEX_FACE" "ex_dof 0"]
  by (simp add: wf_ex_kin ex_bodiesInKin) (simp add: ex_cc_def)

end
