(* ===== verification/ContactGradients.thy ===== *)
theory ContactGradients
  imports ContactClassifier
begin

text \<open>
  The differentiating queries of \<open>DifferentiableContactConstraint\<close>: the
  gradients of the contact point, normal, force direction and 6-force with
  respect to one DOF, the gradient of a screw axis with respect to another DOF,
  the generalized constraint force and its derivative, and the Jacobians that
  loop these over the DOFs of a skeleton or of the world.

  \<open>math::getContactPointGradient\<close> (the derivative of the closest point of two
  skew lines, in \<open>dart/math\<close>, not under \<open>src/\<close>) is a parameter \<open>cpg\<close> of the
  queries that need it.  A Jacobian is the list of its columns, a matrix of
  reals the list of its rows.  Every query is \<open>None\<close> when a call it makes does
  not return.
\<close>

type_synonym contactPointGradientFn =
  "vec3 \<Rightarrow> vec3 \<Rightarrow> vec3 \<Rightarrow> vec3 \<Rightarrow> vec3 \<Rightarrow> vec3 \<Rightarrow> vec3 \<Rightarrow> vec3 \<Rightarrow> vec3"

section \<open>Gradients with respect to one DOF\<close>

definition getContactPositionGradient ::
  "contactPointGradientFn \<Rightarrow> kin \<Rightarrow> DifferentiableContactConstraint \<Rightarrow> dof \<Rightarrow> vec3 option" where
  "getContactPositionGradient cpg k c d =
     (let contactPos = getContactWorldPosition c; ct = mContact c in
      do { type \<leftarrow> getDofContactType k c d;
           if type = FACE then Some 0
           else if type = VERTEX \<or> type = VERTEX_FACE_SELF_COLLISION
                   \<or> type = EDGE_EDGE_SELF_COLLISION \<or> type = EDGE_A \<or> type = EDGE_B then
             (let worldTwist = getWorldScrewAxis k d in
              if type = VERTEX \<or> type = VERTEX_FACE_SELF_COLLISION
                 \<or> type = EDGE_EDGE_SELF_COLLISION then
                Some (gradientWrtTheta worldTwist contactPos)
              else if type = EDGE_A then
                Some (cpg (edgeAFixedPoint ct) (gradientWrtTheta worldTwist (edgeAFixedPoint ct))
                          (edgeADir ct) (gradientWrtThetaPureRotation (head6 worldTwist) (edgeADir ct))
                          (edgeBFixedPoint ct) 0 (edgeBDir ct) 0)
              else
                Some (cpg (edgeAFixedPoint ct) 0 (edgeADir ct) 0
                          (edgeBFixedPoint ct) (gradientWrtTheta worldTwist (edgeBFixedPoint ct))
                          (edgeBDir ct) (gradientWrtThetaPureRotation (head6 worldTwist) (edgeBDir ct))))
           else Some 0 })"

definition getContactNormalGradient ::
  "kin \<Rightarrow> DifferentiableContactConstraint \<Rightarrow> dof \<Rightarrow> vec3 option" where
  "getContactNormalGradient k c d =
     (let normal = getContactWorldNormal c; ct = mContact c in
      do { type \<leftarrow> getDofContactType k c d;
           if type = VERTEX then Some 0
           else if type = FACE \<or> type = VERTEX_FACE_SELF_COLLISION \<or> type = EDGE_A
                   \<or> type = EDGE_B \<or> type = EDGE_EDGE_SELF_COLLISION then
             (let worldTwist = getWorldScrewAxis k d in
              if type = FACE \<or> type = VERTEX_FACE_SELF_COLLISION
                 \<or> type = EDGE_EDGE_SELF_COLLISION then
                Some (gradientWrtThetaPureRotation (head6 worldTwist) normal)
              else if type = EDGE_A then
                Some (cross (gradientWrtThetaPureRotation (head6 worldTwist) (edgeADir ct)) (edgeBDir ct))
              else
                Some (cross (edgeADir ct) (gradientWrtThetaPureRotation (head6 worldTwist) (edgeBDir ct))))
           else Some 0 })"

text \<open>The threshold \<open>1e-12\<close> on the squared norm of the normal gradient.\<close>

definition normalGradientEps :: real where
  "normalGradientEps = 1 / 10 ^ 12"

definition getContactForceGradient ::
  "kin \<Rightarrow> DifferentiableContactConstraint \<Rightarrow> dof \<Rightarrow> vec3 option" where
  "getContactForceGradient k c d =
     do { type \<leftarrow> getDofContactType k c d;
          if type = VERTEX then Some 0
          else if type = FACE \<or> type = VERTEX_FACE_SELF_COLLISION \<or> type = EDGE_A
                  \<or> type = EDGE_B \<or> type = EDGE_EDGE_SELF_COLLISION then
            (let contactNormal = getContactWorldNormal c in
             do { normalGradient \<leftarrow> getContactNormalGradient k c d;
                  if mIndex c = 0 \<or> squaredNorm normalGradient \<le> normalGradientEps then
                    Some normalGradient
                  else
                    (case mContactConstraint c of
                       None \<Rightarrow> None
                     | Some cc \<Rightarrow>
                         col (tangentBasisMatrixODEGradient cc contactNormal normalGradient)
                             (mIndex c - 1)) })
          else Some 0 }"

definition getContactWorldForceGradient ::
  "contactPointGradientFn \<Rightarrow> kin \<Rightarrow> DifferentiableContactConstraint \<Rightarrow> dof \<Rightarrow> vec6 option" where
  "getContactWorldForceGradient cpg k c d =
     (let position = getContactWorldPosition c in
      do { force \<leftarrow> getContactWorldForceDirection c;
           forceGradient \<leftarrow> getContactForceGradient k c d;
           positionGradient \<leftarrow> getContactPositionGradient cpg k c d;
           Some (V6 (cross position forceGradient + cross positionGradient force) forceGradient) })"

definition getEdgeGradient ::
  "kin \<Rightarrow> DifferentiableContactConstraint \<Rightarrow> dof \<Rightarrow> EdgeData option" where
  "getEdgeGradient k c d =
     (let worldTwist = getWorldScrewAxis k d; ct = mContact c;
          aPos = gradientWrtTheta worldTwist (edgeAFixedPoint ct);
          aDir = gradientWrtThetaPureRotation (head6 worldTwist) (edgeADir ct);
          bPos = gradientWrtTheta worldTwist (edgeBFixedPoint ct);
          bDir = gradientWrtThetaPureRotation (head6 worldTwist) (edgeBDir ct) in
      do { type \<leftarrow> getDofContactType k c d;
           Some (if type = EDGE_A then
                   \<lparr> edgeAPos = aPos, edgeADirection = aDir, edgeBPos = 0, edgeBDirection = 0 \<rparr>
                 else if type = EDGE_B then
                   \<lparr> edgeAPos = 0, edgeADirection = 0, edgeBPos = bPos, edgeBDirection = bDir \<rparr>
                 else if type = EDGE_EDGE_SELF_COLLISION then
                   \<lparr> edgeAPos = aPos, edgeADirection = aDir, edgeBPos = bPos, edgeBDirection = bDir \<rparr>
                 else \<lparr> edgeAPos = 0, edgeADirection = 0, edgeBPos = 0, edgeBDirection = 0 \<rparr>) })"

definition getScrewAxisGradient :: "kin \<Rightarrow> dof \<Rightarrow> dof \<Rightarrow> vec6 option" where
  "getScrewAxisGradient k screwDof rotateDof =
     do { parent \<leftarrow> isParentDof k rotateDof screwDof;
          Some (if \<not> parent then 0
                else ad (getWorldScrewAxis k rotateDof) (getWorldScrewAxis k screwDof)) }"

section \<open>Jacobians: one column per DOF\<close>

definition getContactPositionJacobian ::
  "contactPointGradientFn \<Rightarrow> world \<Rightarrow> DifferentiableContactConstraint \<Rightarrow> vec3 list option" where
  "getContactPositionJacobian cpg w c =
     map_opt (getContactPositionGradient cpg (worldKin w) c) (worldDofs w)"

definition getContactPositionJacobianSkel ::
  "contactPointGradientFn \<Rightarrow> kin \<Rightarrow> DifferentiableContactConstraint \<Rightarrow> skeleton \<Rightarrow> vec3 list option" where
  "getContactPositionJacobianSkel cpg k c s =
     map_opt (getContactPositionGradient cpg k c) (skelDofs s)"

definition getContactForceDirectionJacobian ::
  "world \<Rightarrow> DifferentiableContactConstraint \<Rightarrow> vec3 list option" where
  "getContactForceDirectionJacobian w c =
     map_opt (getContactForceGradient (worldKin w) c) (worldDofs w)"

definition getContactForceDirectionJacobianSkel ::
  "kin \<Rightarrow> DifferentiableContactConstraint \<Rightarrow> skeleton \<Rightarrow> vec3 list option" where
  "getContactForceDirectionJacobianSkel k c s =
     map_opt (getContactForceGradient k c) (skelDofs s)"

definition getContactForceJacobian ::
  "contactPointGradientFn \<Rightarrow> world \<Rightarrow> DifferentiableContactConstraint \<Rightarrow> vec6 list option" where
  "getContactForceJacobian cpg w c =
     (let pos = getContactWorldPosition c in
      do { dir \<leftarrow> getContactWorldForceDirection c;
           posJac \<leftarrow> getContactPositionJacobian cpg w c;
           dirJac \<leftarrow> getContactForceDirectionJacobian w c;
           Some (map2 (\<lambda>posCol dirCol. V6 (cross pos dirCol + cross posCol dir) dirCol) posJac dirJac) })"

definition getContactForceJacobianSkel ::
  "contactPointGradientFn \<Rightarrow> kin \<Rightarrow> DifferentiableContactConstraint \<Rightarrow> skeleton \<Rightarrow> vec6 list option" where
  "getContactForceJacobianSkel cpg k c s =
     (let pos = getContactWorldPosition c in
      do { dir \<leftarrow> getContactWorldForceDirection c;
           posJac \<leftarrow> getContactPositionJacobianSkel cpg k c s;
           dirJac \<leftarrow> getContactForceDirectionJacobianSkel k c s;
           Some (map2 (\<lambda>posCol dirCol. V6 (cross pos dirCol + cross posCol dir) dirCol) posJac dirJac) })"

section \<open>Generalized constraint forces\<close>

definition getConstraintForce ::
  "kin \<Rightarrow> DifferentiableContactConstraint \<Rightarrow> dof \<Rightarrow> real option" where
  "getConstraintForce k c d =
     do { multiple \<leftarrow> getForceMultiple k c d;
          worldForce \<leftarrow> getWorldForce c;
          Some (dot6 (getWorldScrewAxis k d) worldForce * multiple) }"

definition getConstraintForceDerivative ::
  "contactPointGradientFn \<Rightarrow> kin \<Rightarrow> DifferentiableContactConstraint \<Rightarrow> dof \<Rightarrow> dof \<Rightarrow> real option" where
  "getConstraintForceDerivative cpg k c d wrt =
     do { multiple \<leftarrow> getForceMultiple k c d;
          worldForce \<leftarrow> getWorldForce c;
          gradientOfWorldForce \<leftarrow> getContactWorldForceGradient cpg k c wrt;
          gradientOfWorldTwist \<leftarrow> getScrewAxisGradient k d wrt;
          Some ((dot6 (getWorldScrewAxis k d) gradientOfWorldForce
                 + dot6 gradientOfWorldTwist worldForce) * multiple) }"

definition getConstraintForcesSkel ::
  "kin \<Rightarrow> DifferentiableContactConstraint \<Rightarrow> skeleton \<Rightarrow> real list option" where
  "getConstraintForcesSkel k c s =
     (if skelName s \<notin> set (mSkeletons c) then Some (replicate (length (skelDofs s)) 0)
      else do { worldForce \<leftarrow> getWorldForce c;
                map_opt (\<lambda>d. do { multiple \<leftarrow> getForceMultiple k c d;
                                  Some (if multiple = 0 then 0
                                        else dot6 (getWorldScrewAxis k d) worldForce * multiple) })
                        (skelDofs s) })"

definition getConstraintForces ::
  "world \<Rightarrow> DifferentiableContactConstraint \<Rightarrow> real list option" where
  "getConstraintForces w c =
     do { taus \<leftarrow> map_opt (getConstraintForcesSkel (worldKin w) c) (worldSkeletons w);
          Some (concat taus) }"

section \<open>Jacobians of the generalized constraint forces\<close>

text \<open>One row of the Jacobian: the DOF \<open>rowDof\<close> against the DOFs \<open>wrtDofs\<close>,
  whose contact 6-force gradients are the columns \<open>forceJac\<close>.\<close>

definition constraintForcesJacobianRow ::
  "kin \<Rightarrow> DifferentiableContactConstraint \<Rightarrow> vec6 \<Rightarrow> dof list \<Rightarrow> vec6 list \<Rightarrow> dof \<Rightarrow> real list option" where
  "constraintForcesJacobianRow k c force wrtDofs forceJac rowDof =
     (let axis = getWorldScrewAxis k rowDof in
      map_opt (\<lambda>(wrtDof, forceGradient).
          do { screwAxisGradient \<leftarrow> getScrewAxisGradient k rowDof wrtDof;
               multiple \<leftarrow> getForceMultiple k c rowDof;
               Some (multiple * (dot6 screwAxisGradient force + dot6 axis forceGradient)) })
        (zip wrtDofs forceJac))"

definition getConstraintForcesJacobian ::
  "contactPointGradientFn \<Rightarrow> world \<Rightarrow> DifferentiableContactConstraint \<Rightarrow> real list list option" where
  "getConstraintForcesJacobian cpg w c =
     do { forceJac \<leftarrow> getContactForceJacobian cpg w c;
          force \<leftarrow> getWorldForce c;
          map_opt (constraintForcesJacobianRow (worldKin w) c force (worldDofs w) forceJac)
                  (worldDofs w) }"

definition getConstraintForcesJacobianSkelWrt ::
  "contactPointGradientFn \<Rightarrow> kin \<Rightarrow> DifferentiableContactConstraint \<Rightarrow> skeleton \<Rightarrow> skeleton
   \<Rightarrow> real list list option" where
  "getConstraintForcesJacobianSkelWrt cpg k c s wrt =
     do { forceJac \<leftarrow> getContactForceJacobianSkel cpg k c wrt;
          force \<leftarrow> getWorldForce c;
          map_opt (constraintForcesJacobianRow k c force (skelDofs wrt) forceJac) (skelDofs s) }"

definition getConstraintForcesJacobianSkelsWrt ::
  "contactPointGradientFn \<Rightarrow> kin \<Rightarrow> DifferentiableContactConstraint \<Rightarrow> skeleton list \<Rightarrow> skeleton
   \<Rightarrow> real list list option" where
  "getConstraintForcesJacobianSkelsWrt cpg k c skels wrt =
     do { forceJac \<leftarrow> getContactForceJacobianSkel cpg k c wrt;
          force \<leftarrow> getWorldForce c;
          map_opt (constraintForcesJacobianRow k c force (skelDofs wrt) forceJac)
                  (concat (map skelDofs skels)) }"

text \<open>\<open>getConstraintForcesJacobian(skels)\<close>: the square matrix assembled from
  one block of columns per skeleton, written at a moving column cursor.\<close>

definition hcat :: "real list list \<Rightarrow> real list list \<Rightarrow> real list list" where
  "hcat left right = map2 (@) left right"

definition getConstraintForcesJacobianSkels ::
  "contactPointGradientFn \<Rightarrow> kin \<Rightarrow> DifferentiableContactConstraint \<Rightarrow> skeleton list
   \<Rightarrow> real list list option" where
  "getConstraintForcesJacobianSkels cpg k c skels =
     (let dofs = length (concat (map skelDofs skels)) in
      do { blocks \<leftarrow> map_opt (getConstraintForcesJacobianSkelsWrt cpg k c skels) skels;
           Some (foldl hcat (replicate dofs []) blocks) })"

section \<open>Lemmas: the gradients by DOF contact type\<close>

text \<open>Each gradient, once the DOF's contact type is known.\<close>

lemma positionGradient_by_type:
  assumes "getDofContactType k c d = Some t"
  shows "getContactPositionGradient cpg k c d =
    Some (if t = VERTEX \<or> t = VERTEX_FACE_SELF_COLLISION \<or> t = EDGE_EDGE_SELF_COLLISION
          then gradientWrtTheta (getWorldScrewAxis k d) (getContactWorldPosition c)
          else if t = EDGE_A then
            cpg (edgeAFixedPoint (mContact c))
                (gradientWrtTheta (getWorldScrewAxis k d) (edgeAFixedPoint (mContact c)))
                (edgeADir (mContact c))
                (gradientWrtThetaPureRotation (head6 (getWorldScrewAxis k d)) (edgeADir (mContact c)))
                (edgeBFixedPoint (mContact c)) 0 (edgeBDir (mContact c)) 0
          else if t = EDGE_B then
            cpg (edgeAFixedPoint (mContact c)) 0 (edgeADir (mContact c)) 0
                (edgeBFixedPoint (mContact c))
                (gradientWrtTheta (getWorldScrewAxis k d) (edgeBFixedPoint (mContact c)))
                (edgeBDir (mContact c))
                (gradientWrtThetaPureRotation (head6 (getWorldScrewAxis k d)) (edgeBDir (mContact c)))
          else 0)"
  using assms by (cases t) (simp_all add: getContactPositionGradient_def Let_def)

lemma normalGradient_by_type:
  assumes "getDofContactType k c d = Some t"
  shows "getContactNormalGradient k c d =
    Some (if t = FACE \<or> t = VERTEX_FACE_SELF_COLLISION \<or> t = EDGE_EDGE_SELF_COLLISION
          then gradientWrtThetaPureRotation (head6 (getWorldScrewAxis k d)) (getContactWorldNormal c)
          else if t = EDGE_A then
            cross (gradientWrtThetaPureRotation (head6 (getWorldScrewAxis k d)) (edgeADir (mContact c)))
                  (edgeBDir (mContact c))
          else if t = EDGE_B then
            cross (edgeADir (mContact c))
                  (gradientWrtThetaPureRotation (head6 (getWorldScrewAxis k d)) (edgeBDir (mContact c)))
          else 0)"
  using assms by (cases t) (simp_all add: getContactNormalGradient_def Let_def)

lemma forceGradient_zero_types:
  assumes "getDofContactType k c d = Some t" "t = VERTEX \<or> t = NONE \<or> t = DOF_UNSUPPORTED"
  shows "getContactForceGradient k c d = Some 0"
  using assms by (auto simp: getContactForceGradient_def)

lemma forceGradient_index0:
  assumes "mIndex c = 0"
  shows "getContactForceGradient k c d = getContactNormalGradient k c d"
proof (cases "getDofContactType k c d")
  case None
  then show ?thesis
    by (simp add: getContactForceGradient_def getContactNormalGradient_def Let_def)
next
  case (Some t)
  show ?thesis
  proof (cases "t = VERTEX \<or> t = NONE \<or> t = DOF_UNSUPPORTED")
    case True
    with Some show ?thesis
      using forceGradient_zero_types normalGradient_by_type by fastforce
  next
    case False
    with Some assms show ?thesis
      by (cases t) (auto simp: getContactForceGradient_def split: Option.bind_split)
  qed
qed

lemma worldForceGradient_eq:
  assumes "getContactWorldForceDirection c = Some dir"
  shows "getContactWorldForceGradient cpg k c d =
    do { fg \<leftarrow> getContactForceGradient k c d; pg \<leftarrow> getContactPositionGradient cpg k c d;
         Some (V6 (cross (getContactWorldPosition c) fg + cross pg dir) fg) }"
  using assms by (simp add: getContactWorldForceGradient_def)

text \<open>For a DOF related to neither body every gradient vanishes.\<close>

lemma gradients_NONE:
  assumes "getDofContactType k c d = Some NONE"
  shows "getContactPositionGradient cpg k c d = Some 0"
    "getContactNormalGradient k c d = Some 0"
    "getContactForceGradient k c d = Some 0"
  using positionGradient_by_type [OF assms] normalGradient_by_type [OF assms]
    forceGradient_zero_types [OF assms] by simp_all

lemma constraintForce_eq:
  assumes "getForceMultiple k c d = Some m" "getContactWorldForceDirection c = Some dir"
  shows "getConstraintForce k c d =
    Some (m * dot (gradientWrtTheta (getWorldScrewAxis k d) (getContactWorldPosition c)) dir)"
  using assms by (simp add: getConstraintForce_def getWorldForce_def dot6_point_wrench)

section \<open>Lemmas: the Jacobian loops\<close>

lemma contactForceJacobian_eq:
  assumes "getContactWorldForceDirection c = Some dir"
  shows "getContactForceJacobian cpg w c
    = map_opt (getContactWorldForceGradient cpg (worldKin w) c) (worldDofs w)"
proof -
  have "getContactForceJacobian cpg w c
    = map_opt (\<lambda>x. do { p \<leftarrow> getContactPositionGradient cpg (worldKin w) c x;
                        q \<leftarrow> getContactForceGradient (worldKin w) c x;
                        Some (V6 (cross (getContactWorldPosition c) q + cross p dir) q) }) (worldDofs w)"
    using assms by (simp add: getContactForceJacobian_def getContactPositionJacobian_def
        getContactForceDirectionJacobian_def map_opt_map2)
  also have "\<dots> = map_opt (getContactWorldForceGradient cpg (worldKin w) c) (worldDofs w)"
    using assms
    by (intro map_opt_cong, simp only: worldForceGradient_eq)
      (simp add: bind_commute_option [of "getContactPositionGradient cpg (worldKin w) c _"])
  finally show ?thesis .
qed

lemma contactForceJacobianSkel_eq:
  assumes "getContactWorldForceDirection c = Some dir"
  shows "getContactForceJacobianSkel cpg k c s
    = map_opt (getContactWorldForceGradient cpg k c) (skelDofs s)"
proof -
  have "getContactForceJacobianSkel cpg k c s
    = map_opt (\<lambda>x. do { p \<leftarrow> getContactPositionGradient cpg k c x;
                        q \<leftarrow> getContactForceGradient k c x;
                        Some (V6 (cross (getContactWorldPosition c) q + cross p dir) q) }) (skelDofs s)"
    using assms by (simp add: getContactForceJacobianSkel_def getContactPositionJacobianSkel_def
        getContactForceDirectionJacobianSkel_def map_opt_map2)
  also have "\<dots> = map_opt (getContactWorldForceGradient cpg k c) (skelDofs s)"
    using assms
    by (intro map_opt_cong, simp only: worldForceGradient_eq)
      (simp add: bind_commute_option [of "getContactPositionGradient cpg k c _"])
  finally show ?thesis .
qed

lemma constraintForceDerivative_None:
  "getContactWorldForceGradient cpg k c x = None \<Longrightarrow> getConstraintForceDerivative cpg k c r x = None"
  by (simp add: getConstraintForceDerivative_def split: Option.bind_split)

text \<open>A row of the Jacobian loop is the row of derivatives.\<close>

lemma constraintForcesJacobianRow_eq:
  assumes "getWorldForce c = Some F"
    and "map_opt (getContactWorldForceGradient cpg k c) cols = Some fj"
  shows "constraintForcesJacobianRow k c F cols fj r
    = map_opt (getConstraintForceDerivative cpg k c r) cols"
proof -
  have "constraintForcesJacobianRow k c F cols fj r
    = map_opt (\<lambda>x. do { fg \<leftarrow> getContactWorldForceGradient cpg k c x;
          do { sg \<leftarrow> getScrewAxisGradient k r x; m \<leftarrow> getForceMultiple k c r;
               Some (m * (dot6 sg F + dot6 (getWorldScrewAxis k r) fg)) } }) cols"
    unfolding constraintForcesJacobianRow_def Let_def
    by (rule map_opt_zip_Some [OF assms(2)])
  also have "\<dots> = map_opt (getConstraintForceDerivative cpg k c r) cols"
  proof (rule map_opt_cong)
    fix x
    show "do { fg \<leftarrow> getContactWorldForceGradient cpg k c x;
          do { sg \<leftarrow> getScrewAxisGradient k r x; m \<leftarrow> getForceMultiple k c r;
               Some (m * (dot6 sg F + dot6 (getWorldScrewAxis k r) fg)) } }
      = getConstraintForceDerivative cpg k c r x"
      using assms(1)
      by (cases "getForceMultiple k c r"; cases "getContactWorldForceGradient cpg k c x";
          cases "getScrewAxisGradient k r x") (simp_all add: getConstraintForceDerivative_def algebra_simps)
  qed
  finally show ?thesis .
qed

text \<open>The whole row loop, for columns drawn from the rows.\<close>

lemma constraintForcesJacobian_rows_eq:
  assumes "getWorldForce c = Some F" "set cols \<subseteq> set rows"
  shows "do { fj \<leftarrow> map_opt (getContactWorldForceGradient cpg k c) cols;
              map_opt (constraintForcesJacobianRow k c F cols fj) rows }
    = map_opt (\<lambda>r. map_opt (getConstraintForceDerivative cpg k c r) cols) rows"
proof (cases "map_opt (getContactWorldForceGradient cpg k c) cols")
  case None
  then obtain x where x: "x \<in> set cols" "getContactWorldForceGradient cpg k c x = None"
    by (auto simp: map_opt_None)
  then have "map_opt (getConstraintForceDerivative cpg k c x) cols = None"
    by (simp add: map_opt_None) (blast intro: constraintForceDerivative_None)
  with x assms(2) have "map_opt (\<lambda>r. map_opt (getConstraintForceDerivative cpg k c r) cols) rows = None"
    by (auto simp: map_opt_None)
  with None show ?thesis by simp
next
  case (Some fj)
  then show ?thesis
    using constraintForcesJacobianRow_eq [OF assms(1) Some]
    by (simp cong: map_opt_cong)
qed

lemma getWorldForce_dir:
  "getContactWorldForceDirection c = Some dir \<Longrightarrow>
   getWorldForce c = Some (V6 (cross (getContactWorldPosition c) dir) dir)"
  by (simp add: getWorldForce_def)

text \<open>Writing blocks of columns side by side.\<close>

lemma map2_append_assoc:
  "length xs = length ys \<Longrightarrow> length ys = length zs \<Longrightarrow>
   map2 (@) (map2 (@) xs ys) zs = map2 (@) xs (map2 (@) ys zs)"
  by (induction xs ys zs rule: list_induct3) simp_all

lemma map2_append_Nil_left: "length xs = n \<Longrightarrow> map2 (@) (replicate n []) xs = xs"
  by (induction xs arbitrary: n) (auto simp: Suc_length_conv)

lemma map2_append_Nil_right: "length xs = n \<Longrightarrow> map2 (@) xs (replicate n []) = xs"
  by (induction xs arbitrary: n) (auto simp: Suc_length_conv)

lemma blocks_assemble_acc:
  assumes "length acc = length rows"
  shows "do { blocks \<leftarrow> map_opt (\<lambda>s. map_opt (\<lambda>r. map_opt (D r) (cols s)) rows) ss;
              Some (foldl hcat acc blocks) }
    = do { M \<leftarrow> map_opt (\<lambda>r. map_opt (D r) (concat (map cols ss))) rows;
           Some (map2 (@) acc M) }"
  using assms
proof (induction ss arbitrary: acc)
  case Nil
  have "map_opt (\<lambda>r. map_opt (D r) []) rows = Some (replicate (length rows) [])"
    by (simp add: map_replicate_const)
  with Nil show ?case by (simp add: map2_append_Nil_right)
next
  case (Cons s ss)
  let ?B = "map_opt (\<lambda>r. map_opt (D r) (cols s)) rows"
  let ?R = "map_opt (\<lambda>r. map_opt (D r) (concat (map cols ss))) rows"
  have split: "map_opt (\<lambda>r. map_opt (D r) (cols s @ concat (map cols ss))) rows
      = do { b \<leftarrow> ?B; M \<leftarrow> ?R; Some (map2 (@) b M) }"
    by (simp add: map_opt_append map_opt_map2)
  show ?case
  proof (cases ?B)
    case None
    then show ?thesis by (simp add: split)
  next
    case (Some b)
    note SomeB = this
    have lb: "length b = length rows" using SomeB by (rule map_opt_Some_length)
    have IH: "do { blocks \<leftarrow> map_opt (\<lambda>s. map_opt (\<lambda>r. map_opt (D r) (cols s)) rows) ss;
              Some (foldl hcat (hcat acc b) blocks) }
       = do { M \<leftarrow> ?R; Some (map2 (@) (hcat acc b) M) }"
      using Cons.prems lb by (intro Cons.IH) (simp add: hcat_def)
    show ?thesis
    proof (cases ?R)
      case None
      with SomeB IH show ?thesis by (simp add: split split: Option.bind_split)
    next
      case (Some M)
      note SomeR = this
      have lM: "length M = length rows" using SomeR by (rule map_opt_Some_length)
      have assoc: "map2 (@) (hcat acc b) M = map2 (@) acc (map2 (@) b M)"
        using Cons.prems lb lM by (simp add: hcat_def map2_append_assoc)
      from SomeB SomeR IH assoc show ?thesis by (simp add: split)
    qed
  qed
qed

section \<open>Properties of single-DOF gradients and forces\<close>

text \<open>The contact-point-gradient routine of the example: it is never reached
  by the vertex-face witnesses, so any function serves.\<close>

definition ex_cpg :: contactPointGradientFn where
  "ex_cpg pA dpA dA ddA pB dpB dB ddB = dpA + dpB"

lemma unrelated_dof_no_sensitivity:
  assumes "wf_kin k" "mContactConstraint c = Some cc" "bodiesInKin k cc"
    and "\<not> dofAncestorOfBody k d (bodyNodeA cc)" "\<not> dofAncestorOfBody k d (bodyNodeB cc)"
    and "getContactWorldForceDirection c = Some dir"
  shows "getContactPositionGradient cpg k c d = Some 0 \<and> getContactNormalGradient k c d = Some 0
    \<and> getContactForceGradient k c d = Some 0 \<and> getContactWorldForceGradient cpg k c d = Some 0
    \<and> getConstraintForce k c d = Some 0"
proof -
  have t: "getDofContactType k c d = Some NONE"
    using getDofContactType_eq [OF assms(1-3)] assms(4,5) by (simp add: classify_none_iff)
  have m: "getForceMultiple k c d = Some 0"
    using getForceMultiple_eq [OF assms(1-3)] assms(4,5) by simp
  show ?thesis
    using gradients_NONE [OF t] worldForceGradient_eq [OF assms(6)]
      constraintForce_eq [OF m assms(6)] by simp
qed

lemma self_collision_cancels:
  assumes "wf_kin k" "mContactConstraint c = Some cc" "bodiesInKin k cc"
    and "dofAncestorOfBody k d (bodyNodeA cc)" "dofAncestorOfBody k d (bodyNodeB cc)"
    and "getContactWorldForceDirection c = Some dir"
    and "getContactType c \<noteq> UNSUPPORTED"
  shows "getForceMultiple k c d = Some 0 \<and> getConstraintForce k c d = Some 0
    \<and> getContactPositionGradient cpg k c d
        = Some (gradientWrtTheta (getWorldScrewAxis k d) (getContactWorldPosition c))"
proof -
  have m: "getForceMultiple k c d = Some 0"
    using getForceMultiple_eq [OF assms(1-3)] assms(4,5) by simp
  obtain t where t: "getDofContactType k c d = Some t"
    and self: "t = VERTEX_FACE_SELF_COLLISION \<or> t = EDGE_EDGE_SELF_COLLISION"
    using getDofContactType_eq [OF assms(1-3)] assms(4,5,7)
    by (cases "getContactType c") (auto simp: classifyDofContact_def)
  show ?thesis
    using m constraintForce_eq [OF m assms(6)] positionGradient_by_type [OF t] self by auto
qed

text \<open>
  C6.  Which DOFs a contact is sensitive to.  A DOF that is an ancestor of
  neither contact body has no influence: its position, normal,
  force-direction and 6-force gradients are zero and the generalized
  constraint force on it is zero.  A DOF that is an ancestor of both bodies
  (a self-collision upstream of the contact) carries no generalized force
  either, since the two opposite contact forces cancel through the tree,
  although for a vertex-face or edge-edge contact it still moves the contact
  point with the point's velocity under the DOF's screw.
\<close>

theorem dof_sensitivity_by_ancestry:
  assumes "wf_kin k" "mContactConstraint c = Some cc" "bodiesInKin k cc"
    and "getContactWorldForceDirection c = Some dir"
  shows "(\<not> dofAncestorOfBody k d (bodyNodeA cc) \<and> \<not> dofAncestorOfBody k d (bodyNodeB cc) \<longrightarrow>
        getContactPositionGradient cpg k c d = Some 0 \<and> getContactNormalGradient k c d = Some 0
      \<and> getContactForceGradient k c d = Some 0 \<and> getContactWorldForceGradient cpg k c d = Some 0
      \<and> getConstraintForce k c d = Some 0)
    \<and> (dofAncestorOfBody k d (bodyNodeA cc) \<and> dofAncestorOfBody k d (bodyNodeB cc)
        \<and> getContactType c \<noteq> UNSUPPORTED \<longrightarrow>
        getForceMultiple k c d = Some 0 \<and> getConstraintForce k c d = Some 0
      \<and> getContactPositionGradient cpg k c d
          = Some (gradientWrtTheta (getWorldScrewAxis k d) (getContactWorldPosition c)))"
  using unrelated_dof_no_sensitivity [OF assms(1-3) _ _ assms(4)]
    self_collision_cancels [OF assms(1-3) _ _ assms(4)] by blast

lemma dof_sensitivity_by_ancestry_witness:
  "getContactPositionGradient ex_cpg ex_kin (ex_dcc 1 3 VERTEX_FACE 0) (ex_dof 2) = Some 0
   \<and> getContactWorldForceGradient ex_cpg ex_kin (ex_dcc 1 3 VERTEX_FACE 0) (ex_dof 2) = Some 0
   \<and> getConstraintForce ex_kin (ex_dcc 1 3 VERTEX_FACE 0) (ex_dof 2) = Some 0
   \<and> getConstraintForce ex_kin (ex_dcc 2 1 VERTEX_FACE 0) (ex_dof 0) = Some 0
   \<and> getContactPositionGradient ex_cpg ex_kin (ex_dcc 2 1 VERTEX_FACE 0) (ex_dof 0) = Some (V3 (-1) 2 0)"
proof -
  have "getContactPositionGradient ex_cpg ex_kin (ex_dcc 1 3 VERTEX_FACE 0) (ex_dof 2) = Some 0
    \<and> getContactWorldForceGradient ex_cpg ex_kin (ex_dcc 1 3 VERTEX_FACE 0) (ex_dof 2) = Some 0
    \<and> getConstraintForce ex_kin (ex_dcc 1 3 VERTEX_FACE 0) (ex_dof 2) = Some 0"
    using dof_sensitivity_by_ancestry [of ex_kin "ex_dcc 1 3 VERTEX_FACE 0" "ex_cc 1 3 VERTEX_FACE"
        "V3 0 1 0" "ex_dof 2" ex_cpg]
    by (simp add: wf_ex_kin ex_bodiesInKin) (simp add: ex_cc_def)
  moreover have "getConstraintForce ex_kin (ex_dcc 2 1 VERTEX_FACE 0) (ex_dof 0) = Some 0
    \<and> getContactPositionGradient ex_cpg ex_kin (ex_dcc 2 1 VERTEX_FACE 0) (ex_dof 0) = Some (V3 (-1) 2 0)"
    using dof_sensitivity_by_ancestry [of ex_kin "ex_dcc 2 1 VERTEX_FACE 0" "ex_cc 2 1 VERTEX_FACE"
        "V3 0 1 0" "ex_dof 0" ex_cpg]
    by (simp add: wf_ex_kin ex_bodiesInKin) (simp add: ex_cc_def ex_screw gradientWrtTheta_def)
  ultimately show ?thesis by simp
qed

text \<open>
  C7.  On a well-formed tree the generalized constraint force on every DOF is
  defined whenever the contact's force direction is, and equals the DOF's
  force multiple times the power of the contact force direction on the
  velocity of the contact point under the DOF's world screw axis.
\<close>

theorem constraintForce_virtual_power:
  assumes "wf_kin k" "mContactConstraint c = Some cc" "bodiesInKin k cc"
    and "getContactWorldForceDirection c = Some dir"
  shows "getConstraintForce k c d =
    Some ((let a = dofAncestorOfBody k d (bodyNodeA cc); b = dofAncestorOfBody k d (bodyNodeB cc)
           in if a = b then 0 else if a then 1 else -1)
          * dot (gradientWrtTheta (getWorldScrewAxis k d) (getContactWorldPosition c)) dir)"
proof -
  have "getForceMultiple k c d =
    Some (let a = dofAncestorOfBody k d (bodyNodeA cc); b = dofAncestorOfBody k d (bodyNodeB cc)
          in if a = b then 0 else if a then 1 else -1)"
    using getForceMultiple_eq [OF assms(1-3)] by (simp add: Let_def)
  then show ?thesis by (rule constraintForce_eq [OF _ assms(4)])
qed

lemma constraintForce_virtual_power_witness:
  "getConstraintForce ex_kin (ex_dcc 2 3 VERTEX_FACE 0) (ex_dof 1) = Some 1"
  using constraintForce_virtual_power [of ex_kin "ex_dcc 2 3 VERTEX_FACE 0" "ex_cc 2 3 VERTEX_FACE"
      "V3 0 1 0" "ex_dof 1"]
  by (simp add: wf_ex_kin ex_bodiesInKin) (simp add: ex_cc_def ex_screw gradientWrtTheta_def)

text \<open>
  C8.  The normal gradient by DOF contact type.  For every DOF whose contact
  type is not an edge type it is orthogonal to the contact normal (a unit
  normal keeps its length to first order): it is zero, or the normal rotated
  by the DOF's angular axis.  For a DOF that moves edge A of an edge-edge
  contact it is the derivative of the unnormalised cross product of the edge
  directions, \<open>(w \<times> a) \<times> b\<close>, whose component along \<open>a \<times> b\<close>, hence along the
  contact normal, is \<open>-((w \<times> a) \<cdot> b)(a \<cdot> b)\<close>: zero only when the edges are
  perpendicular or \<open>w \<times> a\<close> is orthogonal to \<open>b\<close>.
\<close>

theorem normalGradient_by_dof_type:
  assumes "getDofContactType k c d = Some t"
  shows "(t \<noteq> EDGE_A \<and> t \<noteq> EDGE_B \<longrightarrow>
          (\<exists>g. getContactNormalGradient k c d = Some g \<and> dot g (getContactWorldNormal c) = 0))
    \<and> (t = EDGE_A \<longrightarrow> (\<exists>g. getContactNormalGradient k c d = Some g
        \<and> dot g (cross (edgeADir (mContact c)) (edgeBDir (mContact c)))
          = - dot (cross (head6 (getWorldScrewAxis k d)) (edgeADir (mContact c))) (edgeBDir (mContact c))
            * dot (edgeADir (mContact c)) (edgeBDir (mContact c))))"
proof (intro conjI impI)
  assume "t \<noteq> EDGE_A \<and> t \<noteq> EDGE_B"
  then show "\<exists>g. getContactNormalGradient k c d = Some g \<and> dot g (getContactWorldNormal c) = 0"
    using normalGradient_by_type [OF assms] by auto
next
  assume "t = EDGE_A"
  then show "\<exists>g. getContactNormalGradient k c d = Some g
        \<and> dot g (cross (edgeADir (mContact c)) (edgeBDir (mContact c)))
          = - dot (cross (head6 (getWorldScrewAxis k d)) (edgeADir (mContact c))) (edgeBDir (mContact c))
            * dot (edgeADir (mContact c)) (edgeBDir (mContact c))"
    using normalGradient_by_type [OF assms]
    by (simp add: gradientWrtThetaPureRotation_def dot_def cross_def algebra_simps)
qed

lemma normalGradient_by_dof_type_witness:
  "getContactNormalGradient ex_kin (ex_dcc 3 1 VERTEX_FACE 0) (ex_dof 0) = Some (V3 (-1) 0 0)
   \<and> getContactNormalGradient ex_kin (ex_dcc 3 2 EDGE_EDGE 0) (ex_dof 0) = Some (V3 0 0 (-3/5))
   \<and> dot (V3 0 0 (-3/5)) (cross (V3 (3/5) (4/5) 0) (V3 1 0 0)) = 12/25"
proof -
  have t: "getDofContactType ex_kin (ex_dcc 3 1 VERTEX_FACE 0) (ex_dof 0) = Some FACE"
    using getDofContactType_eq [of ex_kin "ex_dcc 3 1 VERTEX_FACE 0" "ex_cc 3 1 VERTEX_FACE" "ex_dof 0"]
    by (simp add: wf_ex_kin ex_bodiesInKin) (simp add: ex_cc_def classifyDofContact_def)
  obtain g where "getContactNormalGradient ex_kin (ex_dcc 3 1 VERTEX_FACE 0) (ex_dof 0) = Some g"
    "dot g (V3 0 1 0) = 0"
    using normalGradient_by_dof_type [OF t] by auto
  then have face: "getContactNormalGradient ex_kin (ex_dcc 3 1 VERTEX_FACE 0) (ex_dof 0) = Some (V3 (-1) 0 0)"
    using normalGradient_by_type [OF t]
    by (simp add: ex_screw gradientWrtThetaPureRotation_def)
  have te: "getDofContactType ex_kin (ex_dcc 3 2 EDGE_EDGE 0) (ex_dof 0) = Some EDGE_A"
    using getDofContactType_eq [of ex_kin "ex_dcc 3 2 EDGE_EDGE 0" "ex_cc 3 2 EDGE_EDGE" "ex_dof 0"]
    by (simp add: wf_ex_kin ex_bodiesInKin) (simp add: ex_cc_def classifyDofContact_def)
  obtain g' where g': "getContactNormalGradient ex_kin (ex_dcc 3 2 EDGE_EDGE 0) (ex_dof 0) = Some g'"
    and along: "dot g' (cross (V3 (3/5) (4/5) 0) (V3 1 0 0)) = 12/25"
    using normalGradient_by_dof_type [OF te] by (auto simp: ex_cc_def ex_screw)
  have "g' = V3 0 0 (-3/5)"
    using g' normalGradient_by_type [OF te]
    by (simp add: ex_screw ex_cc_def gradientWrtThetaPureRotation_def)
  with g' along face show ?thesis by simp
qed

section \<open>Properties of the Jacobians\<close>

text \<open>
  C9.  The batched 6-force Jacobian of the contact is, column by column, the
  per-DOF 6-force gradient: the product rule on \<open>[p \<times> f; f]\<close> applied to the
  position and force-direction Jacobians gives the same columns, and fails
  exactly when one of the per-DOF gradients does.
\<close>

theorem contactForceJacobian_columns:
  assumes "getContactWorldForceDirection c = Some dir"
  shows "getContactForceJacobian cpg w c
    = map_opt (getContactWorldForceGradient cpg (worldKin w) c) (worldDofs w)"
  using contactForceJacobian_eq [OF assms] .

lemma contactForceJacobian_columns_witness:
  "getContactForceJacobian ex_cpg ex_world (ex_dcc 2 3 VERTEX_FACE 0)
    = map_opt (getContactWorldForceGradient ex_cpg ex_kin (ex_dcc 2 3 VERTEX_FACE 0))
        [ex_dof 0, ex_dof 1, ex_dof 2]"
  using contactForceJacobian_columns [of "ex_dcc 2 3 VERTEX_FACE 0" "V3 0 1 0" ex_cpg ex_world]
  by (simp add: ex_world_def worldDofs_def)

text \<open>
  The world-level Jacobian of the generalized constraint forces has, at
  row \<open>r\<close> and column \<open>x\<close>, the derivative \<open>getConstraintForceDerivative r x\<close>:
  the batched loop and the per-entry product rule agree, and the batched loop
  fails exactly when some entry does.
\<close>

theorem constraintForcesJacobian_entries:
  assumes "getContactWorldForceDirection c = Some dir"
  shows "getConstraintForcesJacobian cpg w c
    = map_opt (\<lambda>r. map_opt (getConstraintForceDerivative cpg (worldKin w) c r) (worldDofs w))
        (worldDofs w)"
  using constraintForcesJacobian_rows_eq [OF getWorldForce_dir [OF assms], of "worldDofs w" "worldDofs w"]
    contactForceJacobian_eq [OF assms]
  by (simp add: getConstraintForcesJacobian_def getWorldForce_dir [OF assms])

text \<open>
  The skeleton-by-skeleton assembly \<open>getConstraintForcesJacobian(skels)\<close>,
  which writes one block of columns per skeleton at a moving cursor, computes
  the same matrix as the world-level Jacobian when the skeletons are the
  world's.
\<close>

theorem constraintForcesJacobian_blocks:
  assumes "getContactWorldForceDirection c = Some dir"
  shows "getConstraintForcesJacobianSkels cpg (worldKin w) c (worldSkeletons w)
    = getConstraintForcesJacobian cpg w c"
proof -
  let ?k = "worldKin w" and ?skels = "worldSkeletons w"
  let ?rows = "concat (map skelDofs ?skels)"
  let ?D = "getConstraintForceDerivative cpg ?k c"
  have F: "getWorldForce c = Some (V6 (cross (getContactWorldPosition c) dir) dir)"
    by (rule getWorldForce_dir [OF assms])
  have block: "getConstraintForcesJacobianSkelsWrt cpg ?k c ?skels s
      = map_opt (\<lambda>r. map_opt (?D r) (skelDofs s)) ?rows" if "s \<in> set ?skels" for s
    using constraintForcesJacobian_rows_eq [OF F, of "skelDofs s" ?rows cpg ?k] that
      contactForceJacobianSkel_eq [OF assms, of cpg ?k s]
    by (auto simp: getConstraintForcesJacobianSkelsWrt_def F)
  have "getConstraintForcesJacobianSkels cpg ?k c ?skels
      = do { blocks \<leftarrow> map_opt (\<lambda>s. map_opt (\<lambda>r. map_opt (?D r) (skelDofs s)) ?rows) ?skels;
             Some (foldl hcat (replicate (length ?rows) []) blocks) }"
    using block by (simp add: getConstraintForcesJacobianSkels_def cong: map_opt_cong)
  also have "\<dots> = do { M \<leftarrow> map_opt (\<lambda>r. map_opt (?D r) ?rows) ?rows;
                        Some (map2 (@) (replicate (length ?rows) []) M) }"
    by (rule blocks_assemble_acc) simp
  also have "\<dots> = map_opt (\<lambda>r. map_opt (?D r) ?rows) ?rows"
    by (cases "map_opt (\<lambda>r. map_opt (?D r) ?rows) ?rows")
      (auto dest: map_opt_Some_length simp: map2_append_Nil_left)
  also have "\<dots> = getConstraintForcesJacobian cpg w c"
    using constraintForcesJacobian_rows_eq [OF F, of "worldDofs w" "worldDofs w" cpg ?k]
      contactForceJacobian_eq [OF assms]
    by (simp add: getConstraintForcesJacobian_def F worldDofs_def)
  finally show ?thesis .
qed

text \<open>
  C10.  The world-level Jacobian of the generalized constraint forces has, at
  row \<open>r\<close> and column \<open>x\<close>, the derivative \<open>getConstraintForceDerivative r x\<close>
  (the batched loop and the per-entry product rule agree, and the batched
  loop fails exactly when some entry does), and the skeleton-by-skeleton
  assembly \<open>getConstraintForcesJacobian(skels)\<close>, which writes one block of
  columns per skeleton at a moving cursor, computes the same matrix when the
  skeletons are the world's.
\<close>

theorem constraintForcesJacobian_entries_blocks:
  assumes "getContactWorldForceDirection c = Some dir"
  shows "getConstraintForcesJacobian cpg w c
      = map_opt (\<lambda>r. map_opt (getConstraintForceDerivative cpg (worldKin w) c r) (worldDofs w))
          (worldDofs w)
    \<and> getConstraintForcesJacobianSkels cpg (worldKin w) c (worldSkeletons w)
      = getConstraintForcesJacobian cpg w c"
  using constraintForcesJacobian_entries [OF assms] constraintForcesJacobian_blocks [OF assms]
  by blast

lemma constraintForcesJacobian_entries_blocks_witness:
  "getConstraintForcesJacobian ex_cpg ex_world (ex_dcc 2 3 VERTEX_FACE 0)
    = map_opt (\<lambda>r. map_opt (getConstraintForceDerivative ex_cpg ex_kin (ex_dcc 2 3 VERTEX_FACE 0) r)
        [ex_dof 0, ex_dof 1, ex_dof 2]) [ex_dof 0, ex_dof 1, ex_dof 2]
   \<and> getConstraintForcesJacobianSkels ex_cpg ex_kin (ex_dcc 2 3 VERTEX_FACE 0) (worldSkeletons ex_world)
    = getConstraintForcesJacobian ex_cpg ex_world (ex_dcc 2 3 VERTEX_FACE 0)"
  using constraintForcesJacobian_entries_blocks [of "ex_dcc 2 3 VERTEX_FACE 0" "V3 0 1 0" ex_cpg ex_world]
  by (simp add: ex_world_def worldDofs_def)

section \<open>Properties of the generalized constraint force vector\<close>

definition bodySkeletonListed :: "kin \<Rightarrow> DifferentiableContactConstraint \<Rightarrow> nat \<Rightarrow> bool" where
  "bodySkeletonListed k c b \<longleftrightarrow>
     (case bodyParentJoint k b of None \<Rightarrow> False | Some j \<Rightarrow> jointSkeletonName k j \<in> set (mSkeletons c))"

lemma ancestor_skeleton_listed:
  assumes "wf_kin k" "b \<in> set (k_bodies k)" "dofAncestorOfBody k d b" "bodySkeletonListed k c b"
  shows "jointSkeletonName k (dofJoint d) \<in> set (mSkeletons c)"
proof -
  obtain j where j: "bodyParentJoint k b = Some j" "j \<in> set (k_joints k)"
    using assms(1,2) by (rule wf_kin_body)
  with assms(3) have "jointAncestor k (dofJoint d) j" by (simp add: dofAncestorOfBody_def)
  then have "jointSkeletonName k (dofJoint d) = jointSkeletonName k j"
    using jointAncestor_same_tree assms(1) j(2) by blast
  with j assms(4) show ?thesis by (simp add: bodySkeletonListed_def)
qed

text \<open>The value of one entry of the skeleton loop, when the multiple is known.\<close>

lemma constraintForcesSkel_entry:
  assumes "getForceMultiple k c d = Some m" "getContactWorldForceDirection c = Some dir"
  shows "do { multiple \<leftarrow> getForceMultiple k c d;
              Some (if multiple = 0 then 0
                    else dot6 (getWorldScrewAxis k d) (V6 (cross (getContactWorldPosition c) dir) dir)
                         * multiple) }
    = getConstraintForce k c d"
  using assms by (simp add: constraintForce_eq dot6_point_wrench)

text \<open>
  C11.  When the constraint lists the skeletons of both contact bodies, the
  world's generalized constraint force vector is defined on a well-formed
  world and is, DOF by DOF in world order, the per-DOF constraint force: the
  skipped skeletons and the \<open>multiple == 0\<close> short cut only ever write the zero
  the per-DOF formula gives.
\<close>

theorem constraintForces_world:
  assumes "wf_world w" "mContactConstraint c = Some cc" "bodiesInKin (worldKin w) cc"
    and "bodySkeletonListed (worldKin w) c (bodyNodeA cc)"
    and "bodySkeletonListed (worldKin w) c (bodyNodeB cc)"
    and "getContactWorldForceDirection c = Some dir"
  shows "\<exists>taus. getConstraintForces w c = Some taus
    \<and> map_opt (getConstraintForce (worldKin w) c) (worldDofs w) = Some taus"
proof -
  let ?k = "worldKin w"
  have wfk: "wf_kin ?k" using assms(1) by (rule wf_world_kin)
  have A: "bodyNodeA cc \<in> set (k_bodies ?k)" and B: "bodyNodeB cc \<in> set (k_bodies ?k)"
    using assms(3) by (simp_all add: bodiesInKin_def)
  define mult where "mult d = (let a = dofAncestorOfBody ?k d (bodyNodeA cc);
      b = dofAncestorOfBody ?k d (bodyNodeB cc) in if a = b then (0::real) else if a then 1 else -1)" for d
  have M: "getForceMultiple ?k c d = Some (mult d)" for d
    using getForceMultiple_eq [OF wfk assms(2,3)] by (simp add: mult_def Let_def)
  define tau where "tau d = the (getConstraintForce ?k c d)" for d
  have T: "getConstraintForce ?k c d = Some (tau d)" for d
    using constraintForce_eq [OF M assms(6)] by (simp add: tau_def)
  have skel: "getConstraintForcesSkel ?k c s = Some (map tau (skelDofs s))"
    if s: "s \<in> set (worldSkeletons w)" for s
  proof (cases "skelName s \<in> set (mSkeletons c)")
    case True
    then show ?thesis
      using constraintForcesSkel_entry [OF M assms(6)] T
      by (simp add: getConstraintForcesSkel_def getWorldForce_dir [OF assms(6)] cong: map_opt_cong)
  next
    case False
    have "tau d = 0" if d: "d \<in> set (skelDofs s)" for d
    proof -
      have name: "jointSkeletonName ?k (dofJoint d) = skelName s"
        using wf_world_dof [OF assms(1) s d] by simp
      have "\<not> dofAncestorOfBody ?k d (bodyNodeA cc)"
      proof
        assume "dofAncestorOfBody ?k d (bodyNodeA cc)"
        then have "jointSkeletonName ?k (dofJoint d) \<in> set (mSkeletons c)"
          by (rule ancestor_skeleton_listed [OF wfk A _ assms(4)])
        with name False show False by simp
      qed
      moreover have "\<not> dofAncestorOfBody ?k d (bodyNodeB cc)"
      proof
        assume "dofAncestorOfBody ?k d (bodyNodeB cc)"
        then have "jointSkeletonName ?k (dofJoint d) \<in> set (mSkeletons c)"
          by (rule ancestor_skeleton_listed [OF wfk B _ assms(5)])
        with name False show False by simp
      qed
      ultimately have "mult d = 0" by (simp add: mult_def)
      then show ?thesis using constraintForce_eq [OF M assms(6), of d] T [of d] by simp
    qed
    with False show ?thesis
      by (simp add: getConstraintForcesSkel_def map_replicate_const [symmetric] cong: map_cong)
  qed
  have "getConstraintForces w c = Some (map tau (worldDofs w))"
    using skel by (simp add: getConstraintForces_def worldDofs_def map_concat comp_def cong: map_opt_cong)
  moreover have "map_opt (getConstraintForce ?k c) (worldDofs w) = Some (map tau (worldDofs w))"
    using T by (intro map_opt_total)
  ultimately show ?thesis by blast
qed

lemma constraintForces_world_witness:
  "getConstraintForces ex_world (ex_dcc 2 3 VERTEX_FACE 0)
    = map_opt (getConstraintForce ex_kin (ex_dcc 2 3 VERTEX_FACE 0)) [ex_dof 0, ex_dof 1, ex_dof 2]"
proof -
  have l: "bodySkeletonListed ex_kin (ex_dcc 2 3 VERTEX_FACE 0) 2"
    "bodySkeletonListed ex_kin (ex_dcc 2 3 VERTEX_FACE 0) 3"
    by (simp_all add: bodySkeletonListed_def ex_kin_def)
  have b: "bodiesInKin ex_kin (ex_cc 2 3 VERTEX_FACE)" by (rule ex_bodiesInKin) simp_all
  obtain taus where "getConstraintForces ex_world (ex_dcc 2 3 VERTEX_FACE 0) = Some taus"
    "map_opt (getConstraintForce ex_kin (ex_dcc 2 3 VERTEX_FACE 0)) (worldDofs ex_world) = Some taus"
    using constraintForces_world [of ex_world "ex_dcc 2 3 VERTEX_FACE 0" "ex_cc 2 3 VERTEX_FACE" "V3 0 1 0"]
      wf_ex_world b l by (auto simp: ex_world_kin ex_cc_def)
  then show ?thesis by (simp add: ex_world_dofs)
qed


section \<open>Exchanging the bodies of a contact\<close>

lemma map_opt_map_option:
  "map_opt (\<lambda>x. map_option g (f x)) xs = map_option (map g) (map_opt f xs)"
  by (induction xs) (auto split: Option.bind_split)

lemma swapBodies_unchanged [simp]:
  "mSkeletons (swapBodies c) = mSkeletons c"
  "getWorldForce (swapBodies c) = getWorldForce c"
  by (simp_all add: swapBodies_def getWorldForce_def getContactWorldForceDirection_def
      getContactWorldPosition_def isContactConstraint_def split: option.split)

lemma constraintForcesSkel_swap:
  assumes "isContactConstraint c"
  shows "getConstraintForcesSkel k (swapBodies c) s
    = map_option (map uminus) (getConstraintForcesSkel k c s)"
proof (cases "skelName s \<in> set (mSkeletons c)")
  case True
  have entry: "do { m \<leftarrow> getForceMultiple k (swapBodies c) d; Some (if m = 0 then 0 else X * m) }
      = map_option uminus (do { m \<leftarrow> getForceMultiple k c d; Some (if m = 0 then 0 else X * m) })"
    for d X
    using getForceMultiple_swapBodies [OF assms, of k d]
    by (cases "getForceMultiple k c d") simp_all
  show ?thesis
    using True entry
    by (auto simp: getConstraintForcesSkel_def map_opt_map_option [symmetric]
        split: Option.bind_split cong: map_opt_cong)
next
  case False
  then show ?thesis by (simp add: getConstraintForcesSkel_def)
qed

text \<open>
  C5.  Exchanging the two bodies of a contact constraint negates the force
  multiple of every DOF and the generalized constraint force vector of the
  world, entry by entry (and leaves them undefined where they were
  undefined).
\<close>

theorem swap_negates_multiple_and_forces:
  assumes "isContactConstraint c"
  shows "getForceMultiple k (swapBodies c) d = map_option uminus (getForceMultiple k c d)
    \<and> getConstraintForces w (swapBodies c) = map_option (map uminus) (getConstraintForces w c)"
  using getForceMultiple_swapBodies [OF assms] constraintForcesSkel_swap [OF assms]
  by (simp add: getConstraintForces_def map_opt_map_option map_concat
      split: Option.bind_split cong: map_opt_cong)

lemma swap_negates_multiple_and_forces_witness:
  "getForceMultiple ex_kin (swapBodies (ex_dcc 2 3 VERTEX_FACE 0)) (ex_dof 1)
     = map_option uminus (getForceMultiple ex_kin (ex_dcc 2 3 VERTEX_FACE 0) (ex_dof 1))
   \<and> getConstraintForces ex_world (swapBodies (ex_dcc 2 3 VERTEX_FACE 0))
     = map_option (map uminus) (getConstraintForces ex_world (ex_dcc 2 3 VERTEX_FACE 0))"
  by (rule swap_negates_multiple_and_forces) (simp add: isContactConstraint_def)

section \<open>The screw-axis gradient\<close>

text \<open>
  C12.  On a well-formed tree the gradient of a DOF's world screw axis with
  respect to another DOF is defined, and is the Lie bracket
  \<open>ad(S_rotate, S_screw)\<close> when the rotating DOF drives the other one (another
  axis of the same joint, or a DOF of an ancestor joint) and zero otherwise.
\<close>

theorem screwAxisGradient_ancestor:
  assumes "wf_kin k" "dofJoint screwDof \<in> set (k_joints k)"
  shows "getScrewAxisGradient k screwDof rotateDof =
    Some (if (if dofJoint rotateDof = dofJoint screwDof
              then dofIndexInJoint rotateDof \<noteq> dofIndexInJoint screwDof
              else jointAncestor k (dofJoint rotateDof) (dofJoint screwDof))
          then ad (getWorldScrewAxis k rotateDof) (getWorldScrewAxis k screwDof) else 0)"
  using isParentDof_correct [OF assms, of rotateDof]
  by (simp add: getScrewAxisGradient_def)

lemma screwAxisGradient_ancestor_witness:
  "getScrewAxisGradient ex_kin (ex_dof 2) (ex_dof 0) = Some (V6 0 (V3 2 0 0))
   \<and> getScrewAxisGradient ex_kin (ex_dof 0) (ex_dof 2) = Some 0"
proof -
  have j: "dofJoint (ex_dof 2) \<in> set (k_joints ex_kin)" "dofJoint (ex_dof 0) \<in> set (k_joints ex_kin)"
    by (simp_all add: ex_dof_def ex_kin_def)
  show ?thesis
    using screwAxisGradient_ancestor [OF wf_ex_kin j(1), of "ex_dof 0"]
      screwAxisGradient_ancestor [OF wf_ex_kin j(2), of "ex_dof 2"]
    by (simp add: ex_dof_def ex_jointAncestor_iff ex_screw [unfolded ex_dof_def] ad_def)
qed

end
