(* ===== verification/FiniteDifference.thy ===== *)
theory FiniteDifference
  imports ContactGradients
begin

text \<open>
  The finite-difference validator of \<open>DifferentiableContactConstraint.cpp\<close>
  (the \<open>bruteForce*\<close> routines, lines 698-843 and 1062-1183): each perturbs
  world positions, runs a forward step (\<open>neural::forwardPass\<close>), looks up the
  peer of this constraint in the new snapshot (\<open>getPeerConstraint\<close>) and
  measures it.  Every call is \<open>forwardPass(world, true)\<close>, the idempotent
  form, which restores the world's positions, velocities and forces after
  the step.  The world's dynamic state is the record \<open>worldState\<close> (what a
  \<open>RestorableSnapshot\<close> saves); the simulator, not under \<open>src/\<close>, is an
  interface record over it and over the snapshot type \<open>'s\<close> (a world step,
  the snapshot's clamping and upper-bound constraint lists, the kinematic
  view of a state).

  A Jacobian is a list of columns; a failed peer lookup or measurement is
  \<open>None\<close> (the C++ indexes past the end of a vector or dereferences null).
\<close>

section \<open>The simulator interface\<close>

text \<open>The world's dynamic state, what a \<open>RestorableSnapshot\<close> saves (spec
  4.G): generalized positions, velocities and forces.  The rest of the world
  (skeletons, masses, collision geometry) does not change during validation
  and lives in the simulator's functions.\<close>

record worldState =
  wsPositions :: "real list"
  wsVelocities :: "real list"
  wsForces :: "real list"

text \<open>\<open>World::setPositions\<close>: overwrite the generalized positions.\<close>

definition setWorldPositions :: "real list \<Rightarrow> worldState \<Rightarrow> worldState" where
  "setWorldPositions q w = w\<lparr>wsPositions := q\<rparr>"

text \<open>The simulator, not under \<open>src/\<close>: a world step that returns the
  backprop snapshot and the stepped state, the snapshot's clamping and
  upper-bound constraint lists, and the kinematic view of a state.\<close>

record 's simulator =
  simStep :: "worldState \<Rightarrow> 's \<times> worldState"
  simClamping :: "'s \<Rightarrow> DifferentiableContactConstraint list"
  simUpperBound :: "'s \<Rightarrow> DifferentiableContactConstraint list"
  simWorld :: "worldState \<Rightarrow> world"

text \<open>\<open>RestorableSnapshot::restore\<close>: put back the saved positions,
  velocities and forces.\<close>

definition restore :: "worldState \<Rightarrow> worldState \<Rightarrow> worldState" where
  "restore saved w = w\<lparr>wsPositions := wsPositions saved, wsVelocities := wsVelocities saved,
                        wsForces := wsForces saved\<rparr>"

text \<open>\<open>neural::forwardPass(world, idempotent)\<close>: step the world and return
  the snapshot; when \<open>idempotent\<close> holds, a snapshot taken before the step is
  restored after it.\<close>

definition forwardPass :: "'s simulator \<Rightarrow> bool \<Rightarrow> worldState \<Rightarrow> 's \<times> worldState" where
  "forwardPass sim idempotent w =
     (case simStep sim w of (snap, w') \<Rightarrow> (snap, if idempotent then restore w w' else w'))"

text \<open>\<open>perturbedPositions(i) += EPS\<close>.\<close>

definition perturb :: "real list \<Rightarrow> nat \<Rightarrow> real \<Rightarrow> real list" where
  "perturb q i eps = q[i := q ! i + eps]"

text \<open>\<open>(newOut - originalOut) / EPS\<close> on generalized-force vectors.\<close>

definition fdColumn :: "real \<Rightarrow> real list \<Rightarrow> real list \<Rightarrow> real list" where
  "fdColumn eps new orig = map2 (\<lambda>a b. (a - b) / eps) new orig"

text \<open>The block every routine repeats: \<open>forwardPass(world, true)\<close>, then
  \<open>getPeerConstraint(backpropSnapshot)\<close>, then a query of the peer (which may
  read the world the pass left).  Returns the measurement and that state.\<close>

definition perturbedPass ::
  "'s simulator \<Rightarrow> DifferentiableContactConstraint
   \<Rightarrow> (world \<Rightarrow> DifferentiableContactConstraint \<Rightarrow> 'v option) \<Rightarrow> worldState \<Rightarrow> ('v \<times> worldState) option" where
  "perturbedPass sim c meas w =
     (case forwardPass sim True w of
        (snap, w') \<Rightarrow>
          do { peer \<leftarrow> getPeerConstraint c (simClamping sim snap) (simUpperBound sim snap);
               v \<leftarrow> meas (simWorld sim w') peer;
               Some (v, w') })"

section \<open>The Jacobians that restore before every perturbation\<close>

text \<open>The loop of \<open>bruteForceContactPositionJacobian\<close>,
  \<open>bruteForceContactForceDirectionJacobian\<close> and
  \<open>bruteForceContactForceJacobian\<close>: \<open>snapshot.restore()\<close>, perturb DOF \<open>i\<close>
  of the saved positions, step, difference quotient against this
  constraint's own value \<open>old\<close>.\<close>

fun bfRestoreLoop ::
  "'s simulator \<Rightarrow> DifferentiableContactConstraint
   \<Rightarrow> (world \<Rightarrow> DifferentiableContactConstraint \<Rightarrow> 'v option) \<Rightarrow> ('v \<Rightarrow> 'v \<Rightarrow> 'v)
   \<Rightarrow> worldState \<Rightarrow> real list \<Rightarrow> real \<Rightarrow> 'v option \<Rightarrow> worldState \<Rightarrow> nat list \<Rightarrow> ('v list \<times> worldState) option" where
  "bfRestoreLoop sim c meas diff saved q0 eps old w [] = Some ([], w)"
| "bfRestoreLoop sim c meas diff saved q0 eps old w (i # is) =
     do { (new, w2) \<leftarrow> perturbedPass sim c meas (setWorldPositions (perturb q0 i eps) (restore saved w));
          ov \<leftarrow> old;
          (cols, w3) \<leftarrow> bfRestoreLoop sim c meas diff saved q0 eps old w2 is;
          Some (diff new ov # cols, w3) }"

definition bruteForceContactPositionJacobian ::
  "'s simulator \<Rightarrow> DifferentiableContactConstraint \<Rightarrow> worldState \<Rightarrow> (vec3 list \<times> worldState) option" where
  "bruteForceContactPositionJacobian sim c w =
     (let eps = 1 / 10 ^ 6; q0 = wsPositions w in
      do { (cols, w') \<leftarrow> bfRestoreLoop sim c (\<lambda>_ d. Some (getContactWorldPosition d))
                           (\<lambda>new old. scale3 (1 / eps) (new - old)) w q0 eps
                           (Some (getContactWorldPosition c)) w [0..<length q0];
           Some (cols, restore w w') })"

definition bruteForceContactForceDirectionJacobian ::
  "'s simulator \<Rightarrow> DifferentiableContactConstraint \<Rightarrow> worldState \<Rightarrow> (vec3 list \<times> worldState) option" where
  "bruteForceContactForceDirectionJacobian sim c w =
     (let eps = 1 / 10 ^ 6; q0 = wsPositions w in
      do { (cols, w') \<leftarrow> bfRestoreLoop sim c (\<lambda>_ d. getContactWorldForceDirection d)
                           (\<lambda>new old. scale3 (1 / eps) (new - old)) w q0 eps
                           (getContactWorldForceDirection c) w [0..<length q0];
           Some (cols, restore w w') })"

definition bruteForceContactForceJacobian ::
  "'s simulator \<Rightarrow> DifferentiableContactConstraint \<Rightarrow> worldState \<Rightarrow> (vec6 list \<times> worldState) option" where
  "bruteForceContactForceJacobian sim c w =
     (let eps = 1 / 10 ^ 6; q0 = wsPositions w in
      do { (cols, w') \<leftarrow> bfRestoreLoop sim c (\<lambda>_ d. getWorldForce d)
                           (\<lambda>new old. scale6 (1 / eps) (new - old)) w q0 eps
                           (getWorldForce c) w [0..<length q0];
           Some (cols, restore w w') })"

section \<open>The constraint-forces Jacobian\<close>

text \<open>The loop of \<open>bruteForceConstraintForcesJacobian\<close>: it sets the
  perturbed positions on the state the previous forward step left, with no
  \<open>snapshot.restore()\<close> in between.\<close>

fun bfForcesLoop ::
  "'s simulator \<Rightarrow> DifferentiableContactConstraint \<Rightarrow> real list \<Rightarrow> real
   \<Rightarrow> real list \<Rightarrow> worldState \<Rightarrow> nat list \<Rightarrow> (real list list \<times> worldState) option" where
  "bfForcesLoop sim c q0 eps origOut w [] = Some ([], w)"
| "bfForcesLoop sim c q0 eps origOut w (i # is) =
     do { (newOut, w2) \<leftarrow> perturbedPass sim c getConstraintForces
                             (setWorldPositions (perturb q0 i eps) w);
          (cols, w3) \<leftarrow> bfForcesLoop sim c q0 eps origOut w2 is;
          Some (fdColumn eps newOut origOut # cols, w3) }"

definition bruteForceConstraintForcesJacobian ::
  "'s simulator \<Rightarrow> DifferentiableContactConstraint \<Rightarrow> worldState \<Rightarrow> (real list list \<times> worldState) option" where
  "bruteForceConstraintForcesJacobian sim c w =
     (let q0 = wsPositions w; eps = 1 / 10 ^ 7 in
      do { (origOut, w1) \<leftarrow> perturbedPass sim c getConstraintForces w;
           (cols, w2) \<leftarrow> bfForcesLoop sim c q0 eps origOut w1 [0..<length q0];
           Some (cols, restore w w2) })"

section \<open>The single-DOF probes\<close>

text \<open>The world's coordinate layout (spec section 3: the world's coordinate
  vector concatenates each skeleton's DOFs in order): the offset of a named
  skeleton's first DOF, and the coordinate of a DOF.\<close>

fun skelOffset :: "skeleton list \<Rightarrow> string \<Rightarrow> nat option" where
  "skelOffset [] n = None"
| "skelOffset (s # ss) n =
     (if skelName s = n then Some 0 else map_option (\<lambda>k. length (skelDofs s) + k) (skelOffset ss n))"

fun dofCoord :: "dof list \<Rightarrow> dof \<Rightarrow> nat option" where
  "dofCoord [] d = None"
| "dofCoord (x # xs) d = (if x = d then Some 0 else map_option Suc (dofCoord xs d))"

text \<open>\<open>auto dof = skel->getDof(dofIndex); dof->setPosition(dof->getPosition()
  + eps)\<close>: \<open>getDof\<close> returns \<open>nullptr\<close> past the end of the skeleton's
  DOFs, which the next call dereferences.  The DOF of a skeleton that is not
  in the world is moved outside the world's state: the state is left as it
  is, and the moved skeleton, which no world snapshot covers, is not
  modelled.\<close>

definition setSkelDofPosition ::
  "'s simulator \<Rightarrow> skeleton \<Rightarrow> int \<Rightarrow> real \<Rightarrow> worldState \<Rightarrow> worldState option" where
  "setSkelDofPosition sim skel dofIndex eps w =
     do { _ \<leftarrow> col (skelDofs skel) dofIndex;
          case skelOffset (worldSkeletons (simWorld sim w)) (skelName skel) of
            None \<Rightarrow> Some w
          | Some off \<Rightarrow> Some (setWorldPositions (perturb (wsPositions w) (off + nat dofIndex) eps) w) }"

text \<open>The body of \<open>bruteForcePerturbedContactPosition\<close>, \<open>...Normal\<close>,
  \<open>...ForceDirection\<close> and of the edge-contact branch of \<open>bruteForceEdges\<close>:
  a \<open>RestorableSnapshot\<close>, the DOF perturbation, a forward step, the peer
  lookup, \<open>snapshot.restore()\<close>, then a query of the peer.\<close>

definition bruteForcePerturbed ::
  "'s simulator \<Rightarrow> DifferentiableContactConstraint \<Rightarrow> (DifferentiableContactConstraint \<Rightarrow> 'v option)
   \<Rightarrow> skeleton \<Rightarrow> int \<Rightarrow> real \<Rightarrow> worldState \<Rightarrow> ('v \<times> worldState) option" where
  "bruteForcePerturbed sim c meas skel dofIndex eps w =
     do { w1 \<leftarrow> setSkelDofPosition sim skel dofIndex eps w;
          (snap, w2) \<leftarrow> Some (forwardPass sim True w1);
          peer \<leftarrow> getPeerConstraint c (simClamping sim snap) (simUpperBound sim snap);
          let w3 = restore w w2;
          v \<leftarrow> meas peer;
          Some (v, w3) }"

definition bruteForcePerturbedContactPosition ::
  "'s simulator \<Rightarrow> DifferentiableContactConstraint \<Rightarrow> skeleton \<Rightarrow> int \<Rightarrow> real \<Rightarrow> worldState \<Rightarrow> (vec3 \<times> worldState) option" where
  "bruteForcePerturbedContactPosition sim c skel dofIndex eps w =
     bruteForcePerturbed sim c (\<lambda>d. Some (getContactWorldPosition d)) skel dofIndex eps w"

definition bruteForcePerturbedContactNormal ::
  "'s simulator \<Rightarrow> DifferentiableContactConstraint \<Rightarrow> skeleton \<Rightarrow> int \<Rightarrow> real \<Rightarrow> worldState \<Rightarrow> (vec3 \<times> worldState) option" where
  "bruteForcePerturbedContactNormal sim c skel dofIndex eps w =
     bruteForcePerturbed sim c (\<lambda>d. Some (getContactWorldNormal d)) skel dofIndex eps w"

definition bruteForcePerturbedContactForceDirection ::
  "'s simulator \<Rightarrow> DifferentiableContactConstraint \<Rightarrow> skeleton \<Rightarrow> int \<Rightarrow> real \<Rightarrow> worldState \<Rightarrow> (vec3 \<times> worldState) option" where
  "bruteForcePerturbedContactForceDirection sim c skel dofIndex eps w =
     bruteForcePerturbed sim c getContactWorldForceDirection skel dofIndex eps w"

text \<open>\<open>bruteForceEdges\<close> returns the zero \<open>EdgeData\<close> without stepping
  when the contact is not edge-edge.\<close>

definition zeroEdges :: EdgeData where
  "zeroEdges = \<lparr>edgeAPos = 0, edgeADirection = 0, edgeBPos = 0, edgeBDirection = 0\<rparr>"

definition bruteForceEdges ::
  "'s simulator \<Rightarrow> DifferentiableContactConstraint \<Rightarrow> skeleton \<Rightarrow> int \<Rightarrow> real \<Rightarrow> worldState \<Rightarrow> (EdgeData \<times> worldState) option" where
  "bruteForceEdges sim c skel dofIndex eps w =
     (if getContactType c \<noteq> EDGE_EDGE then Some (zeroEdges, w)
      else bruteForcePerturbed sim c (\<lambda>d. Some (getEdges d)) skel dofIndex eps w)"

text \<open>\<open>bruteForceScrewAxis\<close>: turn \<open>rotate\<close> by \<open>eps\<close>, read the world
  screw axis of \<open>axis\<close> in the moved world, set \<open>rotate\<close> back to its
  original position.\<close>

definition bruteForceScrewAxis ::
  "'s simulator \<Rightarrow> dof \<Rightarrow> dof \<Rightarrow> real \<Rightarrow> worldState \<Rightarrow> (vec6 \<times> worldState) option" where
  "bruteForceScrewAxis sim axis rotateDof eps w =
     do { i \<leftarrow> dofCoord (worldDofs (simWorld sim w)) rotateDof;
          let originalPos = wsPositions w ! i;
          let w1 = setWorldPositions ((wsPositions w)[i := originalPos + eps]) w;
          let worldTwist = getWorldScrewAxis (worldKin (simWorld sim w1)) axis;
          let w2 = setWorldPositions ((wsPositions w1)[i := originalPos]) w1;
          Some (worldTwist, w2) }"

section \<open>Reference: one perturbation from the saved state\<close>

text \<open>What the validator is meant to compute (spec 4.F, 4.G): column \<open>i\<close> is
  the difference quotient of one forward step from the saved state with only
  coordinate \<open>i\<close> perturbed.\<close>

definition fdColumnFromSaved ::
  "'s simulator \<Rightarrow> DifferentiableContactConstraint
   \<Rightarrow> (world \<Rightarrow> DifferentiableContactConstraint \<Rightarrow> 'v option) \<Rightarrow> ('v \<Rightarrow> 'v \<Rightarrow> 'v)
   \<Rightarrow> worldState \<Rightarrow> real \<Rightarrow> 'v option \<Rightarrow> nat \<Rightarrow> 'v option" where
  "fdColumnFromSaved sim c meas diff saved eps old i =
     do { (new, _) \<leftarrow> perturbedPass sim c meas
                        (setWorldPositions (perturb (wsPositions saved) i eps) saved);
          ov \<leftarrow> old;
          Some (diff new ov) }"

definition fdConstraintForcesJacobianRef ::
  "'s simulator \<Rightarrow> DifferentiableContactConstraint \<Rightarrow> worldState \<Rightarrow> (real list list \<times> worldState) option" where
  "fdConstraintForcesJacobianRef sim c w =
     (let eps = 1 / 10 ^ 7 in
      do { (origOut, _) \<leftarrow> perturbedPass sim c getConstraintForces w;
           cols \<leftarrow> map_opt (fdColumnFromSaved sim c getConstraintForces (fdColumn eps) w eps (Some origOut))
                          [0..<length (wsPositions w)];
           Some (cols, w) })"

section \<open>Lemmas: the brute-force loops\<close>

lemma restore_saved [simp]: "restore saved w = saved"
  by (simp add: restore_def)

lemma setWorldPositions_twice [simp]: "setWorldPositions q (setWorldPositions q' w) = setWorldPositions q w"
  by (simp add: setWorldPositions_def)

text \<open>An idempotent pass leaves the state it was given.\<close>

lemma perturbedPass_state:
  "perturbedPass sim c meas w = Some (v, w') \<Longrightarrow> w' = w"
  by (auto simp: perturbedPass_def forwardPass_def split: prod.splits Option.bind_splits)

lemma bfRestoreLoop_columns:
  "map_option fst (bfRestoreLoop sim c meas diff saved (wsPositions saved) eps old w is)
   = map_opt (fdColumnFromSaved sim c meas diff saved eps old) is"
proof (induction "is" arbitrary: w)
  case Nil
  then show ?case by simp
next
  case (Cons i "is")
  show ?case
  proof (cases "fdColumnFromSaved sim c meas diff saved eps old i")
    case None
    then show ?thesis
      by (auto simp: fdColumnFromSaved_def split: Option.bind_splits prod.splits)
  next
    case (Some col)
    then obtain new w2 ov where
      p: "perturbedPass sim c meas (setWorldPositions (perturb (wsPositions saved) i eps) saved) = Some (new, w2)"
         "old = Some ov" "col = diff new ov"
      by (auto simp: fdColumnFromSaved_def split: Option.bind_splits prod.splits)
    show ?thesis
      using Cons.IH [of w2, symmetric] Some p
      by (cases "bfRestoreLoop sim c meas diff saved (wsPositions saved) eps old w2 is") auto
  qed
qed

lemma bind_restore:
  "do { (cols, w') \<leftarrow> X; Some (cols, w) } = map_option (\<lambda>cols. (cols, w)) (map_option fst X)"
  by (cases X) auto

lemma bind_Some_map_option: "X \<bind> (\<lambda>x. Some (f x)) = map_option f X"
  by (cases X) simp_all

text \<open>The constraint-forces loop never restores, but each pass leaves the
  state it was given and \<open>setWorldPositions\<close> overwrites every coordinate, so each
  perturbation starts from the saved velocities and forces.\<close>

lemma bfForcesLoop_columns:
  assumes "\<forall>q. setWorldPositions q w = setWorldPositions q w0"
  shows "map_option fst (bfForcesLoop sim c (wsPositions w0) eps origOut w is)
   = map_opt (fdColumnFromSaved sim c getConstraintForces (fdColumn eps) w0 eps (Some origOut)) is"
  using assms
proof (induction "is" arbitrary: w)
  case Nil
  then show ?case by simp
next
  case (Cons i "is")
  let ?p = "setWorldPositions (perturb (wsPositions w0) i eps) w0"
  have same: "setWorldPositions (perturb (wsPositions w0) i eps) w = ?p"
    using Cons.prems by blast
  show ?case
  proof (cases "perturbedPass sim c getConstraintForces ?p")
    case None
    then show ?thesis
      using same by (simp add: fdColumnFromSaved_def)
  next
    case (Some r)
    obtain new w2 where r: "r = (new, w2)" by (cases r)
    have w2: "w2 = ?p" using perturbedPass_state [of sim c getConstraintForces ?p new w2] Some r by simp
    have "\<forall>q. setWorldPositions q w2 = setWorldPositions q w0" by (simp add: w2)
    then show ?thesis
      using Cons.IH [of w2, symmetric] Some r same
      by (cases "bfForcesLoop sim c (wsPositions w0) eps origOut w2 is") (auto simp: fdColumnFromSaved_def)
  qed
qed

section \<open>Lemmas: the single-DOF probes\<close>

lemma setSkelDofPosition_in_world:
  assumes "skelOffset (worldSkeletons (simWorld sim w)) (skelName skel) = Some off"
    and "0 \<le> j" "nat j < length (skelDofs skel)"
  shows "setSkelDofPosition sim skel j eps w
         = Some (setWorldPositions (perturb (wsPositions w) (off + nat j) eps) w)"
  using assms by (simp add: setSkelDofPosition_def col_def)

lemma bruteForcePerturbed_pass:
  assumes "setSkelDofPosition sim skel j eps w = Some w1"
  shows "bruteForcePerturbed sim c m skel j eps w
         = map_option (\<lambda>(v, _). (v, w)) (perturbedPass sim c (\<lambda>_ d. m d) w1)"
  using assms
  by (auto simp: bruteForcePerturbed_def perturbedPass_def forwardPass_def split: prod.split Option.bind_split)

lemma restoreLoop_column:
  assumes "bfRestoreLoop sim c meas diff w (wsPositions w) eps old w [0..<length (wsPositions w)]
           = Some (cols, w')"
    and "k < length (wsPositions w)"
  shows "fdColumnFromSaved sim c meas diff w eps old k = Some (cols ! k)"
proof -
  have "map_opt (fdColumnFromSaved sim c meas diff w eps old) [0..<length (wsPositions w)] = Some cols"
    using bfRestoreLoop_columns [of sim c meas diff w eps old w "[0..<length (wsPositions w)]"] assms(1)
    by simp
  from map_opt_Some_nth [OF this] show ?thesis using assms(2) by simp
qed

lemma probe_column:
  assumes "setSkelDofPosition sim skel j eps w = Some (setWorldPositions (perturb (wsPositions w) k eps) w)"
    and "fdColumnFromSaved sim c (\<lambda>_ d. m d) diff w eps old k = Some x"
  shows "\<exists>v ov. bruteForcePerturbed sim c m skel j eps w = Some (v, w) \<and> old = Some ov \<and> x = diff v ov"
  using assms(2) bruteForcePerturbed_pass [OF assms(1), of c m]
  by (auto simp: fdColumnFromSaved_def split: Option.bind_splits prod.splits)

lemma dofCoord_Some: "dofCoord xs d = Some i \<Longrightarrow> i < length xs \<and> xs ! i = d"
  by (induction xs arbitrary: i) (auto split: if_splits)

section \<open>Example simulators\<close>

text \<open>A one-DOF ball; a step adds one to the velocity and moves by it.  Its
  only skeleton is not one of the constraint's skeletons, so the
  constraint's generalized forces are \<open>[0]\<close>.  The snapshot is the stepped
  velocity and keeps the contact while it is at most one.\<close>

definition ballWorld :: world where
  "ballWorld = \<lparr>worldKin = ex_kin, worldSkeletons = [\<lparr>skelName = ''ball'', skelDofs = [ex_dof 0]\<rparr>]\<rparr>"

definition ballState :: "real \<Rightarrow> real \<Rightarrow> worldState" where
  "ballState q v = \<lparr>wsPositions = [q], wsVelocities = [v], wsForces = [0]\<rparr>"

definition ex_sim :: "real simulator" where
  "ex_sim =
     \<lparr>simStep = (\<lambda>w. (hd (wsVelocities w) + 1,
                      w\<lparr>wsPositions := [hd (wsPositions w) + hd (wsVelocities w) + 1],
                        wsVelocities := [hd (wsVelocities w) + 1]\<rparr>)),
      simClamping = (\<lambda>s. if s \<le> 1 then [ex_dcc 2 3 VERTEX_FACE 0] else []),
      simUpperBound = (\<lambda>s. []),
      simWorld = (\<lambda>w. ballWorld)\<rparr>"

definition ballSkel :: skeleton where
  "ballSkel = \<lparr>skelName = ''ball'', skelDofs = [ex_dof 0]\<rparr>"

lemma ex_dcc_peer:
  "mOffsetIntoWorld (ex_dcc a b t i) = 0" "\<not> mIsUpperBoundConstraint (ex_dcc a b t i)"
  by (simp_all add: ex_dcc_def newDifferentiableContactConstraint_def)

lemma ballWorld_forces: "getConstraintForces ballWorld (ex_dcc 2 3 VERTEX_FACE 0) = Some [0]"
  by (simp add: getConstraintForces_def getConstraintForcesSkel_def ballWorld_def)

lemma ballState_set: "setWorldPositions [x] (ballState q v) = ballState x v" "wsPositions (ballState q v) = [q]"
  by (simp_all add: setWorldPositions_def ballState_def)

text \<open>From rest the step keeps the contact, and the idempotent pass returns
  the state it was given.\<close>

lemma ex_sim_pass:
  "perturbedPass ex_sim (ex_dcc 2 3 VERTEX_FACE 0) meas (ballState q 0)
   = map_option (\<lambda>v. (v, ballState q 0)) (meas ballWorld (ex_dcc 2 3 VERTEX_FACE 0))"
proof -
  have "simStep ex_sim (ballState q 0) = (1, ballState (q + 1) 1)"
    by (simp add: ex_sim_def ballState_def)
  moreover have "getPeerConstraint (ex_dcc 2 3 VERTEX_FACE 0) (simClamping ex_sim 1) (simUpperBound ex_sim 1)
                 = Some (ex_dcc 2 3 VERTEX_FACE 0)"
    by (simp add: ex_sim_def getPeerConstraint_def col_def ex_dcc_peer)
  ultimately show ?thesis
    by (cases "meas ballWorld (ex_dcc 2 3 VERTEX_FACE 0)") (simp_all add: perturbedPass_def forwardPass_def ex_sim_def)
qed
section \<open>Properties of the validator\<close>

text \<open>
  The three brute-force Jacobians that call \<open>snapshot.restore()\<close> before
  each perturbation compute, column by column, the difference quotient of one
  forward step from the saved state with only that coordinate perturbed, and
  leave the world in the saved state.
\<close>

theorem bruteForce_restoring_columns:
  "bruteForceContactPositionJacobian sim c w = map_option (\<lambda>cols. (cols, w))
     (map_opt (fdColumnFromSaved sim c (\<lambda>_ d. Some (getContactWorldPosition d))
        (\<lambda>new old. scale3 (10 ^ 6) (new - old)) w (1 / 10 ^ 6) (Some (getContactWorldPosition c)))
        [0..<length (wsPositions w)])
   \<and> bruteForceContactForceDirectionJacobian sim c w = map_option (\<lambda>cols. (cols, w))
     (map_opt (fdColumnFromSaved sim c (\<lambda>_ d. getContactWorldForceDirection d)
        (\<lambda>new old. scale3 (10 ^ 6) (new - old)) w (1 / 10 ^ 6) (getContactWorldForceDirection c))
        [0..<length (wsPositions w)])
   \<and> bruteForceContactForceJacobian sim c w = map_option (\<lambda>cols. (cols, w))
     (map_opt (fdColumnFromSaved sim c (\<lambda>_ d. getWorldForce d)
        (\<lambda>new old. scale6 (10 ^ 6) (new - old)) w (1 / 10 ^ 6) (getWorldForce c))
        [0..<length (wsPositions w)])"
  by (simp add: bruteForceContactPositionJacobian_def bruteForceContactForceDirectionJacobian_def
      bruteForceContactForceJacobian_def bind_restore bfRestoreLoop_columns fdColumnFromSaved_def Let_def)

text \<open>
  The constraint-forces brute-force Jacobian computes the reference though
  it never calls \<open>snapshot.restore()\<close> between perturbations: each
  \<open>forwardPass(world, true)\<close> leaves the state it was given and
  \<open>setWorldPositions\<close> overwrites every coordinate, so each perturbation starts
  from the saved velocities and forces; the final restore puts the saved
  positions back.
\<close>

theorem bruteForceConstraintForces_idempotent:
  "bruteForceConstraintForcesJacobian sim c w = fdConstraintForcesJacobianRef sim c w"
proof (cases "perturbedPass sim c getConstraintForces w")
  case None
  then show ?thesis
    by (simp add: bruteForceConstraintForcesJacobian_def fdConstraintForcesJacobianRef_def)
next
  case (Some r)
  obtain origOut w1 where r: "r = (origOut, w1)" by (cases r)
  have "w1 = w" using perturbedPass_state [of sim c getConstraintForces w origOut w1] Some r by simp
  then have cols: "map_option fst (bfForcesLoop sim c (wsPositions w) (1 / 10 ^ 7) origOut w1
                 [0..<length (wsPositions w)])
      = map_opt (fdColumnFromSaved sim c getConstraintForces (fdColumn (1 / 10 ^ 7)) w (1 / 10 ^ 7) (Some origOut))
                 [0..<length (wsPositions w)]"
    using bfForcesLoop_columns [of w w] by simp
  show ?thesis
    using Some cols
    by (simp add: r bruteForceConstraintForcesJacobian_def fdConstraintForcesJacobianRef_def bind_restore
        bind_Some_map_option Let_def)
qed

text \<open>
  C14.  The brute-force Jacobians compute the reference of spec 4.F and
  4.G, one forward step from the saved state per coordinate with only that
  coordinate perturbed, and leave the world in the saved state: the three
  that call \<open>snapshot.restore()\<close> before each perturbation, and the
  constraint-forces Jacobian, which does not restore between perturbations
  but whose \<open>forwardPass(world, true)\<close> calls leave the state they were given.
\<close>

theorem bruteForce_columns_from_saved:
  "bruteForceContactPositionJacobian sim c w = map_option (\<lambda>cols. (cols, w))
     (map_opt (fdColumnFromSaved sim c (\<lambda>_ d. Some (getContactWorldPosition d))
        (\<lambda>new old. scale3 (10 ^ 6) (new - old)) w (1 / 10 ^ 6) (Some (getContactWorldPosition c)))
        [0..<length (wsPositions w)])
   \<and> bruteForceContactForceDirectionJacobian sim c w = map_option (\<lambda>cols. (cols, w))
     (map_opt (fdColumnFromSaved sim c (\<lambda>_ d. getContactWorldForceDirection d)
        (\<lambda>new old. scale3 (10 ^ 6) (new - old)) w (1 / 10 ^ 6) (getContactWorldForceDirection c))
        [0..<length (wsPositions w)])
   \<and> bruteForceContactForceJacobian sim c w = map_option (\<lambda>cols. (cols, w))
     (map_opt (fdColumnFromSaved sim c (\<lambda>_ d. getWorldForce d)
        (\<lambda>new old. scale6 (10 ^ 6) (new - old)) w (1 / 10 ^ 6) (getWorldForce c))
        [0..<length (wsPositions w)])
   \<and> bruteForceConstraintForcesJacobian sim c w = fdConstraintForcesJacobianRef sim c w"
  using bruteForce_restoring_columns [of sim c w] bruteForceConstraintForces_idempotent [of sim c w]
  by simp

lemma bruteForce_columns_from_saved_witness:
  "bruteForceConstraintForcesJacobian ex_sim (ex_dcc 2 3 VERTEX_FACE 0) (ballState 0 0)
   = Some ([[0]], ballState 0 0)"
proof -
  have "fdConstraintForcesJacobianRef ex_sim (ex_dcc 2 3 VERTEX_FACE 0) (ballState 0 0)
        = Some ([[0]], ballState 0 0)"
    by (simp add: fdConstraintForcesJacobianRef_def fdColumnFromSaved_def ex_sim_pass ballState_set
        ballWorld_forces perturb_def fdColumn_def)
  then show ?thesis
    using bruteForce_columns_from_saved [of ex_sim "ex_dcc 2 3 VERTEX_FACE 0" "ballState 0 0"] by simp
qed

text \<open>
  C16.  The single-DOF probes agree with the brute-force Jacobians: when the
  position and force-direction Jacobians are computed, perturbing DOF \<open>j\<close> of
  a skeleton that starts at world coordinate \<open>off\<close> succeeds, leaves the world
  in its saved state, and its difference quotient against this constraint's
  own value is column \<open>off + j\<close> of the Jacobian.
\<close>

theorem bruteForcePerturbed_matches_jacobian:
  assumes off: "skelOffset (worldSkeletons (simWorld sim w)) (skelName skel) = Some off"
    and j: "0 \<le> j" "nat j < length (skelDofs skel)"
    and len: "off + nat j < length (wsPositions w)"
    and jacP: "bruteForceContactPositionJacobian sim c w = Some (colsP, wP)"
    and jacD: "bruteForceContactForceDirectionJacobian sim c w = Some (colsD, wD)"
  shows "\<exists>p d od. bruteForcePerturbedContactPosition sim c skel j (1 / 10 ^ 6) w = Some (p, w)
           \<and> colsP ! (off + nat j) = scale3 (10 ^ 6) (p - getContactWorldPosition c)
           \<and> bruteForcePerturbedContactForceDirection sim c skel j (1 / 10 ^ 6) w = Some (d, w)
           \<and> getContactWorldForceDirection c = Some od
           \<and> colsD ! (off + nat j) = scale3 (10 ^ 6) (d - od)"
proof -
  let ?k = "off + nat j"
  have set: "setSkelDofPosition sim skel j eps w
             = Some (setWorldPositions (perturb (wsPositions w) ?k eps) w)" for eps
    using setSkelDofPosition_in_world [OF off j] .
  obtain wP' where loopP: "bfRestoreLoop sim c (\<lambda>_ d. Some (getContactWorldPosition d))
        (\<lambda>new old. scale3 (1 / (1 / 10 ^ 6)) (new - old)) w (wsPositions w) (1 / 10 ^ 6)
        (Some (getContactWorldPosition c)) w [0..<length (wsPositions w)] = Some (colsP, wP')"
    using jacP by (auto simp: bruteForceContactPositionJacobian_def Let_def split: Option.bind_splits)
  obtain wD' where loopD: "bfRestoreLoop sim c (\<lambda>_ d. getContactWorldForceDirection d)
        (\<lambda>new old. scale3 (1 / (1 / 10 ^ 6)) (new - old)) w (wsPositions w) (1 / 10 ^ 6)
        (getContactWorldForceDirection c) w [0..<length (wsPositions w)] = Some (colsD, wD')"
    using jacD by (auto simp: bruteForceContactForceDirectionJacobian_def Let_def split: Option.bind_splits)
  obtain p ov where P: "bruteForcePerturbed sim c (\<lambda>d. Some (getContactWorldPosition d)) skel j (1 / 10 ^ 6) w
        = Some (p, w)" "Some (getContactWorldPosition c) = Some ov"
      "colsP ! ?k = scale3 (1 / (1 / 10 ^ 6)) (p - ov)"
    using probe_column [OF set restoreLoop_column [OF loopP len]] by blast
  obtain d od where D: "bruteForcePerturbed sim c getContactWorldForceDirection skel j (1 / 10 ^ 6) w
        = Some (d, w)" "getContactWorldForceDirection c = Some od"
      "colsD ! ?k = scale3 (1 / (1 / 10 ^ 6)) (d - od)"
    using probe_column [OF set restoreLoop_column [OF loopD len]] by blast
  show ?thesis
    using P D by (auto simp: bruteForcePerturbedContactPosition_def bruteForcePerturbedContactForceDirection_def)
qed

lemma bruteForcePerturbed_matches_jacobian_witness:
  "\<exists>p d od. bruteForcePerturbedContactPosition ex_sim (ex_dcc 2 3 VERTEX_FACE 0) ballSkel 0 (1 / 10 ^ 6)
                (ballState 0 0) = Some (p, ballState 0 0)
     \<and> bruteForcePerturbedContactForceDirection ex_sim (ex_dcc 2 3 VERTEX_FACE 0) ballSkel 0 (1 / 10 ^ 6)
                (ballState 0 0) = Some (d, ballState 0 0)"
proof -
  have w: "simWorld ex_sim (ballState 0 0) = ballWorld" "wsPositions (ballState 0 0) = [0]"
    by (simp_all add: ex_sim_def ballState_set)
  obtain colsP wP colsD wD where
      "bruteForceContactPositionJacobian ex_sim (ex_dcc 2 3 VERTEX_FACE 0) (ballState 0 0) = Some (colsP, wP)"
      "bruteForceContactForceDirectionJacobian ex_sim (ex_dcc 2 3 VERTEX_FACE 0) (ballState 0 0) = Some (colsD, wD)"
    by (simp add: bruteForceContactPositionJacobian_def bruteForceContactForceDirectionJacobian_def
        ex_sim_pass ballState_set perturb_def Let_def)
  then show ?thesis
    using bruteForcePerturbed_matches_jacobian
        [of ex_sim "ballState 0 0" ballSkel 0 0 "ex_dcc 2 3 VERTEX_FACE 0" colsP wP colsD wD] w
    by (simp add: ballWorld_def ballSkel_def) blast
qed

text \<open>
  C17.  \<open>bruteForceScrewAxis\<close> puts the rotated DOF back: when the world's
  coordinates are its DOFs, it returns the screw axis of \<open>axis\<close> in the world
  with only the rotated coordinate moved by \<open>eps\<close>, and ends in the state it
  started from.
\<close>

theorem bruteForceScrewAxis_restores:
  assumes layout: "length (wsPositions w) = length (worldDofs (simWorld sim w))"
    and i: "dofCoord (worldDofs (simWorld sim w)) r = Some i"
  shows "bruteForceScrewAxis sim axis r eps w
           = Some (getWorldScrewAxis (worldKin (simWorld sim (setWorldPositions (perturb (wsPositions w) i eps) w))) axis, w)"
proof -
  have il: "i < length (wsPositions w)" using dofCoord_Some [OF i] layout by simp
  then show ?thesis
    using i by (simp add: bruteForceScrewAxis_def setWorldPositions_def perturb_def Let_def)
qed

lemma bruteForceScrewAxis_restores_witness:
  "bruteForceScrewAxis ex_sim (ex_dof 0) (ex_dof 0) (1 / 10) (ballState 3 1)
   = Some (getWorldScrewAxis ex_kin (ex_dof 0), ballState 3 1)"
  using bruteForceScrewAxis_restores [of "ballState 3 1" ex_sim "ex_dof 0" 0 "ex_dof 0" "1 / 10"]
  by (simp add: ex_sim_def ballState_def ballWorld_def worldDofs_def)

end
