(* ===== verification/LcpSolver.thy ===== *)
theory LcpSolver
  imports Prelude
begin

text \<open>
  The boxed-LCP solver plugin \<open>DantzigBoxedLcpSolver\<close>
  (\<open>src/dart/constraint/DantzigBoxedLcpSolver.cpp\<close>) and the LCP step that
  uses it.  The plugin forwards to ODE's Dantzig routine \<open>dSolveLCP\<close>, which
  is not under \<open>src/\<close> (the spec treats the boxed LCP as a black box): it is a
  parameter that, on the arguments the plugin passes, either returns its
  success flag and the solution buffer \<open>x\<close>, or throws, leaving \<open>x\<close> as far
  as it had written it.  Pointer arguments are the arrays they point to, as
  lists; \<open>nullptr\<close> is \<open>None\<close>.

  The caller of the plugin (DART's constraint solver) is not under \<open>src/\<close>
  either; \<open>lcpSolveStep\<close> models it from the spec (sections 5 and 7): an
  unspecified failure of the primary solver degrades the snapshot and one
  fallback solver is attempted.  Solvers meet the step through the
  \<open>BoxedLcpSolver\<close> interface record (\<open>getType\<close> and \<open>solve\<close>).
\<close>

section \<open>The Dantzig plugin\<close>

text \<open>The arguments of \<open>dSolveLCP(n, A, x, b, w, nub, lo, hi, findex,
  earlyTermination)\<close>, and its two outcomes.\<close>

record lcpArgs =
  lcpN :: int
  lcpA :: "real list"
  lcpX :: "real list"
  lcpB :: "real list"
  lcpW :: "real list option"
  lcpNub :: int
  lcpLo :: "real list"
  lcpHi :: "real list"
  lcpFindex :: "int list"
  lcpEarlyTermination :: bool

datatype lcpOutcome = Returned bool "real list" | Thrown "real list"

type_synonym dSolveLCPFn = "lcpArgs \<Rightarrow> lcpOutcome"

text \<open>The result of a boxed-LCP solve: the returned flag and the buffer
  \<open>x\<close> after the call.\<close>

type_synonym lcpResult = "bool \<times> real list"

definition getStaticType :: string where
  "getStaticType = ''DantzigBoxedLcpSolver''"

definition getType :: "unit \<Rightarrow> string" where
  "getType _ = getStaticType"

text \<open>\<open>DantzigBoxedLcpSolver::solve\<close>: the caller's \<open>nub\<close> is ignored (the
  parameter is unnamed); \<open>dSolveLCP\<close> is called with \<open>w = nullptr\<close> and
  \<open>nub = 0\<close>, and any exception becomes \<open>false\<close>, with \<open>x\<close> as the routine left
  it.\<close>

definition solve ::
  "dSolveLCPFn \<Rightarrow> int \<Rightarrow> real list \<Rightarrow> real list \<Rightarrow> real list \<Rightarrow> int
   \<Rightarrow> real list \<Rightarrow> real list \<Rightarrow> int list \<Rightarrow> bool \<Rightarrow> lcpResult" where
  "solve dSolveLCP n A x b nub lo hi findex earlyTermination =
     (case dSolveLCP \<lparr>lcpN = n, lcpA = A, lcpX = x, lcpB = b, lcpW = None, lcpNub = 0,
                      lcpLo = lo, lcpHi = hi, lcpFindex = findex,
                      lcpEarlyTermination = earlyTermination\<rparr> of
        Returned r x' \<Rightarrow> (r, x')
      | Thrown x' \<Rightarrow> (False, x'))"

text \<open>\<open>canSolve\<close> (debug builds only): not implemented, always \<open>true\<close>.\<close>

definition canSolve :: "int \<Rightarrow> real list \<Rightarrow> bool" where
  "canSolve n A = True"

section \<open>The solver interface and the LCP step\<close>

text \<open>A boxed-LCP problem as the constraint solver hands it to a plugin
  (\<open>x\<close> is the warm start), and the \<open>BoxedLcpSolver\<close> interface.\<close>

record lcpProblem =
  probN :: int
  probA :: "real list"
  probB :: "real list"
  probNub :: int
  probLo :: "real list"
  probHi :: "real list"
  probFindex :: "int list"
  probEarlyTermination :: bool

record BoxedLcpSolver =
  solverType :: string
  solverSolve :: "lcpProblem \<Rightarrow> real list \<Rightarrow> lcpResult"

definition dantzigBoxedLcpSolver :: "dSolveLCPFn \<Rightarrow> BoxedLcpSolver" where
  "dantzigBoxedLcpSolver dSolveLCP =
     \<lparr>solverType = getType (),
      solverSolve = (\<lambda>p x. solve dSolveLCP (probN p) (probA p) x (probB p) (probNub p)
                              (probLo p) (probHi p) (probFindex p) (probEarlyTermination p))\<rparr>"

text \<open>The outcome of the LCP step of a forward pass: the impulses, whether the
  snapshot is degraded, and the types of the solvers tried, in order.\<close>

record lcpStepResult =
  stepX :: "real list"
  stepDegraded :: bool
  stepTried :: "string list"

text \<open>The spec's failure policy: a failed primary solve degrades the snapshot
  and one fallback solve is attempted on the buffer the primary left; the
  degraded flag is surfaced whatever the fallback returns.\<close>

definition lcpSolveStep ::
  "BoxedLcpSolver \<Rightarrow> BoxedLcpSolver \<Rightarrow> lcpProblem \<Rightarrow> real list \<Rightarrow> lcpStepResult" where
  "lcpSolveStep primary fallback p x =
     (case solverSolve primary p x of
        (True, x1) \<Rightarrow> \<lparr>stepX = x1, stepDegraded = False, stepTried = [solverType primary]\<rparr>
      | (False, x1) \<Rightarrow>
          (case solverSolve fallback p x1 of
             (_, x2) \<Rightarrow> \<lparr>stepX = x2, stepDegraded = True,
                          stepTried = [solverType primary, solverType fallback]\<rparr>))"

section \<open>The plugin's call\<close>

text \<open>The argument record of the plugin's \<open>dSolveLCP\<close> call for a problem and
  a warm start.\<close>

definition dantzigArgs :: "lcpProblem \<Rightarrow> real list \<Rightarrow> lcpArgs" where
  "dantzigArgs p x =
     \<lparr>lcpN = probN p, lcpA = probA p, lcpX = x, lcpB = probB p, lcpW = None, lcpNub = 0,
      lcpLo = probLo p, lcpHi = probHi p, lcpFindex = probFindex p,
      lcpEarlyTermination = probEarlyTermination p\<rparr>"

section \<open>Examples\<close>

text \<open>A Dantzig routine that throws on an empty problem and otherwise returns
  \<open>b / 2\<close>, a fallback that always succeeds with zero impulses, and a one-row
  problem.\<close>

definition ex_dSolveLCP :: dSolveLCPFn where
  "ex_dSolveLCP a = (if lcpN a = 0 then Thrown (lcpX a) else Returned True (map (\<lambda>v. v / 2) (lcpB a)))"

definition ex_pgs :: BoxedLcpSolver where
  "ex_pgs = \<lparr>solverType = ''PgsBoxedLcpSolver'', solverSolve = (\<lambda>p x. (True, map (\<lambda>v. 0) x))\<rparr>"

definition ex_problem :: "int \<Rightarrow> lcpProblem" where
  "ex_problem n = \<lparr>probN = n, probA = [2], probB = [4], probNub = 1, probLo = [0], probHi = [10],
                   probFindex = [-1], probEarlyTermination = False\<rparr>"

section \<open>Lemmas\<close>

lemma dantzig_solverType [simp]: "solverType (dantzigBoxedLcpSolver f) = ''DantzigBoxedLcpSolver''"
  by (simp add: dantzigBoxedLcpSolver_def getType_def getStaticType_def)

section \<open>Properties of the LCP step\<close>

end
