(* ===== verification/BackpropSnapshot.thy ===== *)
theory BackpropSnapshot
  imports DenseMatrix FiniteDifference LcpSolver
begin

text \<open>
  The backprop snapshot (spec section 4.E).  Its C++ class
  \<open>dart::neural::BackpropSnapshot\<close> is not under \<open>src/\<close>: only its Python binding
  is (\<open>src/python/_diffdart/neural/BackpropSnapshot.cpp\<close>), so the snapshot's
  state, the semi-implicit step it records and its canonical Jacobians are
  modelled from the spec, and the binding from the source.

  A snapshot captures, at the step boundary \<open>k \<rightarrow> k+1\<close>, the pre- and
  post-step state, the mass matrix and its inverse, the constraints of the
  step by their LCP class, the degraded flag of the LCP step and the rows
  whose contact geometry is unsupported.  The clamping constraints' rows of
  the world-level \<open>J\<close> are their generalised constraint forces
  (\<open>getConstraintForces(world)\<close> of the contact-gradient component).  The
  inverse \<open>(J M\<^sup>-\<^sup>1 J\<^sup>T)\<^sup>-\<^sup>1\<close> is computed by Eigen's linear solver, which is not
  under \<open>src/\<close>: it is a parameter \<open>invGram\<close>, and the theorems assume of it only
  what they need (a right or a two-sided inverse on the clamping rows).
\<close>

section \<open>The snapshot\<close>

datatype ConstraintClass = CLAMPING | UPPER_BOUND | NOT_CLAMPING

record BackpropSnapshot =
  mPreStepPosition :: "real list"
  mPreStepVelocity :: "real list"
  mPreStepTorques :: "real list"
  mPreConstraintVelocities :: "real list"
  mPostStepPosition :: "real list"
  mPostStepVelocity :: "real list"
  mPostStepTorques :: "real list"
  mMassMatrix :: mat
  mInvMassMatrix :: mat
  mNumDofs :: nat
  mTimeStep :: real
  mClampingConstraints :: "DifferentiableContactConstraint list"
  mUpperBoundConstraints :: "DifferentiableContactConstraint list"
  mDegraded :: bool
  mUnsupportedRows :: "nat list"

text \<open>What the constructor reads from the world after a step: its state, its
  mass matrices and time step, the constraints of the step with their LCP
  class, and the outcome of the LCP step (\<open>LcpSolver.lcpSolveStep\<close>).\<close>

record 'w snapshotWorld =
  swWorld :: "'w \<Rightarrow> world"
  swPositions :: "'w \<Rightarrow> real list"
  swVelocities :: "'w \<Rightarrow> real list"
  swForces :: "'w \<Rightarrow> real list"
  swMassMatrix :: "'w \<Rightarrow> mat"
  swInvMassMatrix :: "'w \<Rightarrow> mat"
  swTimeStep :: "'w \<Rightarrow> real"
  swConstraints :: "'w \<Rightarrow> (DifferentiableContactConstraint \<times> ConstraintClass) list"
  swLcpStep :: "'w \<Rightarrow> lcpStepResult"

definition constraintsOfClass ::
  "ConstraintClass \<Rightarrow> (DifferentiableContactConstraint \<times> ConstraintClass) list
   \<Rightarrow> DifferentiableContactConstraint list" where
  "constraintsOfClass k cs = map fst (filter (\<lambda>p. snd p = k) cs)"

text \<open>The rows of \<open>J\<close> whose contact geometry is unsupported (spec section 7:
  a per-snapshot list of the affected rows).\<close>

definition unsupportedRows :: "DifferentiableContactConstraint list \<Rightarrow> nat list" where
  "unsupportedRows cs = filter (\<lambda>i. getContactType (cs ! i) = UNSUPPORTED) [0..<length cs]"

definition newBackpropSnapshot ::
  "'w snapshotWorld \<Rightarrow> 'w \<Rightarrow> real list \<Rightarrow> real list \<Rightarrow> real list \<Rightarrow> real list \<Rightarrow> BackpropSnapshot" where
  "newBackpropSnapshot sw w preStepPosition preStepVelocity preStepTorques preConstraintVelocities =
     (let clamping = constraintsOfClass CLAMPING (swConstraints sw w) in
      \<lparr>mPreStepPosition = preStepPosition, mPreStepVelocity = preStepVelocity,
       mPreStepTorques = preStepTorques, mPreConstraintVelocities = preConstraintVelocities,
       mPostStepPosition = swPositions sw w, mPostStepVelocity = swVelocities sw w,
       mPostStepTorques = swForces sw w, mMassMatrix = swMassMatrix sw w,
       mInvMassMatrix = swInvMassMatrix sw w, mNumDofs = length (swPositions sw w),
       mTimeStep = swTimeStep sw w, mClampingConstraints = clamping,
       mUpperBoundConstraints = constraintsOfClass UPPER_BOUND (swConstraints sw w),
       mDegraded = stepDegraded (swLcpStep sw w), mUnsupportedRows = unsupportedRows clamping\<rparr>)"

section \<open>The semi-implicit step\<close>

text \<open>With \<open>f\<^sub>c\<close> the clamping impulses and \<open>J\<close> the clamping rows, the step
  is \<open>q\<^sub>k\<^sub>+\<^sub>1 = q\<^sub>k + \<Delta>t q\<^sub>k\<^sub>+\<^sub>1'\<close> with \<open>q\<^sub>k\<^sub>+\<^sub>1' = q'* + M\<^sup>-\<^sup>1 J\<^sup>T f\<^sub>c\<close>, and \<open>f\<^sub>c\<close> solves
  \<open>J M\<^sup>-\<^sup>1 J\<^sup>T f\<^sub>c = -b\<close> where \<open>b = J q'* + r\<close> is assembled from the unconstrained
  velocity and the restitution term \<open>r\<close>.  \<open>n\<close> is the DOF count and \<open>nc\<close> the
  number of clamping rows.\<close>

definition constraintGram :: "nat \<Rightarrow> mat \<Rightarrow> mat \<Rightarrow> mat" where
  "constraintGram n Minv J = mmul n (mmul n J Minv) (mtrans J)"

definition clampingImpulses :: "nat \<Rightarrow> mat \<Rightarrow> mat \<Rightarrow> real list \<Rightarrow> real list \<Rightarrow> real list" where
  "clampingImpulses nc J Ainv rest vstar = vscale (-1) (mulVec nc Ainv (vadd (mulVec nc J vstar) rest))"

definition constrainedVelocity ::
  "nat \<Rightarrow> nat \<Rightarrow> mat \<Rightarrow> mat \<Rightarrow> mat \<Rightarrow> real list \<Rightarrow> real list \<Rightarrow> real list" where
  "constrainedVelocity n nc Minv J Ainv rest vstar =
     vadd vstar (mulVec n (mmul n Minv (mtrans J)) (clampingImpulses nc J Ainv rest vstar))"

definition semiImplicitStep ::
  "nat \<Rightarrow> nat \<Rightarrow> mat \<Rightarrow> mat \<Rightarrow> mat \<Rightarrow> real list \<Rightarrow> real \<Rightarrow> real list \<Rightarrow> real list
   \<Rightarrow> real list \<times> real list" where
  "semiImplicitStep n nc Minv J Ainv rest dt q vstar =
     (let v' = constrainedVelocity n nc Minv J Ainv rest vstar in (vadd q (vscale dt v'), v'))"

section \<open>The canonical Jacobians\<close>

type_synonym invFn = "nat \<Rightarrow> mat \<Rightarrow> mat"

text \<open>vel\<open>\<rightarrow>\<close>vel is \<open>I - M\<^sup>-\<^sup>1 J\<^sup>T (J M\<^sup>-\<^sup>1 J\<^sup>T)\<^sup>-\<^sup>1 J\<close>; force\<open>\<rightarrow>\<close>vel is
  \<open>\<Delta>t\<close> times it times \<open>M\<^sup>-\<^sup>1\<close>; vel\<open>\<rightarrow>\<close>pos is \<open>\<Delta>t\<close> times vel\<open>\<rightarrow>\<close>vel; pos\<open>\<rightarrow>\<close>pos is
  \<open>I + \<Delta>t\<close> pos\<open>\<rightarrow>\<close>vel.  pos\<open>\<rightarrow>\<close>vel needs \<open>\<partial>J/\<partial>q\<close> and \<open>\<partial>M/\<partial>q\<close>, for which the spec
  gives no formula: it is a parameter \<open>posVel\<close>.\<close>

definition velVelFromJ :: "nat \<Rightarrow> nat \<Rightarrow> mat \<Rightarrow> mat \<Rightarrow> mat \<Rightarrow> mat" where
  "velVelFromJ n nc Minv J Ainv = msub eye (mmul nc (mmul nc (mmul n Minv (mtrans J)) Ainv) J)"

definition getClampingConstraintMatrix ::
  "world \<Rightarrow> BackpropSnapshot \<Rightarrow> real list list option" where
  "getClampingConstraintMatrix w snap = map_opt (getConstraintForces w) (mClampingConstraints snap)"

text \<open>The solver's inverse of the Gram matrix of the clamping rows \<open>rows\<close>.\<close>

definition gramInverse :: "invFn \<Rightarrow> real list list \<Rightarrow> BackpropSnapshot \<Rightarrow> mat" where
  "gramInverse invGram rows snap =
     invGram (length rows) (constraintGram (mNumDofs snap) (mInvMassMatrix snap) (matOfRows rows))"

definition getVelVelJacobian :: "invFn \<Rightarrow> world \<Rightarrow> BackpropSnapshot \<Rightarrow> mat option" where
  "getVelVelJacobian invGram w snap =
     do { rows \<leftarrow> getClampingConstraintMatrix w snap;
          Some (velVelFromJ (mNumDofs snap) (length rows) (mInvMassMatrix snap) (matOfRows rows)
                  (gramInverse invGram rows snap)) }"

definition getForceVelJacobian :: "invFn \<Rightarrow> world \<Rightarrow> BackpropSnapshot \<Rightarrow> mat option" where
  "getForceVelJacobian invGram w snap =
     map_option (\<lambda>V. mscale (mTimeStep snap) (mmul (mNumDofs snap) V (mInvMassMatrix snap)))
       (getVelVelJacobian invGram w snap)"

definition getVelPosJacobian :: "invFn \<Rightarrow> world \<Rightarrow> BackpropSnapshot \<Rightarrow> mat option" where
  "getVelPosJacobian invGram w snap = map_option (mscale (mTimeStep snap)) (getVelVelJacobian invGram w snap)"

type_synonym posVelFn = "world \<Rightarrow> BackpropSnapshot \<Rightarrow> mat option"

definition getPosVelJacobian :: "posVelFn \<Rightarrow> world \<Rightarrow> BackpropSnapshot \<Rightarrow> mat option" where
  "getPosVelJacobian posVel w snap = posVel w snap"

definition getPosPosJacobian :: "posVelFn \<Rightarrow> world \<Rightarrow> BackpropSnapshot \<Rightarrow> mat option" where
  "getPosPosJacobian posVel w snap =
     map_option (\<lambda>P. madd eye (mscale (mTimeStep snap) P)) (getPosVelJacobian posVel w snap)"

text \<open>The step the snapshot linearises: the semi-implicit step with the
  snapshot's inverse mass matrix and time step, its clamping rows \<open>rows\<close> as
  \<open>J\<close> and the solver's inverse of their Gram matrix.\<close>

definition snapshotStep ::
  "invFn \<Rightarrow> real list list \<Rightarrow> BackpropSnapshot \<Rightarrow> real list \<Rightarrow> real list \<Rightarrow> real list
   \<Rightarrow> real list \<times> real list" where
  "snapshotStep invGram rows snap rest q vstar =
     semiImplicitStep (mNumDofs snap) (length rows) (mInvMassMatrix snap) (matOfRows rows)
       (gramInverse invGram rows snap) rest (mTimeStep snap) q vstar"

section \<open>The Python binding\<close>

text \<open>\<open>dart::python::BackpropSnapshot(py::module&)\<close> registers the class with
  one constructor and eighteen methods.  A \<open>py::arg(name)\<close> is a required
  parameter and \<open>py::arg(name) = nullptr\<close> one that defaults to \<open>nullptr\<close>
  (Python's \<open>None\<close>).  A Python value is a world, a vector (numpy array), an
  integer or \<open>None\<close>; other objects (loss gradients) are passed on unread.\<close>

datatype pyArg = PyArg string | PyArgNone string

primrec pyArgName :: "pyArg \<Rightarrow> string" where
  "pyArgName (PyArg x) = x"
| "pyArgName (PyArgNone x) = x"

datatype 'w pyVal = PyWorld 'w | PyVec "real list" | PyInt int | PyNone | PyObject nat

datatype snapshotMethod =
    Backprop | GetVelVelJacobian | GetForceVelJacobian | GetPosPosJacobian | GetVelPosJacobian
  | GetPosVelJacobian | GetPreStepPosition | GetPreStepVelocity | GetPreStepTorques
  | GetPostStepPosition | GetPostStepVelocity | GetPostStepTorques | GetMassMatrix
  | GetInvMassMatrix | FiniteDifferenceVelVelJacobian | FiniteDifferenceForceVelJacobian
  | FiniteDifferencePosPosJacobian | FiniteDifferenceVelPosJacobian

definition backpropSnapshotInitArgs :: "pyArg list" where
  "backpropSnapshotInitArgs =
     [PyArg ''world'', PyArg ''preStepPosition'', PyArg ''preStepVelocity'',
      PyArg ''preStepTorques'', PyArg ''preConstraintVelocities'']"

definition backpropSnapshotMethods :: "(string \<times> snapshotMethod \<times> pyArg list) list" where
  "backpropSnapshotMethods =
     [(''backprop'', Backprop,
         [PyArg ''world'', PyArg ''thisTimestepLoss'', PyArg ''nextTimestepLoss'', PyArgNone ''perfLog'']),
      (''getVelVelJacobian'', GetVelVelJacobian, [PyArg ''world'', PyArgNone ''perfLog'']),
      (''getForceVelJacobian'', GetForceVelJacobian, [PyArg ''world'', PyArgNone ''perfLog'']),
      (''getPosPosJacobian'', GetPosPosJacobian, [PyArg ''world'', PyArgNone ''perfLog'']),
      (''getVelPosJacobian'', GetVelPosJacobian, [PyArg ''world'', PyArgNone ''perfLog'']),
      (''getPosVelJacobian'', GetPosVelJacobian, [PyArg ''world'', PyArgNone ''perfLog'']),
      (''getPreStepPosition'', GetPreStepPosition, []),
      (''getPreStepVelocity'', GetPreStepVelocity, []),
      (''getPreStepTorques'', GetPreStepTorques, []),
      (''getPostStepPosition'', GetPostStepPosition, []),
      (''getPostStepVelocity'', GetPostStepVelocity, []),
      (''getPostStepTorques'', GetPostStepTorques, []),
      (''getMassMatrix'', GetMassMatrix, []),
      (''getInvMassMatrix'', GetInvMassMatrix, []),
      (''finiteDifferenceVelVelJacobian'', FiniteDifferenceVelVelJacobian, [PyArg ''world'']),
      (''finiteDifferenceForceVelJacobian'', FiniteDifferenceForceVelJacobian, [PyArg ''world'']),
      (''finiteDifferencePosPosJacobian'', FiniteDifferencePosPosJacobian,
         [PyArg ''world'', PyArg ''subdivisions'']),
      (''finiteDifferenceVelPosJacobian'', FiniteDifferenceVelPosJacobian,
         [PyArg ''world'', PyArg ''subdivisions''])]"

text \<open>pybind11's argument binding: positional arguments fill the parameters in
  order, then each remaining parameter takes its keyword argument or its
  default; too many positional arguments, a keyword that repeats a
  positional one, a keyword that names no parameter and a missing required
  argument are a \<open>TypeError\<close> (\<open>None\<close>).\<close>

fun bindArgs :: "pyArg list \<Rightarrow> 'w pyVal list \<Rightarrow> (string \<times> 'w pyVal) list \<Rightarrow> 'w pyVal list option" where
  "bindArgs [] [] kw = (if kw = [] then Some [] else None)"
| "bindArgs [] (p # ps) kw = None"
| "bindArgs (a # as) (p # ps) kw =
     (if map_of kw (pyArgName a) \<noteq> None then None else map_option (Cons p) (bindArgs as ps kw))"
| "bindArgs (a # as) [] kw =
     (case map_of kw (pyArgName a) of
        Some v \<Rightarrow> map_option (Cons v) (bindArgs as [] (filter (\<lambda>p. fst p \<noteq> pyArgName a) kw))
      | None \<Rightarrow> (case a of PyArgNone _ \<Rightarrow> map_option (Cons PyNone) (bindArgs as [] kw)
                         | PyArg _ \<Rightarrow> None))"

text \<open>The type casters: a \<open>WorldPtr\<close>, an \<open>Eigen::VectorXd\<close>, an \<open>int\<close>, and a
  \<open>PerformanceLog*\<close> (only \<open>nullptr\<close> is modelled).\<close>

fun asWorld :: "'w pyVal \<Rightarrow> 'w option" where
  "asWorld (PyWorld w) = Some w"
| "asWorld _ = None"

fun asVec :: "'w pyVal \<Rightarrow> real list option" where
  "asVec (PyVec v) = Some v"
| "asVec _ = None"

fun asNullPerfLog :: "'w pyVal \<Rightarrow> unit option" where
  "asNullPerfLog PyNone = Some ()"
| "asNullPerfLog _ = None"

definition pyConstruct ::
  "'w snapshotWorld \<Rightarrow> 'w pyVal list \<Rightarrow> (string \<times> 'w pyVal) list \<Rightarrow> BackpropSnapshot option" where
  "pyConstruct sw pos kw =
     do { args \<leftarrow> bindArgs backpropSnapshotInitArgs pos kw;
          case args of
            [a, b, c, d, e] \<Rightarrow>
              do { w \<leftarrow> asWorld a; q \<leftarrow> asVec b; v \<leftarrow> asVec c; t \<leftarrow> asVec d; vs \<leftarrow> asVec e;
                   Some (newBackpropSnapshot sw w q v t vs) }
          | _ \<Rightarrow> None }"

datatype pyResult = RVec "real list" | RMat mat | RNone

text \<open>The C++ member each method forwards to.  \<open>backprop\<close> and the
  \<open>finiteDifference*\<close> methods are not modelled: their results come from the
  parameter \<open>other\<close>.\<close>

type_synonym 'w otherFn = "snapshotMethod \<Rightarrow> BackpropSnapshot \<Rightarrow> 'w pyVal list \<Rightarrow> pyResult option"

definition jacobianMethod ::
  "'w snapshotWorld \<Rightarrow> (world \<Rightarrow> BackpropSnapshot \<Rightarrow> mat option) \<Rightarrow> BackpropSnapshot
   \<Rightarrow> 'w pyVal list \<Rightarrow> pyResult option" where
  "jacobianMethod sw get snap args =
     (case args of
        [a, p] \<Rightarrow> do { w \<leftarrow> asWorld a; _ \<leftarrow> asNullPerfLog p; m \<leftarrow> get (swWorld sw w) snap; Some (RMat m) }
      | _ \<Rightarrow> None)"

fun callMethod ::
  "'w snapshotWorld \<Rightarrow> invFn \<Rightarrow> posVelFn \<Rightarrow> 'w otherFn \<Rightarrow> BackpropSnapshot \<Rightarrow> snapshotMethod
   \<Rightarrow> 'w pyVal list \<Rightarrow> pyResult option" where
  "callMethod sw invGram posVel other snap GetVelVelJacobian args =
     jacobianMethod sw (getVelVelJacobian invGram) snap args"
| "callMethod sw invGram posVel other snap GetForceVelJacobian args =
     jacobianMethod sw (getForceVelJacobian invGram) snap args"
| "callMethod sw invGram posVel other snap GetPosPosJacobian args =
     jacobianMethod sw (getPosPosJacobian posVel) snap args"
| "callMethod sw invGram posVel other snap GetVelPosJacobian args =
     jacobianMethod sw (getVelPosJacobian invGram) snap args"
| "callMethod sw invGram posVel other snap GetPosVelJacobian args =
     jacobianMethod sw (getPosVelJacobian posVel) snap args"
| "callMethod sw invGram posVel other snap GetPreStepPosition args = Some (RVec (mPreStepPosition snap))"
| "callMethod sw invGram posVel other snap GetPreStepVelocity args = Some (RVec (mPreStepVelocity snap))"
| "callMethod sw invGram posVel other snap GetPreStepTorques args = Some (RVec (mPreStepTorques snap))"
| "callMethod sw invGram posVel other snap GetPostStepPosition args = Some (RVec (mPostStepPosition snap))"
| "callMethod sw invGram posVel other snap GetPostStepVelocity args = Some (RVec (mPostStepVelocity snap))"
| "callMethod sw invGram posVel other snap GetPostStepTorques args = Some (RVec (mPostStepTorques snap))"
| "callMethod sw invGram posVel other snap GetMassMatrix args = Some (RMat (mMassMatrix snap))"
| "callMethod sw invGram posVel other snap GetInvMassMatrix args = Some (RMat (mInvMassMatrix snap))"
| "callMethod sw invGram posVel other snap m args = other m snap args"

definition pyCall ::
  "'w snapshotWorld \<Rightarrow> invFn \<Rightarrow> posVelFn \<Rightarrow> 'w otherFn \<Rightarrow> BackpropSnapshot \<Rightarrow> string
   \<Rightarrow> 'w pyVal list \<Rightarrow> (string \<times> 'w pyVal) list \<Rightarrow> pyResult option" where
  "pyCall sw invGram posVel other snap name pos kw =
     do { (m, params) \<leftarrow> map_of backpropSnapshotMethods name;
          args \<leftarrow> bindArgs params pos kw;
          callMethod sw invGram posVel other snap m args }"

section \<open>Examples\<close>

text \<open>A world after a step of the three-link arm of the kinematics examples:
  the tip (body 2) rests on the ground (body 3) in one clamping vertex-face
  contact, a second contact is not clamping; the inverse mass matrix is the
  identity and the time step \<open>1/100\<close>.  Worlds are named by numbers.  The
  solver inverts the diagonal.\<close>

definition ex_sw :: "nat snapshotWorld" where
  "ex_sw = \<lparr>swWorld = (\<lambda>w. ex_world), swPositions = (\<lambda>w. [0, 0, 0]), swVelocities = (\<lambda>w. [0, 0, 0]),
            swForces = (\<lambda>w. [0, 0, 0]), swMassMatrix = (\<lambda>w. eye), swInvMassMatrix = (\<lambda>w. eye),
            swTimeStep = (\<lambda>w. 1 / 100),
            swConstraints = (\<lambda>w. [(ex_dcc 2 3 VERTEX_FACE 0, CLAMPING), (ex_dcc 1 3 VERTEX_FACE 0, NOT_CLAMPING)]),
            swLcpStep = (\<lambda>w. \<lparr>stepX = [1, 0], stepDegraded = False, stepTried = [''DantzigBoxedLcpSolver'']\<rparr>)\<rparr>"

definition ex_snapshot :: BackpropSnapshot where
  "ex_snapshot = newBackpropSnapshot ex_sw 0 [0, 0, 0] [1, 0, 0] [0, 0, 0] [1, 0, 0]"

definition ex_invGram :: invFn where
  "ex_invGram k A = (\<lambda>i j. if i = j then 1 / A i i else 0)"

definition ex_posVel :: posVelFn where
  "ex_posVel w snap = Some (\<lambda>i j. 0)"

definition ex_other :: "nat otherFn" where
  "ex_other m snap args = None"

section \<open>Lemmas: the step is affine in the unconstrained velocity\<close>

lemma constraintGram_assoc: "constraintGram n Minv J = mmul n J (mmul n Minv (mtrans J))"
  by (simp add: constraintGram_def mmul_assoc)

text \<open>The step's velocity is \<open>V q'* - W r\<close>, with \<open>V\<close> the vel\<open>\<rightarrow>\<close>vel matrix and
  \<open>W = M\<^sup>-\<^sup>1 J\<^sup>T A\<^sup>-\<^sup>1\<close>.\<close>

lemma constrainedVelocity_affine:
  assumes "length vstar = n" "length rest = nc"
  shows "constrainedVelocity n nc Minv J Ainv rest vstar
       = vsub (mulVec n (velVelFromJ n nc Minv J Ainv) vstar)
              (mulVec n (mmul nc (mmul n Minv (mtrans J)) Ainv) rest)"
proof -
  let ?MJ = "mmul n Minv (mtrans J)"
  let ?W = "mmul nc ?MJ Ainv"
  have "constrainedVelocity n nc Minv J Ainv rest vstar
      = vadd vstar (vscale (-1) (mulVec n ?W (vadd (mulVec nc J vstar) rest)))"
    by (simp add: constrainedVelocity_def clampingImpulses_def mulVec_vscale mulVec_mmul)
  also have "\<dots> = vadd vstar (vscale (-1) (vadd (mulVec n (mmul nc ?W J) vstar) (mulVec n ?W rest)))"
    using assms by (simp add: mulVec_vadd mulVec_mmul)
  also have "\<dots> = vsub (vsub vstar (mulVec n (mmul nc ?W J) vstar)) (mulVec n ?W rest)"
    using assms by (simp add: vadd_neg_vadd)
  also have "vsub vstar (mulVec n (mmul nc ?W J) vstar) = mulVec n (velVelFromJ n nc Minv J Ainv) vstar"
    using mulVec_eye [of vstar] assms by (simp add: velVelFromJ_def mulVec_msub)
  finally show ?thesis .
qed

text \<open>With \<open>A\<^sup>-\<^sup>1\<close> a right inverse of the Gram matrix on the clamping rows,
  the clamping rows of the new velocity are \<open>-r\<close>.\<close>

lemma constrainedVelocity_rows:
  assumes inv: "\<forall>i<nc. \<forall>j<nc. mmul nc (constraintGram n Minv J) Ainv i j = eye i j"
    and len: "length vstar = n" "length rest = nc"
  shows "mulVec nc J (constrainedVelocity n nc Minv J Ainv rest vstar) = vscale (-1) rest"
proof -
  let ?y = "vadd (mulVec nc J vstar) rest"
  have y: "length ?y = nc" using len by simp
  have AAy: "mulVec nc (mmul nc (constraintGram n Minv J) Ainv) ?y = ?y"
  proof -
    have "mulVec nc (mmul nc (constraintGram n Minv J) Ainv) ?y = mulVec nc eye ?y"
      using inv y by (intro mulVec_cong) simp
    then show ?thesis using mulVec_eye [of ?y] y by simp
  qed
  have "mulVec nc J (constrainedVelocity n nc Minv J Ainv rest vstar)
      = vadd (mulVec nc J vstar)
             (vscale (-1) (mulVec nc (mmul nc (constraintGram n Minv J) Ainv) ?y))"
    using len by (simp add: constrainedVelocity_def clampingImpulses_def mulVec_vadd mulVec_vscale
        mulVec_mmul constraintGram_assoc)
  also have "\<dots> = vscale (-1) rest"
    using AAy len by (intro nth_equalityI) (simp_all add: vadd_def vscale_def)
  finally show ?thesis .
qed

text \<open>A difference quotient of an affine map of lists is its column.\<close>

lemma fdColumn_shift:
  assumes "eps \<noteq> 0" "length a = m" "length c = m" "length cl = m"
  shows "fdColumn eps (vsub (vadd a (vscale eps cl)) c) (vsub a c) = cl"
  using assms by (intro nth_equalityI) (simp_all add: fdColumn_def vadd_def vsub_def vscale_def)

lemma fdColumn_shift_pos:
  assumes "eps \<noteq> 0" "length q = m" "length a = m" "length c = m" "length cl = m"
  shows "fdColumn eps (vadd q (vscale dt (vsub (vadd a (vscale eps cl)) c)))
                      (vadd q (vscale dt (vsub a c))) = vscale dt cl"
  using assms by (intro nth_equalityI) (simp_all add: fdColumn_def vadd_def vsub_def vscale_def
      field_simps)

lemma matCol_mscale: "matCol m (mscale r A) j = vscale r (matCol m A j)"
  by (simp add: matCol_def mscale_def vscale_def)

section \<open>Lemmas: the vel\<open>\<rightarrow>\<close>vel matrix\<close>

lemma velVel_rows_zero:
  assumes inv: "\<forall>i<nc. \<forall>j<nc. mmul nc (constraintGram n Minv J) Ainv i j = eye i j"
    and "i < nc" "j < n"
  shows "mmul n J (velVelFromJ n nc Minv J Ainv) i j = 0"
proof -
  have JX: "mmul n J (mmul nc (mmul nc (mmul n Minv (mtrans J)) Ainv) J)
          = mmul nc (mmul nc (constraintGram n Minv J) Ainv) J"
    by (simp add: constraintGram_def mmul_assoc)
  have "mmul n J (velVelFromJ n nc Minv J Ainv) = msub (mmul n J eye) (mmul nc (mmul nc (constraintGram n Minv J) Ainv) J)"
    by (simp only: velVelFromJ_def mmul_msub_right JX)
  then show ?thesis
    using assms mmul_inverse_left [OF inv \<open>i < nc\<close>] by (simp add: msub_def mmul_eye_right)
qed

lemma velVel_X_idem:
  assumes inv: "\<forall>i<nc. \<forall>j<nc. mmul nc Ainv (constraintGram n Minv J) i j = eye i j"
  shows "mmul n (mmul nc (mmul nc (mmul n Minv (mtrans J)) Ainv) J)
                (mmul nc (mmul nc (mmul n Minv (mtrans J)) Ainv) J)
       = mmul nc (mmul nc (mmul n Minv (mtrans J)) Ainv) J"
proof -
  let ?K = "mmul nc Ainv J"
  have e: "mmul nc (mtrans J) (mmul nc (mmul nc Ainv (constraintGram n Minv J)) ?K) = mmul nc (mtrans J) ?K"
    by (rule mmul_cong_inner) (simp add: mmul_inverse_left [OF inv])
  then show ?thesis by (simp only: mmul_assoc constraintGram_def)
qed

lemma velVel_idem:
  assumes inv: "\<forall>i<nc. \<forall>j<nc. mmul nc Ainv (constraintGram n Minv J) i j = eye i j"
    and "i < n" "j < n"
  shows "mmul n (velVelFromJ n nc Minv J Ainv) (velVelFromJ n nc Minv J Ainv) i j
       = velVelFromJ n nc Minv J Ainv i j"
proof -
  let ?X = "mmul nc (mmul nc (mmul n Minv (mtrans J)) Ainv) J"
  have "mmul n (velVelFromJ n nc Minv J Ainv) (velVelFromJ n nc Minv J Ainv)
      = msub (msub (mmul n eye eye) (mmul n ?X eye)) (msub (mmul n eye ?X) (mmul n ?X ?X))"
    by (simp only: velVelFromJ_def mmul_msub_left mmul_msub_right)
  then show ?thesis
    using assms by (simp add: velVel_X_idem msub_def mmul_eye_left mmul_eye_right velVelFromJ_def)
qed

lemma getVelVelJacobian_rows:
  "getClampingConstraintMatrix w snap = Some rows
   \<Longrightarrow> getVelVelJacobian invGram w snap
       = Some (velVelFromJ (mNumDofs snap) (length rows) (mInvMassMatrix snap) (matOfRows rows)
                (gramInverse invGram rows snap))"
  by (simp add: getVelVelJacobian_def)

lemma length_constrainedVelocity:
  "length vstar = n \<Longrightarrow> length (constrainedVelocity n nc Minv J Ainv rest vstar) = n"
  by (simp add: constrainedVelocity_def)

lemma clampingRows_nth:
  "getClampingConstraintMatrix w snap = Some rows \<Longrightarrow> i < length (mClampingConstraints snap)
   \<Longrightarrow> getConstraintForces w (mClampingConstraints snap ! i) = Some (rows ! i)"
  by (simp add: getClampingConstraintMatrix_def map_opt_Some_nth)

lemma clampingRows_length:
  "getClampingConstraintMatrix w snap = Some rows \<Longrightarrow> length rows = length (mClampingConstraints snap)"
  by (simp add: getClampingConstraintMatrix_def map_opt_Some_length)

section \<open>Lemmas: the binding\<close>

lemma map_of_filter_neq:
  "map_of (filter (\<lambda>p. fst p \<noteq> x) kw) y = (if y = x then None else map_of kw y)"
  by (induction kw) auto

lemma bindArgs_keywords:
  "distinct (map pyArgName as) \<Longrightarrow> distinct (map fst kw) \<Longrightarrow> set (map fst kw) = set (map pyArgName as)
   \<Longrightarrow> bindArgs as [] kw = Some (map (\<lambda>a. the (map_of kw (pyArgName a))) as)"
proof (induction as arbitrary: kw)
  case Nil
  then show ?case by simp
next
  case (Cons a as)
  let ?kw' = "filter (\<lambda>p. fst p \<noteq> pyArgName a) kw"
  obtain v where some: "map_of kw (pyArgName a) = Some v"
    using Cons.prems(3) by (cases "map_of kw (pyArgName a)") (auto simp: map_of_eq_None_iff)
  have "set (map fst ?kw') = set (map fst kw) - {pyArgName a}"
    by (induction kw) auto
  then have "set (map fst ?kw') = set (map pyArgName as)"
    using Cons.prems(1,3) by auto
  moreover have "distinct (map fst ?kw')"
    using Cons.prems(2) by (simp add: distinct_map_filter)
  ultimately have ih: "bindArgs as [] ?kw' = Some (map (\<lambda>b. the (map_of ?kw' (pyArgName b))) as)"
    using Cons.IH Cons.prems(1) by simp
  have "map (\<lambda>b. the (map_of ?kw' (pyArgName b))) as = map (\<lambda>b. the (map_of kw (pyArgName b))) as"
    using Cons.prems(1) by (auto simp: map_of_filter_neq image_iff)
  then show ?case using some ih by simp
qed

section \<open>Lemmas: the example\<close>

lemma ex_walk:
  "walkToJoint ex_kin 0 2 = Some True" "walkToJoint ex_kin 1 2 = Some True" "walkToJoint ex_kin 2 2 = Some True"
proof -
  have a: "walkToJoint ex_kin 0 1 = Some True" by (simp add: walkToJoint_up ex_parentJointOf_gen)
  show "walkToJoint ex_kin 0 2 = Some True" using a by (simp add: walkToJoint_up ex_parentJointOf_gen)
  show "walkToJoint ex_kin 1 2 = Some True" by (simp add: walkToJoint_up ex_parentJointOf_gen)
qed simp

lemma ex_forceMultiple: "j \<le> 2 \<Longrightarrow> getForceMultiple ex_kin (ex_dcc 2 3 VERTEX_FACE 0) (ex_dof j) = Some 1"
proof -
  assume j: "j \<le> 2"
  have "isParentBody ex_kin (ex_dof j) 2 = Some True"
    using j ex_walk by (auto simp: isParentBody_def ex_dof_def) (auto simp: ex_kin_def le_Suc_eq numeral_2_eq_2)
  moreover have "isParentBody ex_kin (ex_dof j) 3 = Some False"
    using j by (simp add: isParentBody_def ex_dof_def ex_kin_def)
  ultimately show ?thesis by (simp add: getForceMultiple_def ex_cc_def)
qed

lemma ex_constraintForces: "getConstraintForces ex_world (ex_dcc 2 3 VERTEX_FACE 0) = Some [2, 1, 0]"
  by (simp add: getConstraintForces_def ex_world_def getConstraintForcesSkel_def
      ex_forceMultiple ex_screw getWorldForce_def)

lemma ex_snapshot_fields [simp]:
  "mClampingConstraints ex_snapshot = [ex_dcc 2 3 VERTEX_FACE 0]" "mNumDofs ex_snapshot = 3"
  "mInvMassMatrix ex_snapshot = eye" "mTimeStep ex_snapshot = 1 / 100"
  by (simp_all add: ex_snapshot_def newBackpropSnapshot_def ex_sw_def constraintsOfClass_def Let_def)

lemma ex_clampingRows: "getClampingConstraintMatrix ex_world ex_snapshot = Some [[2, 1, 0]]"
  by (simp add: getClampingConstraintMatrix_def ex_constraintForces)

lemma ex_gram: "constraintGram 3 eye (matOfRows [[2, 1, 0]]) 0 0 = 5"
  by (simp add: constraintGram_def mmul_def mtrans_def matOfRows_def eye_def numeral_3_eq_3 lessThan_Suc)

lemma ex_gramInverse:
  "rightInverseOn 1 (constraintGram 3 eye (matOfRows [[2, 1, 0]])) (gramInverse ex_invGram [[2, 1, 0]] ex_snapshot)
   \<and> rightInverseOn 1 (gramInverse ex_invGram [[2, 1, 0]] ex_snapshot) (constraintGram 3 eye (matOfRows [[2, 1, 0]]))"
  using ex_gram by (simp add: rightInverseOn_def gramInverse_def ex_invGram_def mmul_def eye_def)

section \<open>Properties of the snapshot and its binding\<close>

text \<open>
  C23.  The semi-implicit step the snapshot records stops every clamping
  contact: when the solver inverts the Gram matrix \<open>J M\<^sup>-\<^sup>1 J\<^sup>T\<close> of the clamping
  rows (from the right), the new velocity has, along the generalised
  constraint force of the \<open>i\<close>-th clamping constraint
  (\<open>getConstraintForces(world)\<close>), the component \<open>-r\<^sub>i\<close> set by restitution, and so
  zero without restitution.
\<close>

theorem snapshotStep_stops_clamping_contacts:
  assumes rows: "getClampingConstraintMatrix w snap = Some rows"
    and inv: "rightInverseOn (length rows) (constraintGram (mNumDofs snap) (mInvMassMatrix snap) (matOfRows rows))
                (gramInverse invGram rows snap)"
    and len: "length vstar = mNumDofs snap" "length rest = length rows"
  shows "\<forall>i<length (mClampingConstraints snap). \<exists>tau.
           getConstraintForces w (mClampingConstraints snap ! i) = Some tau
         \<and> (\<Sum>l<mNumDofs snap. tau ! l * snd (snapshotStep invGram rows snap rest q vstar) ! l) = - rest ! i"
proof (intro allI impI)
  fix i assume i: "i < length (mClampingConstraints snap)"
  let ?v = "constrainedVelocity (mNumDofs snap) (length rows) (mInvMassMatrix snap) (matOfRows rows)
              (gramInverse invGram rows snap) rest vstar"
  have "mulVec (length rows) (matOfRows rows) ?v = vscale (-1) rest"
    using constrainedVelocity_rows [OF inv [unfolded rightInverseOn_def] len] .
  then have "mulVec (length rows) (matOfRows rows) ?v ! i = - rest ! i"
    using i len clampingRows_length [OF rows] by (simp add: vscale_def)
  then have "(\<Sum>l<mNumDofs snap. rows ! i ! l * ?v ! l) = - rest ! i"
    using i clampingRows_length [OF rows] length_constrainedVelocity [OF len(1)]
    by (simp add: matOfRows_def)
  then show "\<exists>tau. getConstraintForces w (mClampingConstraints snap ! i) = Some tau
         \<and> (\<Sum>l<mNumDofs snap. tau ! l * snd (snapshotStep invGram rows snap rest q vstar) ! l) = - rest ! i"
    using clampingRows_nth [OF rows i] by (simp add: snapshotStep_def semiImplicitStep_def Let_def)
qed

lemma snapshotStep_stops_clamping_contacts_witness:
  "(\<Sum>l<3. [2, 1, 0] ! l * snd (snapshotStep ex_invGram [[2, 1, 0]] ex_snapshot [0] [0, 0, 0] [1, 0, 0]) ! l)
     = (0::real)"
  using snapshotStep_stops_clamping_contacts [OF ex_clampingRows, of ex_invGram "[1, 0, 0]" "[0]" "[0, 0, 0]"]
    ex_gramInverse ex_constraintForces
  by simp

text \<open>
  C24.  On a fixed active set the analytical Jacobians are exact: a
  finite-difference column of the step (perturbing \<open>q'*\<close> at coordinate
  \<open>j\<close> by any \<open>eps \<noteq> 0\<close>, as the brute-force validator does) equals column \<open>j\<close>
  of \<open>getVelVelJacobian\<close> for the new velocity and of \<open>getVelPosJacobian\<close> for
  the new position, whatever the solver returns.
\<close>

theorem snapshotStep_finite_differences:
  assumes rows: "getClampingConstraintMatrix w snap = Some rows"
    and eps: "eps \<noteq> 0" and j: "j < mNumDofs snap"
    and len: "length vstar = mNumDofs snap" "length q = mNumDofs snap" "length rest = length rows"
  shows "\<exists>V P. getVelVelJacobian invGram w snap = Some V \<and> getVelPosJacobian invGram w snap = Some P
     \<and> fdColumn eps (snd (snapshotStep invGram rows snap rest q (perturb vstar j eps)))
                    (snd (snapshotStep invGram rows snap rest q vstar)) = matCol (mNumDofs snap) V j
     \<and> fdColumn eps (fst (snapshotStep invGram rows snap rest q (perturb vstar j eps)))
                    (fst (snapshotStep invGram rows snap rest q vstar)) = matCol (mNumDofs snap) P j"
proof -
  let ?n = "mNumDofs snap"
  let ?V = "velVelFromJ ?n (length rows) (mInvMassMatrix snap) (matOfRows rows) (gramInverse invGram rows snap)"
  let ?c = "mulVec ?n (mmul (length rows) (mmul ?n (mInvMassMatrix snap) (mtrans (matOfRows rows)))
              (gramInverse invGram rows snap)) rest"
  have plen: "length (perturb vstar j eps) = ?n" using len by (simp add: perturb_def)
  have v0: "snd (snapshotStep invGram rows snap rest q vstar) = vsub (mulVec ?n ?V vstar) ?c"
    using constrainedVelocity_affine [OF len(1) len(3)]
    by (simp add: snapshotStep_def semiImplicitStep_def Let_def)
  have v1: "snd (snapshotStep invGram rows snap rest q (perturb vstar j eps))
          = vsub (vadd (mulVec ?n ?V vstar) (vscale eps (matCol ?n ?V j))) ?c"
    using constrainedVelocity_affine [OF plen len(3)] mulVec_update [of j vstar ?n ?V eps] j len(1)
    by (simp add: snapshotStep_def semiImplicitStep_def perturb_def Let_def)
  have p: "fst (snapshotStep invGram rows snap rest q x) = vadd q (vscale (mTimeStep snap) (snd (snapshotStep invGram rows snap rest q x)))" for x
    by (simp add: snapshotStep_def semiImplicitStep_def Let_def)
  have "fdColumn eps (snd (snapshotStep invGram rows snap rest q (perturb vstar j eps)))
                    (snd (snapshotStep invGram rows snap rest q vstar)) = matCol ?n ?V j"
    unfolding v0 v1 using eps by (intro fdColumn_shift) simp_all
  moreover have "fdColumn eps (fst (snapshotStep invGram rows snap rest q (perturb vstar j eps)))
                    (fst (snapshotStep invGram rows snap rest q vstar)) = matCol ?n (mscale (mTimeStep snap) ?V) j"
    unfolding p v0 v1 matCol_mscale using eps len by (intro fdColumn_shift_pos) simp_all
  ultimately show ?thesis
    using getVelVelJacobian_rows [OF rows, of invGram]
    by (simp add: getVelPosJacobian_def)
qed

lemma snapshotStep_finite_differences_witness:
  "fdColumn (1 / 1000000) (snd (snapshotStep ex_invGram [[2, 1, 0]] ex_snapshot [0] [0, 0, 0] (perturb [1, 0, 0] 0 (1 / 1000000))))
      (snd (snapshotStep ex_invGram [[2, 1, 0]] ex_snapshot [0] [0, 0, 0] [1, 0, 0]))
   = matCol 3 (velVelFromJ 3 1 eye (matOfRows [[2, 1, 0]]) (gramInverse ex_invGram [[2, 1, 0]] ex_snapshot)) 0"
  using snapshotStep_finite_differences [OF ex_clampingRows, of "1 / 1000000" 0 "[1, 0, 0]" "[0, 0, 0]" "[0]" ex_invGram]
  by (auto simp: getVelVelJacobian_rows [OF ex_clampingRows])

text \<open>
  C25.  When the solver returns a two-sided inverse of the Gram matrix of
  the clamping rows, the vel\<open>\<rightarrow>\<close>vel Jacobian is a projection
  (\<open>V V = V\<close>) whose image the clamping rows annihilate (\<open>J V = 0\<close>).
\<close>

theorem getVelVelJacobian_projection:
  assumes rows: "getClampingConstraintMatrix w snap = Some rows"
    and right: "rightInverseOn (length rows) (constraintGram (mNumDofs snap) (mInvMassMatrix snap) (matOfRows rows))
                  (gramInverse invGram rows snap)"
    and left: "rightInverseOn (length rows) (gramInverse invGram rows snap)
                 (constraintGram (mNumDofs snap) (mInvMassMatrix snap) (matOfRows rows))"
  shows "\<exists>V. getVelVelJacobian invGram w snap = Some V
     \<and> matEq (mNumDofs snap) (mNumDofs snap) (mmul (mNumDofs snap) V V) V
     \<and> matEq (length rows) (mNumDofs snap) (mmul (mNumDofs snap) (matOfRows rows) V) (\<lambda>i j. 0)"
  using getVelVelJacobian_rows [OF rows, of invGram]
    velVel_idem [OF left [unfolded rightInverseOn_def]] velVel_rows_zero [OF right [unfolded rightInverseOn_def]]
  by (simp add: matEq_def)

lemma getVelVelJacobian_projection_witness:
  "\<exists>V. getVelVelJacobian ex_invGram ex_world ex_snapshot = Some V
     \<and> matEq 3 3 (mmul 3 V V) V \<and> matEq 1 3 (mmul 3 (matOfRows [[2, 1, 0]]) V) (\<lambda>i j. 0)"
  using getVelVelJacobian_projection [OF ex_clampingRows, of ex_invGram] ex_gramInverse by simp

text \<open>
  The Python constructor binds its keyword arguments to the C++
  constructor's parameters by name, in any order: a snapshot built with
  keywords is the one built positionally, and \<open>getPreStepPosition\<close>,
  \<open>getPreStepVelocity\<close> and \<open>getPreStepTorques\<close> return the arrays passed
  under those names.
\<close>

theorem pyConstruct_keywords_roundtrip:
  assumes "distinct (map fst kw)"
    and "set kw = {(''world'', PyWorld w), (''preStepPosition'', PyVec q), (''preStepVelocity'', PyVec v),
                   (''preStepTorques'', PyVec t), (''preConstraintVelocities'', PyVec vs)}"
  shows "pyConstruct sw [] kw = Some (newBackpropSnapshot sw w q v t vs)
     \<and> pyConstruct sw [PyWorld w, PyVec q, PyVec v, PyVec t, PyVec vs] [] = Some (newBackpropSnapshot sw w q v t vs)
     \<and> pyCall sw invGram posVel other (newBackpropSnapshot sw w q v t vs) ''getPreStepPosition'' [] [] = Some (RVec q)
     \<and> pyCall sw invGram posVel other (newBackpropSnapshot sw w q v t vs) ''getPreStepVelocity'' [] [] = Some (RVec v)
     \<and> pyCall sw invGram posVel other (newBackpropSnapshot sw w q v t vs) ''getPreStepTorques'' [] [] = Some (RVec t)"
proof -
  have m: "map_of kw ''world'' = Some (PyWorld w)" "map_of kw ''preStepPosition'' = Some (PyVec q)"
    "map_of kw ''preStepVelocity'' = Some (PyVec v)" "map_of kw ''preStepTorques'' = Some (PyVec t)"
    "map_of kw ''preConstraintVelocities'' = Some (PyVec vs)"
    using assms by (simp_all add: map_of_is_SomeI)
  have "set (map fst kw) = set (map pyArgName backpropSnapshotInitArgs)"
    using assms(2) by (auto simp: backpropSnapshotInitArgs_def image_iff)
  then have "bindArgs backpropSnapshotInitArgs [] kw
      = Some [PyWorld w, PyVec q, PyVec v, PyVec t, PyVec vs]"
    using bindArgs_keywords [of backpropSnapshotInitArgs kw] assms(1) m
    by (simp add: backpropSnapshotInitArgs_def)
  then show ?thesis
    by (simp add: pyConstruct_def pyCall_def backpropSnapshotInitArgs_def backpropSnapshotMethods_def
        newBackpropSnapshot_def Let_def)
qed

text \<open>
  Each Jacobian method of the binding forwards to the C++ method of
  the same name, takes the world positionally or by keyword with
  \<open>perfLog\<close> defaulting to \<open>nullptr\<close>, and raises \<open>TypeError\<close> without a world;
  the mass-matrix getters return the snapshot's matrices.
\<close>

theorem pyCall_jacobians:
  "pyCall sw invGram posVel other snap ''getVelVelJacobian'' [PyWorld w] []
     = map_option RMat (getVelVelJacobian invGram (swWorld sw w) snap)
   \<and> pyCall sw invGram posVel other snap ''getForceVelJacobian'' [PyWorld w] []
     = map_option RMat (getForceVelJacobian invGram (swWorld sw w) snap)
   \<and> pyCall sw invGram posVel other snap ''getPosPosJacobian'' [PyWorld w] []
     = map_option RMat (getPosPosJacobian posVel (swWorld sw w) snap)
   \<and> pyCall sw invGram posVel other snap ''getVelPosJacobian'' [PyWorld w] []
     = map_option RMat (getVelPosJacobian invGram (swWorld sw w) snap)
   \<and> pyCall sw invGram posVel other snap ''getPosVelJacobian'' [PyWorld w] []
     = map_option RMat (getPosVelJacobian posVel (swWorld sw w) snap)
   \<and> pyCall sw invGram posVel other snap ''getVelVelJacobian'' [] [(''world'', PyWorld w), (''perfLog'', PyNone)]
     = map_option RMat (getVelVelJacobian invGram (swWorld sw w) snap)
   \<and> pyCall sw invGram posVel other snap ''getVelVelJacobian'' [] [] = None
   \<and> pyCall sw invGram posVel other snap ''getMassMatrix'' [] [] = Some (RMat (mMassMatrix snap))
   \<and> pyCall sw invGram posVel other snap ''getInvMassMatrix'' [] [] = Some (RMat (mInvMassMatrix snap))"
  by (simp add: pyCall_def backpropSnapshotMethods_def jacobianMethod_def bind_Some_map_option)

text \<open>
  C26.  The Python binding is faithful to the C++ class.  The constructor
  binds its keyword arguments to the C++ constructor's parameters by name, in
  any order (a snapshot built with keywords is the one built positionally),
  and \<open>getPreStepPosition\<close>, \<open>getPreStepVelocity\<close> and \<open>getPreStepTorques\<close>
  return the arrays passed under those names.  Each Jacobian method forwards
  to the C++ method of the same name, takes the world positionally or by
  keyword with \<open>perfLog\<close> defaulting to \<open>nullptr\<close>, and raises \<open>TypeError\<close>
  without a world; the mass-matrix getters return the snapshot's matrices.
\<close>

theorem pyBinding_faithful:
  "(distinct (map fst kw) \<and>
    set kw = {(''world'', PyWorld w), (''preStepPosition'', PyVec q), (''preStepVelocity'', PyVec v),
              (''preStepTorques'', PyVec t), (''preConstraintVelocities'', PyVec vs)} \<longrightarrow>
      pyConstruct sw [] kw = Some (newBackpropSnapshot sw w q v t vs)
    \<and> pyConstruct sw [PyWorld w, PyVec q, PyVec v, PyVec t, PyVec vs] [] = Some (newBackpropSnapshot sw w q v t vs)
    \<and> pyCall sw invGram posVel other (newBackpropSnapshot sw w q v t vs) ''getPreStepPosition'' [] [] = Some (RVec q)
    \<and> pyCall sw invGram posVel other (newBackpropSnapshot sw w q v t vs) ''getPreStepVelocity'' [] [] = Some (RVec v)
    \<and> pyCall sw invGram posVel other (newBackpropSnapshot sw w q v t vs) ''getPreStepTorques'' [] [] = Some (RVec t))
   \<and> pyCall sw invGram posVel other snap ''getVelVelJacobian'' [PyWorld w] []
     = map_option RMat (getVelVelJacobian invGram (swWorld sw w) snap)
   \<and> pyCall sw invGram posVel other snap ''getForceVelJacobian'' [PyWorld w] []
     = map_option RMat (getForceVelJacobian invGram (swWorld sw w) snap)
   \<and> pyCall sw invGram posVel other snap ''getPosPosJacobian'' [PyWorld w] []
     = map_option RMat (getPosPosJacobian posVel (swWorld sw w) snap)
   \<and> pyCall sw invGram posVel other snap ''getVelPosJacobian'' [PyWorld w] []
     = map_option RMat (getVelPosJacobian invGram (swWorld sw w) snap)
   \<and> pyCall sw invGram posVel other snap ''getPosVelJacobian'' [PyWorld w] []
     = map_option RMat (getPosVelJacobian posVel (swWorld sw w) snap)
   \<and> pyCall sw invGram posVel other snap ''getVelVelJacobian'' [] [(''world'', PyWorld w), (''perfLog'', PyNone)]
     = map_option RMat (getVelVelJacobian invGram (swWorld sw w) snap)
   \<and> pyCall sw invGram posVel other snap ''getVelVelJacobian'' [] [] = None
   \<and> pyCall sw invGram posVel other snap ''getMassMatrix'' [] [] = Some (RMat (mMassMatrix snap))
   \<and> pyCall sw invGram posVel other snap ''getInvMassMatrix'' [] [] = Some (RMat (mInvMassMatrix snap))"
  using pyConstruct_keywords_roundtrip [of kw w q v t vs sw invGram posVel other]
    pyCall_jacobians [of sw invGram posVel other snap w]
  by blast

lemma pyBinding_faithful_witness:
  "pyConstruct ex_sw [] [(''preStepVelocity'', PyVec [1, 0, 0]), (''world'', PyWorld 0),
       (''preConstraintVelocities'', PyVec [1, 0, 0]), (''preStepTorques'', PyVec [0, 0, 0]),
       (''preStepPosition'', PyVec [0, 0, 0])] = Some ex_snapshot
   \<and> pyCall ex_sw ex_invGram ex_posVel ex_other ex_snapshot ''getPreStepVelocity'' [] [] = Some (RVec [1, 0, 0])
   \<and> pyCall ex_sw ex_invGram ex_posVel ex_other ex_snapshot ''getVelVelJacobian'' [] [] = None"
  using pyBinding_faithful [of "[(''preStepVelocity'', PyVec [1, 0, 0]), (''world'', PyWorld 0),
       (''preConstraintVelocities'', PyVec [1, 0, 0]), (''preStepTorques'', PyVec [0, 0, 0]),
       (''preStepPosition'', PyVec [0, 0, 0])]" 0 "[0, 0, 0]" "[1, 0, 0]" "[0, 0, 0]" "[1, 0, 0]" ex_sw
       ex_invGram ex_posVel ex_other ex_snapshot]
  by (simp add: ex_snapshot_def insert_commute)

end
