(* ===== verification/AbstractShot.thy ===== *)
theory AbstractShot
  imports BackpropSnapshot
begin

text \<open>
  The trajectory-optimisation interface \<open>dart::trajectory::AbstractShot\<close>
  (\<open>src/unnamed/part_001\<close>).  Only its declaration is under \<open>src/\<close>: a
  shot is a piece of trajectory whose decision variables an optimiser reads
  and writes as one flat vector.  The pure virtual methods are an interface
  record \<open>ShotInterface\<close> over the concrete shot's state \<open>'s\<close> and the world
  \<open>'w\<close> (a C++ vtable); the protected members are the record
  \<open>AbstractShotState\<close>.  An \<open>OUT\<close> reference argument is the function's result.

  The non-virtual methods have no body under \<open>src/\<close>.  The setters and
  \<open>getNumSteps\<close> are what their declarations say (a member write and a
  member read); \<open>finiteDifferenceJacobian\<close> and the other declared methods
  with no body are not modelled.
\<close>

section \<open>The interface\<close>

text \<open>\<open>TrajectoryLossFn\<close> and \<open>TrajectoryLossFnGrad\<close> (from
  \<open>TrajectoryConstants.hpp\<close>, not under \<open>src/\<close>): a loss of the poses,
  velocities and forces matrices, and its gradient with respect to each.\<close>

type_synonym TrajectoryLossFn = "mat \<Rightarrow> mat \<Rightarrow> mat \<Rightarrow> real"
type_synonym TrajectoryLossFnGrad = "mat \<Rightarrow> mat \<Rightarrow> mat \<Rightarrow> mat \<times> mat \<times> mat"

record ('s, 'w) ShotInterface =
  getFlatProblemDim :: "'s \<Rightarrow> int"
  getConstraintDim :: "'s \<Rightarrow> int"
  flatten :: "'s \<Rightarrow> real list"
  unflatten :: "real list \<Rightarrow> 's \<Rightarrow> 's"
  unroll :: "'w \<Rightarrow> 's \<Rightarrow> 's \<times> mat \<times> mat \<times> mat"
  getUpperBounds :: "'w \<Rightarrow> 's \<Rightarrow> real list"
  getLowerBounds :: "'w \<Rightarrow> 's \<Rightarrow> real list"
  getInitialGuess :: "'w \<Rightarrow> 's \<Rightarrow> real list"
  computeConstraints :: "'w \<Rightarrow> 's \<Rightarrow> 's \<times> real list"
  backpropJacobian :: "'w \<Rightarrow> 's \<Rightarrow> 's \<times> mat"
  backpropGradient :: "'w \<Rightarrow> 's \<Rightarrow> mat \<Rightarrow> mat \<Rightarrow> mat \<Rightarrow> 's \<times> real list"
  getStates :: "'w \<Rightarrow> 's \<Rightarrow> bool \<Rightarrow> 's \<times> mat \<times> mat \<times> mat"
  getStartState :: "'s \<Rightarrow> real list"
  getFinalState :: "'w \<Rightarrow> 's \<Rightarrow> real list"
  getFlatDimName :: "'s \<Rightarrow> int \<Rightarrow> string"
  getNumberNonZeroJacobian :: "'s \<Rightarrow> int"
  getJacobianSparsityStructure :: "'s \<Rightarrow> int list \<times> int list"
  getSparseJacobian :: "'w \<Rightarrow> 's \<Rightarrow> 's \<times> real list"

record 'w AbstractShotState =
  mSteps :: int
  mNumDofs :: int
  mTuneStartingState :: bool
  mWorld :: 'w
  mLoss :: TrajectoryLossFn
  mGrad :: TrajectoryLossFnGrad
  mPoses :: mat
  mVels :: mat
  mForces :: mat

definition setLossFunction :: "TrajectoryLossFn \<Rightarrow> 'w AbstractShotState \<Rightarrow> 'w AbstractShotState" where
  "setLossFunction loss st = st\<lparr>mLoss := loss\<rparr>"

definition setLossFunctionGradient ::
  "TrajectoryLossFnGrad \<Rightarrow> 'w AbstractShotState \<Rightarrow> 'w AbstractShotState" where
  "setLossFunctionGradient lossGrad st = st\<lparr>mGrad := lossGrad\<rparr>"

definition getNumSteps :: "'w AbstractShotState \<Rightarrow> int" where
  "getNumSteps st = mSteps st"

end
