(* ===== verification/PerturbationEstimates.thy ===== *)
theory PerturbationEstimates
  imports ContactGradients
begin

text \<open>
  The analytical perturbation estimates of \<open>DifferentiableContactConstraint\<close>
  (\<open>estimatePerturbed*\<close>, cpp 845-1053): where the contact point, normal,
  force direction, edges or a screw axis move when one DOF of a skeleton is
  turned by \<open>eps\<close> about its world screw axis.  They are the test-side
  counterparts of the gradients of \<open>ContactGradients\<close>.

  \<open>math::expMap\<close> (the exponential of a twist) and \<open>math::getContactPoint\<close>
  (the closest point of two lines) are not under \<open>src/\<close>: they are parameters.
  An \<open>Isometry3d\<close> is the record \<open>transform\<close>; \<open>T * p\<close> is \<open>applyIsometry\<close>,
  and \<open>rotation.translation().setZero()\<close> is \<open>linearPart\<close>.
  \<open>skel->getDof(dofIndex)\<close> is a checked read of the skeleton's DOF list: the
  null DOF it returns out of range is dereferenced, so that case is \<open>None\<close>.
\<close>

type_synonym expMapFn = "vec6 \<Rightarrow> transform"
type_synonym contactPointFn = "vec3 \<Rightarrow> vec3 \<Rightarrow> vec3 \<Rightarrow> vec3 \<Rightarrow> vec3"

section \<open>Isometries\<close>

definition applyIsometry :: "transform \<Rightarrow> vec3 \<Rightarrow> vec3" where
  "applyIsometry T p = rotate T p + translation T"

definition linearPart :: "transform \<Rightarrow> transform" where
  "linearPart T = T\<lparr>translation := 0\<rparr>"

definition identityTransform :: transform where
  "identityTransform =
     \<lparr>rot_row1 = V3 1 0 0, rot_row2 = V3 0 1 0, rot_row3 = V3 0 0 1, translation = 0\<rparr>"

section \<open>The estimates\<close>

definition estimatePerturbedContactPosition ::
  "expMapFn \<Rightarrow> contactPointFn \<Rightarrow> kin \<Rightarrow> DifferentiableContactConstraint \<Rightarrow> skeleton
   \<Rightarrow> int \<Rightarrow> real \<Rightarrow> vec3 option" where
  "estimatePerturbedContactPosition expMap gcp k c skel dofIndex eps =
     (let contactPos = getContactWorldPosition c; ct = mContact c in
      do { dof \<leftarrow> col (skelDofs skel) dofIndex;
           type \<leftarrow> getDofContactType k c dof;
           if type = VERTEX \<or> type = VERTEX_FACE_SELF_COLLISION \<or> type = EDGE_EDGE_SELF_COLLISION then
             Some (applyIsometry (expMap (scale6 eps (getWorldScrewAxis k dof))) contactPos)
           else if type = FACE then Some contactPos
           else if type = EDGE_A then
             (let translation = expMap (scale6 eps (getWorldScrewAxis k dof));
                  rotation = linearPart translation in
              Some (gcp (applyIsometry translation (edgeAFixedPoint ct))
                        (applyIsometry rotation (edgeADir ct))
                        (edgeBFixedPoint ct) (edgeBDir ct)))
           else if type = EDGE_B then
             (let translation = expMap (scale6 eps (getWorldScrewAxis k dof));
                  rotation = linearPart translation in
              Some (gcp (edgeAFixedPoint ct) (edgeADir ct)
                        (applyIsometry translation (edgeBFixedPoint ct))
                        (applyIsometry rotation (edgeBDir ct))))
           else Some contactPos })"

text \<open>The C++ ends the inner \<open>if\<close> chain of the edge branch without a final
  \<open>else\<close>; every type that reaches it is one of the tested ones, so the
  model's last \<open>else\<close> is the \<open>EDGE_B\<close> case.\<close>

definition estimatePerturbedContactNormal ::
  "expMapFn \<Rightarrow> kin \<Rightarrow> DifferentiableContactConstraint \<Rightarrow> skeleton \<Rightarrow> int \<Rightarrow> real \<Rightarrow> vec3 option" where
  "estimatePerturbedContactNormal expMap k c skel dofIndex eps =
     (let normal = getContactWorldNormal c; ct = mContact c in
      do { dof \<leftarrow> col (skelDofs skel) dofIndex;
           type \<leftarrow> getDofContactType k c dof;
           if type = VERTEX then Some normal
           else if type = FACE \<or> type = VERTEX_FACE_SELF_COLLISION \<or> type = EDGE_A
                   \<or> type = EDGE_B \<or> type = EDGE_EDGE_SELF_COLLISION then
             (let rotation = linearPart (expMap (scale6 eps (getWorldScrewAxis k dof))) in
              if type = FACE \<or> type = VERTEX_FACE_SELF_COLLISION \<or> type = EDGE_EDGE_SELF_COLLISION
              then Some (applyIsometry rotation normal)
              else if type = EDGE_A then Some (cross (applyIsometry rotation (edgeADir ct)) (edgeBDir ct))
              else Some (cross (edgeADir ct) (applyIsometry rotation (edgeBDir ct))))
           else Some normal })"

definition estimatePerturbedContactForceDirection ::
  "expMapFn \<Rightarrow> kin \<Rightarrow> DifferentiableContactConstraint \<Rightarrow> skeleton \<Rightarrow> int \<Rightarrow> real \<Rightarrow> vec3 option" where
  "estimatePerturbedContactForceDirection expMap k c skel dofIndex eps =
     do { forceDir \<leftarrow> getContactWorldForceDirection c;
          dof \<leftarrow> col (skelDofs skel) dofIndex;
          type \<leftarrow> getDofContactType k c dof;
          if type = VERTEX then Some forceDir
          else if type = FACE \<or> type = VERTEX_FACE_SELF_COLLISION \<or> type = EDGE_A
                  \<or> type = EDGE_B \<or> type = EDGE_EDGE_SELF_COLLISION then
            do { contactNormal \<leftarrow> estimatePerturbedContactNormal expMap k c skel dofIndex eps;
                 if mIndex c = 0 then Some contactNormal
                 else case mContactConstraint c of
                        None \<Rightarrow> None
                      | Some cc \<Rightarrow> col (tangentBasisMatrixODE cc contactNormal) (mIndex c - 1) }
          else Some forceDir }"

definition estimatePerturbedEdges ::
  "expMapFn \<Rightarrow> kin \<Rightarrow> DifferentiableContactConstraint \<Rightarrow> skeleton \<Rightarrow> int \<Rightarrow> real \<Rightarrow> EdgeData option" where
  "estimatePerturbedEdges expMap k c skel dofIndex eps =
     (let ct = mContact c in
      do { dof \<leftarrow> col (skelDofs skel) dofIndex;
           type \<leftarrow> getDofContactType k c dof;
           let translation = expMap (scale6 eps (getWorldScrewAxis k dof));
           let rotation = linearPart translation;
           Some (if type = EDGE_A then
                   \<lparr>edgeAPos = applyIsometry translation (edgeAFixedPoint ct),
                    edgeADirection = applyIsometry rotation (edgeADir ct),
                    edgeBPos = edgeBFixedPoint ct, edgeBDirection = edgeBDir ct\<rparr>
                 else if type = EDGE_B then
                   \<lparr>edgeAPos = edgeAFixedPoint ct, edgeADirection = edgeADir ct,
                    edgeBPos = applyIsometry translation (edgeBFixedPoint ct),
                    edgeBDirection = applyIsometry rotation (edgeBDir ct)\<rparr>
                 else if type = EDGE_EDGE_SELF_COLLISION then
                   \<lparr>edgeAPos = applyIsometry translation (edgeAFixedPoint ct),
                    edgeADirection = applyIsometry rotation (edgeADir ct),
                    edgeBPos = applyIsometry translation (edgeBFixedPoint ct),
                    edgeBDirection = applyIsometry rotation (edgeBDir ct)\<rparr>
                 else \<lparr>edgeAPos = 0, edgeADirection = 0, edgeBPos = 0, edgeBDirection = 0\<rparr>) })"

definition estimatePerturbedScrewAxis ::
  "expMapFn \<Rightarrow> kin \<Rightarrow> dof \<Rightarrow> dof \<Rightarrow> real \<Rightarrow> vec6 option" where
  "estimatePerturbedScrewAxis expMap k axis rotateDof eps =
     (let axisWorldTwist = getWorldScrewAxis k axis in
      do { p \<leftarrow> isParentDof k rotateDof axis;
           if \<not> p then Some axisWorldTwist
           else Some (AdT (expMap (scale6 eps (getWorldScrewAxis k rotateDof))) axisWorldTwist) })"

section \<open>Lemmas: the estimates by DOF type\<close>

lemma applyIsometry_identity [simp]: "applyIsometry identityTransform p = p"
  by (cases p) (simp add: applyIsometry_def identityTransform_def rotate_def dot_V3)

lemma linearPart_identity [simp]: "linearPart identityTransform = identityTransform"
  by (simp add: linearPart_def identityTransform_def)

lemma scale6_zero [simp]: "scale6 0 V = 0"
  by (simp add: scale6_def scale3_def)

lemma rotate_identity [simp]: "rotate identityTransform v = v"
  by (cases v) (simp add: identityTransform_def rotate_def dot_V3)

lemma translation_identity [simp]: "translation identityTransform = 0"
  by (simp add: identityTransform_def)

lemma AdT_identity [simp]: "AdT identityTransform V = V"
  by (cases V) (simp add: AdT_def)

lemma positionEstimate_by_type:
  assumes "col (skelDofs skel) i = Some d" "getDofContactType k c d = Some t"
  shows "estimatePerturbedContactPosition expMap gcp k c skel i eps =
    Some (let T = expMap (scale6 eps (getWorldScrewAxis k d)); ct = mContact c in
          if t = VERTEX \<or> t = VERTEX_FACE_SELF_COLLISION \<or> t = EDGE_EDGE_SELF_COLLISION
          then applyIsometry T (getContactWorldPosition c)
          else if t = EDGE_A then
            gcp (applyIsometry T (edgeAFixedPoint ct)) (applyIsometry (linearPart T) (edgeADir ct))
                (edgeBFixedPoint ct) (edgeBDir ct)
          else if t = EDGE_B then
            gcp (edgeAFixedPoint ct) (edgeADir ct)
                (applyIsometry T (edgeBFixedPoint ct)) (applyIsometry (linearPart T) (edgeBDir ct))
          else getContactWorldPosition c)"
  using assms by (simp add: estimatePerturbedContactPosition_def Let_def)

lemma normalEstimate_by_type:
  assumes "col (skelDofs skel) i = Some d" "getDofContactType k c d = Some t"
  shows "estimatePerturbedContactNormal expMap k c skel i eps =
    Some (let R = linearPart (expMap (scale6 eps (getWorldScrewAxis k d))); ct = mContact c in
          if t = FACE \<or> t = VERTEX_FACE_SELF_COLLISION \<or> t = EDGE_EDGE_SELF_COLLISION
          then applyIsometry R (getContactWorldNormal c)
          else if t = EDGE_A then cross (applyIsometry R (edgeADir ct)) (edgeBDir ct)
          else if t = EDGE_B then cross (edgeADir ct) (applyIsometry R (edgeBDir ct))
          else getContactWorldNormal c)"
  using assms by (auto simp: estimatePerturbedContactNormal_def Let_def)

lemma forceDirection_normal_index:
  assumes "mContactConstraint c = Some cc"
  shows "getContactWorldForceDirection c =
    (if mIndex c = 0 then Some (getContactWorldNormal c)
     else col (tangentBasisMatrixODE cc (getContactWorldNormal c)) (mIndex c - 1))"
  using assms by (simp add: getContactWorldForceDirection_def getContactWorldNormal_def isContactConstraint_def)

lemma dofContactType_contact:
  assumes "getDofContactType k c d = Some t"
  obtains cc where "mContactConstraint c = Some cc"
  using assms by (cases "mContactConstraint c") auto

lemma forceDirectionEstimate_unmoved:
  assumes "col (skelDofs skel) i = Some d" "getDofContactType k c d = Some t"
    and "estimatePerturbedContactNormal expMap k c skel i eps = Some (getContactWorldNormal c)"
  shows "estimatePerturbedContactForceDirection expMap k c skel i eps = getContactWorldForceDirection c"
proof -
  obtain cc where cc: "mContactConstraint c = Some cc"
    using assms(2) by (rule dofContactType_contact)
  note F = forceDirection_normal_index [OF cc]
  show ?thesis
  proof (cases "mIndex c = 0")
    case True
    then show ?thesis
      using assms F by (auto simp: estimatePerturbedContactForceDirection_def cc)
  next
    case False
    then show ?thesis
      using assms F
      by (cases "col (tangentBasisMatrixODE cc (getContactWorldNormal c)) (mIndex c - 1)")
        (auto simp: estimatePerturbedContactForceDirection_def cc)
  qed
qed

section \<open>Examples\<close>

text \<open>\<open>ex_arm\<close> is the arm skeleton of \<open>ex_world\<close>; \<open>ex_expMap\<close> is a first-order
  exponential map (a pure translation by the twist's linear part), the
  identity at zero; \<open>ex_gcp\<close> returns the first edge's point.\<close>

definition ex_arm :: skeleton where
  "ex_arm = \<lparr>skelName = ''arm'', skelDofs = [ex_dof 0, ex_dof 1, ex_dof 2]\<rparr>"

definition ex_expMap :: expMapFn where
  "ex_expMap V = identityTransform\<lparr>translation := tail6 V\<rparr>"

definition ex_gcp :: contactPointFn where
  "ex_gcp pA dA pB dB = pA"

lemma ex_arm_dof: "col (skelDofs ex_arm) 1 = Some (ex_dof 1)"
  by (simp add: ex_arm_def col_def)

lemma ex_dofContactType:
  assumes "a \<le> 3" "b \<le> 3"
  shows "getDofContactType ex_kin (ex_dcc a b t i) (ex_dof j)
    = Some (classifyDofContact (j = a \<or> (j < a \<and> a \<le> 2)) (j = b \<or> (j < b \<and> b \<le> 2)) t)"
  using getDofContactType_eq [OF wf_ex_kin ex_dcc_contact ex_bodiesInKin [OF assms]]
  by (simp add: ex_cc_def)

section \<open>Properties of the estimates\<close>

text \<open>
  Where the estimates start.  With an exponential map that is the
  identity at zero, at \<open>eps = 0\<close> the position, normal and force direction
  estimates return the contact's current values for every DOF type except
  the two edge types.  For a DOF that moves one edge of an edge-edge
  contact, the normal estimate at \<open>eps = 0\<close> is instead the unnormalised cross
  product of the edge directions and the position estimate is the closest
  point of the two edge lines, not the contact's normal and point: the
  estimate's base point agrees with the contact only when the collision
  code's normal is exactly \<open>edgeADir \<times> edgeBDir\<close>.
\<close>

theorem estimates_at_zero:
  assumes "expMap 0 = identityTransform" "col (skelDofs skel) i = Some d"
    and "getDofContactType k c d = Some t"
  shows "(t \<noteq> EDGE_A \<and> t \<noteq> EDGE_B \<longrightarrow>
        estimatePerturbedContactPosition expMap gcp k c skel i 0 = Some (getContactWorldPosition c)
      \<and> estimatePerturbedContactNormal expMap k c skel i 0 = Some (getContactWorldNormal c)
      \<and> estimatePerturbedContactForceDirection expMap k c skel i 0 = getContactWorldForceDirection c)
    \<and> (t = EDGE_A \<or> t = EDGE_B \<longrightarrow>
        estimatePerturbedContactNormal expMap k c skel i 0
          = Some (cross (edgeADir (mContact c)) (edgeBDir (mContact c)))
      \<and> estimatePerturbedContactPosition expMap gcp k c skel i 0
          = Some (gcp (edgeAFixedPoint (mContact c)) (edgeADir (mContact c))
                      (edgeBFixedPoint (mContact c)) (edgeBDir (mContact c))))"
proof (intro conjI impI)
  assume t: "t \<noteq> EDGE_A \<and> t \<noteq> EDGE_B"
  have n: "estimatePerturbedContactNormal expMap k c skel i 0 = Some (getContactWorldNormal c)"
    using normalEstimate_by_type [OF assms(2,3)] assms(1) t by (simp add: Let_def)
  then show "estimatePerturbedContactNormal expMap k c skel i 0 = Some (getContactWorldNormal c)" .
  show "estimatePerturbedContactPosition expMap gcp k c skel i 0 = Some (getContactWorldPosition c)"
    using positionEstimate_by_type [OF assms(2,3)] assms(1) t by (simp add: Let_def)
  show "estimatePerturbedContactForceDirection expMap k c skel i 0 = getContactWorldForceDirection c"
    by (rule forceDirectionEstimate_unmoved [OF assms(2,3) n])
next
  assume t: "t = EDGE_A \<or> t = EDGE_B"
  show "estimatePerturbedContactNormal expMap k c skel i 0
          = Some (cross (edgeADir (mContact c)) (edgeBDir (mContact c)))"
    "estimatePerturbedContactPosition expMap gcp k c skel i 0
          = Some (gcp (edgeAFixedPoint (mContact c)) (edgeADir (mContact c))
                      (edgeBFixedPoint (mContact c)) (edgeBDir (mContact c)))"
    using normalEstimate_by_type [OF assms(2,3)] positionEstimate_by_type [OF assms(2,3)] assms(1) t
    by (auto simp: Let_def)
qed

end
