(* ===== verification/ReferentialSkeleton.thy ===== *)
theory ReferentialSkeleton
  imports Kinematics
begin

text \<open>
  \<open>ReferentialSkeleton\<close> (the implementation text carried by
  \<open>src/dart/experimental/SkeletonViRiqnSvi.hpp\<close>, lines 265-1286): a view on
  some of the body nodes and DOFs of a skeleton, kept as a vector of body
  nodes, a vector of DOF pointers and a hash map from a body node to its
  \<open>IndexMap\<close> (its position in the body vector and the positions of its DOFs in
  the DOF vector).  The state is a record; every mutator is a function on it.

  A \<open>DegreeOfFreedomPtr\<close> is the pair (child body node, index in joint) it
  stores.  \<open>INVALID_INDEX\<close> is \<open>None\<close> in the index map and in the results of
  \<open>getIndexOf\<close>.  The kinematic oracle is extended by the number of DOFs of a
  joint.  The mutators return \<open>rsError + state\<close>: \<open>Inl\<close> of a logged error
  (the code prints a message and returns, leaving the state as it was) or of
  \<open>UndefinedBehaviour\<close> (an erase or an element write past the end of a
  vector); a null parent joint dereferenced by \<open>registerBodyNode\<close> is
  \<open>None\<close>.
\<close>

section \<open>State\<close>

record rkin = kin +
  jointNumDofs :: "nat \<Rightarrow> nat"

type_synonym DegreeOfFreedomPtr = "nat \<times> nat"

record IndexMap =
  mBodyNodeIndex :: nat
  mDofIndices :: "nat option list"

record ReferentialSkeleton =
  mName :: string
  mBodyNodes :: "nat list"
  mDofs :: "DegreeOfFreedomPtr list"
  mIndexMap :: "nat \<rightharpoonup> IndexMap"

datatype rsError = NullBodyNode | NotReferred | DofNotReferred | UndefinedBehaviour

text \<open>An empty view, as the subclasses' constructors leave it.\<close>

definition emptyReferentialSkeleton :: "string \<Rightarrow> ReferentialSkeleton" where
  "emptyReferentialSkeleton n =
     \<lparr>mName = n, mBodyNodes = [], mDofs = [], mIndexMap = Map.empty\<rparr>"

text \<open>\<open>mIndexMap[b]\<close>: \<open>operator[]\<close> inserts a default \<open>IndexMap\<close> (no DOF
  entries) when \<open>b\<close> is missing.\<close>

definition defaultIndexMap :: IndexMap where
  "defaultIndexMap = \<lparr>mBodyNodeIndex = 0, mDofIndices = []\<rparr>"

definition indexMapAt :: "(nat \<rightharpoonup> IndexMap) \<Rightarrow> nat \<Rightarrow> IndexMap" where
  "indexMapAt m b = (case m b of None \<Rightarrow> defaultIndexMap | Some im \<Rightarrow> im)"

text \<open>\<open>std::vector::resize(n, v)\<close>, used here only to grow.\<close>

definition resize :: "'a list \<Rightarrow> nat \<Rightarrow> 'a \<Rightarrow> 'a list" where
  "resize xs n v = take n xs @ replicate (n - length xs) v"

text \<open>\<open>v.erase(v.begin() + i)\<close>, undefined past the end.\<close>

definition eraseAt :: "'a list \<Rightarrow> nat \<Rightarrow> rsError + 'a list" where
  "eraseAt xs i = (if i < length xs then Inr (take i xs @ drop (Suc i) xs) else Inl UndefinedBehaviour)"

section \<open>Queries\<close>

definition getVectorObjectIfAvailable :: "nat \<Rightarrow> 'a list \<Rightarrow> 'a option" where
  "getVectorObjectIfAvailable idx v = (if idx < length v then Some (v ! idx) else None)"

definition setName :: "string \<Rightarrow> ReferentialSkeleton \<Rightarrow> ReferentialSkeleton" where
  "setName n s = s\<lparr>mName := n\<rparr>"

definition getName :: "ReferentialSkeleton \<Rightarrow> string" where
  "getName s = mName s"

definition getNumBodyNodes :: "ReferentialSkeleton \<Rightarrow> nat" where
  "getNumBodyNodes s = length (mBodyNodes s)"

definition getBodyNode :: "ReferentialSkeleton \<Rightarrow> nat \<Rightarrow> nat option" where
  "getBodyNode s idx = getVectorObjectIfAvailable idx (mBodyNodes s)"

definition getIndexOfBodyNode :: "ReferentialSkeleton \<Rightarrow> nat option \<Rightarrow> nat option" where
  "getIndexOfBodyNode s bn =
     (case bn of
        None \<Rightarrow> None
      | Some b \<Rightarrow> map_option mBodyNodeIndex (mIndexMap s b))"

definition getNumJoints :: "ReferentialSkeleton \<Rightarrow> nat" where
  "getNumJoints s = length (mBodyNodes s)"

definition getJoint :: "rkin \<Rightarrow> ReferentialSkeleton \<Rightarrow> nat \<Rightarrow> nat option" where
  "getJoint k s idx = do { bn \<leftarrow> getVectorObjectIfAvailable idx (mBodyNodes s); bodyParentJoint k bn }"

definition getIndexOfJoint :: "rkin \<Rightarrow> ReferentialSkeleton \<Rightarrow> nat option \<Rightarrow> nat option" where
  "getIndexOfJoint k s j =
     (case j of
        None \<Rightarrow> None
      | Some jt \<Rightarrow> map_option mBodyNodeIndex (mIndexMap s (jointChildBodyNode k jt)))"

definition getNumDofs :: "ReferentialSkeleton \<Rightarrow> nat" where
  "getNumDofs s = length (mDofs s)"

definition getDof :: "ReferentialSkeleton \<Rightarrow> nat \<Rightarrow> DegreeOfFreedomPtr option" where
  "getDof s idx = getVectorObjectIfAvailable idx (mDofs s)"

definition getIndexOfDof :: "rkin \<Rightarrow> ReferentialSkeleton \<Rightarrow> dof option \<Rightarrow> nat option" where
  "getIndexOfDof k s d =
     (case d of
        None \<Rightarrow> None
      | Some dd \<Rightarrow>
          (case mIndexMap s (jointChildBodyNode k (dofJoint dd)) of
             None \<Rightarrow> None
           | Some im \<Rightarrow>
               (let localIndex = dofIndexInJoint dd in
                if length (mDofIndices im) \<le> localIndex
                   \<or> mDofIndices im ! localIndex = None then None
                else mDofIndices im ! localIndex)))"

section \<open>Registration\<close>

text \<open>\<open>registerDegreeOfFreedom\<close>.  On a body node not yet in the map the code
  builds a local \<open>IndexMap\<close> (body index \<open>size - 1\<close>, the DOF's entry) that it
  never stores, and pushes the body node twice; both are translated as
  written: the map is left unchanged.\<close>

definition registerDegreeOfFreedom ::
  "rkin \<Rightarrow> dof \<Rightarrow> ReferentialSkeleton \<Rightarrow> ReferentialSkeleton" where
  "registerDegreeOfFreedom k d s =
     (let bn = jointChildBodyNode k (dofJoint d);
          localIndex = dofIndexInJoint d in
      case mIndexMap s bn of
        None \<Rightarrow>
          s\<lparr>mBodyNodes := mBodyNodes s @ [bn] @ [bn], mDofs := mDofs s @ [(bn, localIndex)]\<rparr>
      | Some indexing \<Rightarrow>
          (let dofIndices =
                 (if length (mDofIndices indexing) < localIndex + 1
                  then resize (mDofIndices indexing) (localIndex + 1) None
                  else mDofIndices indexing);
               dofs = mDofs s @ [(bn, localIndex)] in
           s\<lparr>mDofs := dofs,
             mIndexMap := (mIndexMap s)(bn \<mapsto>
                indexing\<lparr>mDofIndices := dofIndices[localIndex := Some (length dofs - 1)]\<rparr>)\<rparr>))"

text \<open>\<open>registerBodyNode\<close>: every DOF of the body's parent joint, in order.\<close>

definition registerBodyNode :: "rkin \<Rightarrow> nat \<Rightarrow> ReferentialSkeleton \<Rightarrow> ReferentialSkeleton option" where
  "registerBodyNode k bn s =
     (case bodyParentJoint k bn of
        None \<Rightarrow> None
      | Some j \<Rightarrow>
          Some (fold (\<lambda>i. registerDegreeOfFreedom k \<lparr>dofJoint = j, dofIndexInJoint = i\<rparr>)
                     [0..<jointNumDofs k j] s))"

section \<open>Unregistration\<close>

text \<open>The loop at the end of \<open>unregisterDegreeOfFreedom\<close>: every DOF after
  the erased one is written its new position,
  \<open>mIndexMap[dof.getBodyNodePtr()].mDofIndices[dof.getLocalIndex()] = i\<close>.\<close>

fun renumberDofs ::
  "(nat \<rightharpoonup> IndexMap) \<Rightarrow> DegreeOfFreedomPtr list \<Rightarrow> nat \<Rightarrow> rsError + (nat \<rightharpoonup> IndexMap)" where
  "renumberDofs m [] i = Inr m"
| "renumberDofs m ((b, l) # ps) i =
     (let indexing = indexMapAt m b in
      if l < length (mDofIndices indexing)
      then renumberDofs (m(b \<mapsto> indexing\<lparr>mDofIndices := (mDofIndices indexing)[l := Some i]\<rparr>)) ps (Suc i)
      else Inl UndefinedBehaviour)"

text \<open>\<open>unregisterDegreeOfFreedom(bn, localIndex, false)\<close>, from the guard on:
  erase the DOF, clear its entry, renumber the DOFs after it.\<close>

definition unregisterDofEntry ::
  "ReferentialSkeleton \<Rightarrow> nat \<Rightarrow> nat \<Rightarrow> rsError + ReferentialSkeleton" where
  "unregisterDofEntry s bn localIndex =
     (case mIndexMap s bn of
        None \<Rightarrow> Inl DofNotReferred
      | Some indexing \<Rightarrow>
          if length (mDofIndices indexing) \<le> localIndex then Inl DofNotReferred
          else case mDofIndices indexing ! localIndex of
            None \<Rightarrow> Inl DofNotReferred
          | Some dofIndex \<Rightarrow>
              (case eraseAt (mDofs s) dofIndex of
                 Inl e \<Rightarrow> Inl e
               | Inr dofs \<Rightarrow>
                   (let m = (mIndexMap s)(bn \<mapsto>
                              indexing\<lparr>mDofIndices := (mDofIndices indexing)[localIndex := None]\<rparr>) in
                    case renumberDofs m (drop dofIndex dofs) dofIndex of
                      Inl e \<Rightarrow> Inl e
                    | Inr m' \<Rightarrow> Inr (s\<lparr>mDofs := dofs, mIndexMap := m'\<rparr>))))"

text \<open>The first loop of \<open>unregisterBodyNode\<close>: each valid DOF entry of the
  body, read from the live map, is unregistered.\<close>

fun unregisterDofsOf ::
  "ReferentialSkeleton \<Rightarrow> nat \<Rightarrow> nat list \<Rightarrow> rsError + ReferentialSkeleton" where
  "unregisterDofsOf s bn [] = Inr s"
| "unregisterDofsOf s bn (i # is) =
     (if mDofIndices (indexMapAt (mIndexMap s) bn) ! i \<noteq> None
      then (case unregisterDofEntry s bn i of
              Inl e \<Rightarrow> Inl e
            | Inr s' \<Rightarrow> unregisterDofsOf s' bn is)
      else unregisterDofsOf s bn is)"

text \<open>The second loop: \<open>mIndexMap[mBodyNodes[i]].mBodyNodeIndex = i\<close>.\<close>

fun renumberBodies :: "(nat \<rightharpoonup> IndexMap) \<Rightarrow> nat list \<Rightarrow> nat \<Rightarrow> (nat \<rightharpoonup> IndexMap)" where
  "renumberBodies m [] i = m"
| "renumberBodies m (b # bs) i =
     renumberBodies (m(b \<mapsto> (indexMapAt m b)\<lparr>mBodyNodeIndex := i\<rparr>)) bs (Suc i)"

text \<open>\<open>unregisterBodyNode\<close>: the guards, the DOF loop, the erase from the
  body vector, the renumbering loop, then \<open>mIndexMap.erase(it)\<close> with the
  iterator found at the start.  When the renumbering loop meets a body node
  the map lacks, \<open>operator[]\<close> inserts an entry, which may rehash the map and
  invalidate \<open>it\<close>: that erase is \<open>UndefinedBehaviour\<close>.  Otherwise \<open>it\<close>
  still points at the entry of \<open>bn\<close> and the erase removes that key.\<close>

definition unregisterBodyNode ::
  "ReferentialSkeleton \<Rightarrow> nat option \<Rightarrow> rsError + ReferentialSkeleton" where
  "unregisterBodyNode s bn =
     (case bn of
        None \<Rightarrow> Inl NullBodyNode
      | Some b \<Rightarrow>
          (case mIndexMap s b of
             None \<Rightarrow> Inl NotReferred
           | Some indexing \<Rightarrow>
               (case unregisterDofsOf s b [0..<length (mDofIndices indexing)] of
                  Inl e \<Rightarrow> Inl e
                | Inr s1 \<Rightarrow>
                    (let bnIndex = mBodyNodeIndex (indexMapAt (mIndexMap s1) b) in
                     case eraseAt (mBodyNodes s1) bnIndex of
                       Inl e \<Rightarrow> Inl e
                     | Inr bodies \<Rightarrow>
                         if list_all (\<lambda>x. mIndexMap s1 x \<noteq> None) (drop bnIndex bodies)
                         then Inr (s1\<lparr>mBodyNodes := bodies,
                                      mIndexMap := (renumberBodies (mIndexMap s1)
                                                     (drop bnIndex bodies) bnIndex)(b := None)\<rparr>)
                         else Inl UndefinedBehaviour))))"

definition unregisterDegreeOfFreedom ::
  "ReferentialSkeleton \<Rightarrow> nat option \<Rightarrow> nat \<Rightarrow> bool \<Rightarrow> rsError + ReferentialSkeleton" where
  "unregisterDegreeOfFreedom s bn localIndex removeBnIfEmpty =
     (case bn of
        None \<Rightarrow> Inl NullBodyNode
      | Some b \<Rightarrow>
          (case unregisterDofEntry s b localIndex of
             Inl e \<Rightarrow> Inl e
           | Inr s1 \<Rightarrow>
               if removeBnIfEmpty \<and> list_all (\<lambda>x. x = None) (mDofIndices (indexMapAt (mIndexMap s1) b))
               then unregisterBodyNode s1 (Some b)
               else Inr s1))"

section \<open>The view as a state machine\<close>

datatype rsOp =
    OpRegisterDegreeOfFreedom dof
  | OpRegisterBodyNode nat
  | OpUnregisterBodyNode "nat option"
  | OpUnregisterDegreeOfFreedom "nat option" nat bool
  | OpSetName string

text \<open>The state a caller sees after a mutator: unchanged after a logged
  error, undefined (\<open>None\<close>) after undefined behaviour.\<close>

definition afterCall :: "ReferentialSkeleton \<Rightarrow> rsError + ReferentialSkeleton \<Rightarrow> ReferentialSkeleton option" where
  "afterCall s r =
     (case r of
        Inl e \<Rightarrow> if e = UndefinedBehaviour then None else Some s
      | Inr s' \<Rightarrow> Some s')"

fun rsStep :: "rkin \<Rightarrow> rsOp \<Rightarrow> ReferentialSkeleton \<Rightarrow> ReferentialSkeleton option" where
  "rsStep k (OpRegisterDegreeOfFreedom d) s = Some (registerDegreeOfFreedom k d s)"
| "rsStep k (OpRegisterBodyNode b) s = registerBodyNode k b s"
| "rsStep k (OpUnregisterBodyNode b) s = afterCall s (unregisterBodyNode s b)"
| "rsStep k (OpUnregisterDegreeOfFreedom b l r) s = afterCall s (unregisterDegreeOfFreedom s b l r)"
| "rsStep k (OpSetName n) s = Some (setName n s)"

inductive rsReachable :: "rkin \<Rightarrow> ReferentialSkeleton \<Rightarrow> bool" for k where
  rs_init: "rsReachable k (emptyReferentialSkeleton n)"
| rs_step: "rsReachable k s \<Longrightarrow> rsStep k op s = Some s' \<Longrightarrow> rsReachable k s'"

section \<open>Reference predicates\<close>

text \<open>The shape every reachable view has (see C13).\<close>

definition rsDefectShape :: "ReferentialSkeleton \<Rightarrow> bool" where
  "rsDefectShape s \<longleftrightarrow>
     mIndexMap s = Map.empty \<and> mBodyNodes s = concat (map (\<lambda>p. [fst p, fst p]) (mDofs s))"

section \<open>Lemmas: registration never fills the index map\<close>

lemma registerDegreeOfFreedom_unreferred:
  assumes "mIndexMap s (jointChildBodyNode k (dofJoint d)) = None"
  shows "registerDegreeOfFreedom k d s =
    s\<lparr>mBodyNodes := mBodyNodes s @ [jointChildBodyNode k (dofJoint d), jointChildBodyNode k (dofJoint d)],
      mDofs := mDofs s @ [(jointChildBodyNode k (dofJoint d), dofIndexInJoint d)]\<rparr>"
  using assms by (simp add: registerDegreeOfFreedom_def Let_def)

lemma registerDegreeOfFreedom_shape:
  "rsDefectShape s \<Longrightarrow> rsDefectShape (registerDegreeOfFreedom k d s)"
  by (simp add: rsDefectShape_def registerDegreeOfFreedom_unreferred)

lemma fold_register_shape:
  "rsDefectShape s \<Longrightarrow> rsDefectShape (fold (\<lambda>i. registerDegreeOfFreedom k (f i)) xs s)"
  by (induction xs arbitrary: s) (simp_all add: registerDegreeOfFreedom_shape)

lemma unregisterDofEntry_unreferred:
  "mIndexMap s b = None \<Longrightarrow> unregisterDofEntry s b l = Inl DofNotReferred"
  by (simp add: unregisterDofEntry_def)

lemma unregisterBodyNode_unreferred:
  "(\<And>b'. bn = Some b' \<Longrightarrow> mIndexMap s b' = None) \<Longrightarrow>
   unregisterBodyNode s bn = Inl (if bn = None then NullBodyNode else NotReferred)"
  by (cases bn) (simp_all add: unregisterBodyNode_def)

lemma unregisterDegreeOfFreedom_unreferred:
  "(\<And>b'. bn = Some b' \<Longrightarrow> mIndexMap s b' = None) \<Longrightarrow>
   unregisterDegreeOfFreedom s bn l r = Inl (if bn = None then NullBodyNode else DofNotReferred)"
  by (cases bn) (simp_all add: unregisterDegreeOfFreedom_def unregisterDofEntry_unreferred)

lemma rsStep_shape:
  assumes "rsDefectShape s" "rsStep k op s = Some s'"
  shows "rsDefectShape s'"
proof -
  have m: "mIndexMap s b = None" for b
    using assms(1) by (simp add: rsDefectShape_def)
  show ?thesis
  proof (cases op)
    case (OpRegisterDegreeOfFreedom d)
    then show ?thesis using assms by (auto intro: registerDegreeOfFreedom_shape)
  next
    case (OpRegisterBodyNode b)
    then show ?thesis
      using assms by (auto simp: registerBodyNode_def fold_register_shape split: option.splits)
  next
    case (OpUnregisterBodyNode b)
    then show ?thesis
      using assms unregisterBodyNode_unreferred [of b s, OF m] by (cases b) (simp_all add: afterCall_def)
  next
    case (OpUnregisterDegreeOfFreedom b l r)
    then show ?thesis
      using assms unregisterDegreeOfFreedom_unreferred [of b s, OF m] by (cases b) (simp_all add: afterCall_def)
  next
    case (OpSetName n)
    then show ?thesis using assms by (auto simp: rsDefectShape_def setName_def)
  qed
qed

lemma rsReachable_shape: "rsReachable k s \<Longrightarrow> rsDefectShape s"
proof (induction rule: rsReachable.induct)
  case (rs_init n)
  then show ?case by (simp add: rsDefectShape_def emptyReferentialSkeleton_def)
next
  case (rs_step s op s')
  then show ?case by (blast intro: rsStep_shape)
qed

section \<open>Example views\<close>

text \<open>\<open>ex_rkin\<close> is the example arm with one DOF per joint; \<open>ex_view\<close> is
  the view after registering the DOF of joint 1; \<open>ex_view2\<close> is a view of
  bodies 1 and 2 with its index map filled in, as the code would build it if
  \<open>registerDegreeOfFreedom\<close> stored its \<open>IndexMap\<close>.\<close>

definition ex_rkin :: rkin where
  "ex_rkin = kin.extend ex_kin (rkin.fields (\<lambda>j. 1))"

definition ex_view :: ReferentialSkeleton where
  "ex_view = registerDegreeOfFreedom ex_rkin (ex_dof 1) (emptyReferentialSkeleton ''arm'')"

definition ex_view2 :: ReferentialSkeleton where
  "ex_view2 =
     \<lparr>mName = ''arm'', mBodyNodes = [1, 2], mDofs = [(1, 0), (2, 0)],
      mIndexMap = [1 \<mapsto> \<lparr>mBodyNodeIndex = 0, mDofIndices = [Some 0]\<rparr>,
                   2 \<mapsto> \<lparr>mBodyNodeIndex = 1, mDofIndices = [Some 1]\<rparr>]\<rparr>"

lemma ex_rkin_child [simp]: "jointChildBodyNode ex_rkin j = j"
  by (simp add: ex_rkin_def kin.defs rkin.defs ex_kin_def)

lemma ex_view_eq: "ex_view = \<lparr>mName = ''arm'', mBodyNodes = [1, 1], mDofs = [(1, 0)], mIndexMap = Map.empty\<rparr>"
  by (simp add: ex_view_def registerDegreeOfFreedom_def emptyReferentialSkeleton_def ex_dof_def)

lemma ex_view_reachable: "rsReachable ex_rkin ex_view"
  using rs_step [OF rs_init, of ex_rkin "OpRegisterDegreeOfFreedom (ex_dof 1)" "''arm''"]
  by (simp add: ex_view_def)

section \<open>Properties of the view\<close>

text \<open>
  C13.  In every state the view reaches from the empty view through any
  sequence of registrations, unregistrations and renamings, the index map is
  empty and the body-node vector holds every registered DOF's body node twice
  in a row: \<open>registerDegreeOfFreedom\<close> never stores the \<open>IndexMap\<close> it builds
  and pushes the body node twice.  Consequently \<open>getIndexOf\<close> returns
  \<open>INVALID_INDEX\<close> for every DOF, joint and body node, although \<open>getDof\<close>
  returns the registered DOFs, and both unregistration functions take their
  logged-error exit without changing anything.
\<close>

theorem registration_defect:
  assumes "rsReachable k s"
  shows "mIndexMap s = Map.empty \<and> mBodyNodes s = concat (map (\<lambda>p. [fst p, fst p]) (mDofs s))
    \<and> getIndexOfDof k s d = None \<and> getIndexOfBodyNode s b = None \<and> getIndexOfJoint k s j = None
    \<and> unregisterBodyNode s b = Inl (if b = None then NullBodyNode else NotReferred)
    \<and> unregisterDegreeOfFreedom s b l r = Inl (if b = None then NullBodyNode else DofNotReferred)"
proof -
  have shape: "mIndexMap s = Map.empty \<and> mBodyNodes s = concat (map (\<lambda>p. [fst p, fst p]) (mDofs s))"
    using rsReachable_shape [OF assms] by (simp add: rsDefectShape_def)
  then have m: "mIndexMap s x = None" for x by simp
  show ?thesis
    using shape m unregisterBodyNode_unreferred [of b s] unregisterDegreeOfFreedom_unreferred [of b s]
    by (simp add: getIndexOfDof_def getIndexOfBodyNode_def getIndexOfJoint_def
        split: option.split)
qed

lemma registration_defect_witness:
  "mIndexMap ex_view = Map.empty \<and> mBodyNodes ex_view = [1, 1] \<and> mDofs ex_view = [(1, 0)]
   \<and> getDof ex_view 0 = Some (1, 0)
   \<and> getIndexOfDof ex_rkin ex_view (Some (ex_dof 1)) = None
   \<and> unregisterDegreeOfFreedom ex_view (Some 1) 0 True = Inl DofNotReferred"
  using registration_defect [OF ex_view_reachable, of "Some (ex_dof 1)" "Some 1"]
  by (simp add: getDof_def getVectorObjectIfAvailable_def ex_view_eq)

end
