(* ===== verification/ReferentialAggregates.thy ===== *)
theory ReferentialAggregates
  imports ReferentialSkeleton
begin

text \<open>
  The aggregate queries of \<open>ReferentialSkeleton\<close>
  (\<open>src/dart/experimental/SkeletonViRiqnSvi.hpp\<close>, lines 484-1143): Jacobians
  of a body node restricted to the view's DOFs, the view's blocks of the
  skeletons' mass matrices and force vectors, and the mass, energies, centre
  of mass and COM Jacobians summed over the view's body nodes, and the two
  \<open>clear*Forces\<close> loops over the cached body nodes.  What they
  read from \<open>BodyNode\<close>, \<open>DegreeOfFreedom\<close> and \<open>Skeleton\<close> is not under
  \<open>src/\<close>: it is an oracle record of getters.

  A Jacobian is its list of columns; \<open>Zero(rows, n)\<close> is \<open>n\<close> zero columns of
  the column type (\<open>vec6\<close> or \<open>vec3\<close>, so the row count is the type).  A
  matrix of the view is its list of rows.  An element write past the end
  (which Eigen only asserts against) is \<open>None\<close>, and so is every failed
  \<open>assert\<close> of the file (\<open>getCOM\<close>'s non-zero total mass,
  \<open>getKineticEnergy\<close>'s non-negative sum): the model follows a debug build,
  where a failed assertion aborts.
\<close>

section \<open>The oracle\<close>

text \<open>Per body node: its dependent DOFs (\<open>getDependentDofs\<close>), mass, energies
  and centre of mass (the frame arguments are fixed by the caller).  Per DOF
  pointer: its skeleton, tree and index in the tree.  Per skeleton and tree:
  the blocks \<open>Skeleton::getMassMatrix(tree)\<close> and \<open>getCoriolisForces(tree)\<close> and
  their kin, as functions of the indices.\<close>

record bodyNodeData =
  bnDependentDofs :: "nat \<Rightarrow> dof list"
  bnMass :: "nat \<Rightarrow> real"
  bnKineticEnergy :: "nat \<Rightarrow> real"
  bnPotentialEnergy :: "nat \<Rightarrow> real"
  bnJointPotentialEnergy :: "nat \<Rightarrow> real"
  bnCOM :: "nat \<Rightarrow> vec3"

text \<open>A \<open>ConstSkeletonPtr\<close> is the address it holds: \<open>skel_i == skel_j\<close>
  compares addresses.\<close>

type_synonym skelPtr = nat

record dofData =
  dofSkeleton :: "DegreeOfFreedomPtr \<Rightarrow> skelPtr"
  dofTreeIndex :: "DegreeOfFreedomPtr \<Rightarrow> nat"
  dofIndexInTree :: "DegreeOfFreedomPtr \<Rightarrow> nat"

type_synonym treeMatrixFn = "skelPtr \<Rightarrow> nat \<Rightarrow> nat \<Rightarrow> nat \<Rightarrow> real"
type_synonym treeVectorFn = "skelPtr \<Rightarrow> nat \<Rightarrow> nat \<Rightarrow> real"

section \<open>The object and its pointer caches\<close>

text \<open>Besides the view, a \<open>ReferentialSkeleton\<close> object keeps four vectors of
  raw pointers, \<open>mRawBodyNodes\<close>, \<open>mRawConstBodyNodes\<close>, \<open>mRawDofs\<close> and
  \<open>mRawConstDofs\<close>.  Only \<open>getBodyNodes()\<close> and \<open>getDofs()\<close> (non-const and
  const) write them, by \<open>convertVector\<close> from \<open>mBodyNodes\<close> and \<open>mDofs\<close>; the
  mutators of the view do not.  A raw pointer is an option: \<open>None\<close> is the
  \<open>nullptr\<close> that \<open>resize\<close> value-initialises.\<close>

record rsObject =
  rsView :: ReferentialSkeleton
  mRawBodyNodes :: "nat option list"
  mRawConstBodyNodes :: "nat option list"
  mRawDofs :: "DegreeOfFreedomPtr option list"
  mRawConstDofs :: "DegreeOfFreedomPtr option list"

definition newObject :: "string \<Rightarrow> rsObject" where
  "newObject n =
     \<lparr>rsView = emptyReferentialSkeleton n, mRawBodyNodes = [], mRawConstBodyNodes = [],
      mRawDofs = [], mRawConstDofs = []\<rparr>"

text \<open>\<open>convertVector\<close>: \<open>t2_vec.resize(t1_vec.size())\<close>, then copy each
  element.\<close>

fun convertLoop :: "'a list \<Rightarrow> 'a option list \<Rightarrow> nat list \<Rightarrow> 'a option list" where
  "convertLoop t1 t2 [] = t2"
| "convertLoop t1 t2 (i # is) = convertLoop t1 (t2[i := Some (t1 ! i)]) is"

definition convertVector :: "'a list \<Rightarrow> 'a option list \<Rightarrow> 'a option list" where
  "convertVector t1 t2 = convertLoop t1 (resize t2 (length t1) None) [0..<length t1]"

definition getBodyNodes :: "rsObject \<Rightarrow> nat option list \<times> rsObject" where
  "getBodyNodes ob =
     (let v = convertVector (mBodyNodes (rsView ob)) (mRawBodyNodes ob) in (v, ob\<lparr>mRawBodyNodes := v\<rparr>))"

definition getBodyNodesConst :: "rsObject \<Rightarrow> nat option list \<times> rsObject" where
  "getBodyNodesConst ob =
     (let v = convertVector (mBodyNodes (rsView ob)) (mRawConstBodyNodes ob) in (v, ob\<lparr>mRawConstBodyNodes := v\<rparr>))"

definition getDofs :: "rsObject \<Rightarrow> DegreeOfFreedomPtr option list \<times> rsObject" where
  "getDofs ob = (let v = convertVector (mDofs (rsView ob)) (mRawDofs ob) in (v, ob\<lparr>mRawDofs := v\<rparr>))"

definition getDofsConst :: "rsObject \<Rightarrow> DegreeOfFreedomPtr option list \<times> rsObject" where
  "getDofsConst ob =
     (let v = convertVector (mDofs (rsView ob)) (mRawConstDofs ob) in (v, ob\<lparr>mRawConstDofs := v\<rparr>))"

text \<open>The object's API as a step function: a mutator of the view (\<open>rsStep\<close>)
  leaves the caches as they are; a getter refreshes one.  (The COM property
  and COM Jacobian templates refresh \<open>mRawConstBodyNodes\<close> as
  \<open>getBodyNodes() const\<close> does.)\<close>

datatype objOp = ViewOp rsOp | OpGetBodyNodes | OpGetBodyNodesConst | OpGetDofs | OpGetDofsConst

fun objStep :: "rkin \<Rightarrow> objOp \<Rightarrow> rsObject \<Rightarrow> rsObject option" where
  "objStep k (ViewOp op) ob = map_option (\<lambda>s. ob\<lparr>rsView := s\<rparr>) (rsStep k op (rsView ob))"
| "objStep k OpGetBodyNodes ob = Some (snd (getBodyNodes ob))"
| "objStep k OpGetBodyNodesConst ob = Some (snd (getBodyNodesConst ob))"
| "objStep k OpGetDofs ob = Some (snd (getDofs ob))"
| "objStep k OpGetDofsConst ob = Some (snd (getDofsConst ob))"

inductive objReachable :: "rkin \<Rightarrow> rsObject \<Rightarrow> bool" for k where
  obj_init: "objReachable k (newObject n)"
| obj_step: "objReachable k ob \<Longrightarrow> objStep k op ob = Some ob' \<Longrightarrow> objReachable k ob'"

section \<open>Jacobians of a body node\<close>

text \<open>\<open>isValidBodyNode\<close>: only \<open>nullptr\<close> is rejected; a body node outside the
  view is valid (its dependent DOFs may be in the view).\<close>

definition isValidBodyNode :: "nat option \<Rightarrow> bool" where
  "isValidBodyNode bn = (bn \<noteq> None)"

text \<open>\<open>assignJacobian\<close>: for each dependent DOF \<open>i\<close> of the body node that the
  view indexes, \<open>J.col(refIndex) = JBodyNode.col(i)\<close>.\<close>

fun assignJacobianLoop ::
  "rkin \<Rightarrow> ReferentialSkeleton \<Rightarrow> 'c list \<Rightarrow> 'c list \<Rightarrow> (dof \<times> nat) list \<Rightarrow> 'c list option" where
  "assignJacobianLoop k s JB J [] = Some J"
| "assignJacobianLoop k s JB J ((d, i) # rest) =
     (case getIndexOfDof k s (Some d) of
        None \<Rightarrow> assignJacobianLoop k s JB J rest
      | Some refIndex \<Rightarrow>
          if refIndex < length J \<and> i < length JB
          then assignJacobianLoop k s JB (J[refIndex := JB ! i]) rest
          else None)"

definition assignJacobian ::
  "rkin \<Rightarrow> ReferentialSkeleton \<Rightarrow> dof list \<Rightarrow> 'c list \<Rightarrow> 'c list \<Rightarrow> 'c list option" where
  "assignJacobian k s dofs JB J = assignJacobianLoop k s JB J (zip dofs [0..<length dofs])"

text \<open>\<open>variadicGetJacobian\<close>: \<open>Zero(6, getNumDofs())\<close>, returned as it is
  for a null body node, else filled by \<open>assignJacobian\<close> from the body node's
  Jacobian \<open>jacOf\<close>.  The column type is a parameter, so that the seven
  templates written the same way below are this function at their row
  count.\<close>

definition variadicGetJacobian ::
  "rkin \<Rightarrow> ReferentialSkeleton \<Rightarrow> bodyNodeData \<Rightarrow> (nat \<Rightarrow> 'c::zero list) \<Rightarrow> nat option \<Rightarrow> 'c list option" where
  "variadicGetJacobian k s bd jacOf bn =
     (let J = replicate (getNumDofs s) 0 in
      if \<not> isValidBodyNode bn then Some J
      else assignJacobian k s (bnDependentDofs bd (the bn)) (jacOf (the bn)) J)"

text \<open>The seven other templates, at their row counts: a \<open>math::Jacobian\<close> has
  six rows (\<open>vec6\<close> columns), a \<open>LinearJacobian\<close> or \<open>AngularJacobian\<close>
  three (\<open>vec3\<close> columns); \<open>jacOf\<close> is the body node's getter of the same
  name.\<close>

definition variadicGetWorldJacobian ::
  "rkin \<Rightarrow> ReferentialSkeleton \<Rightarrow> bodyNodeData \<Rightarrow> (nat \<Rightarrow> vec6 list) \<Rightarrow> nat option \<Rightarrow> vec6 list option" where
  "variadicGetWorldJacobian k s bd jacOf bn = variadicGetJacobian k s bd jacOf bn"

definition variadicGetLinearJacobian ::
  "rkin \<Rightarrow> ReferentialSkeleton \<Rightarrow> bodyNodeData \<Rightarrow> (nat \<Rightarrow> vec3 list) \<Rightarrow> nat option \<Rightarrow> vec3 list option" where
  "variadicGetLinearJacobian k s bd jacOf bn = variadicGetJacobian k s bd jacOf bn"

definition variadicGetAngularJacobian ::
  "rkin \<Rightarrow> ReferentialSkeleton \<Rightarrow> bodyNodeData \<Rightarrow> (nat \<Rightarrow> vec3 list) \<Rightarrow> nat option \<Rightarrow> vec3 list option" where
  "variadicGetAngularJacobian k s bd jacOf bn = variadicGetJacobian k s bd jacOf bn"

definition variadicGetJacobianSpatialDeriv ::
  "rkin \<Rightarrow> ReferentialSkeleton \<Rightarrow> bodyNodeData \<Rightarrow> (nat \<Rightarrow> vec6 list) \<Rightarrow> nat option \<Rightarrow> vec6 list option" where
  "variadicGetJacobianSpatialDeriv k s bd jacOf bn = variadicGetJacobian k s bd jacOf bn"

definition variadicGetJacobianClassicDeriv ::
  "rkin \<Rightarrow> ReferentialSkeleton \<Rightarrow> bodyNodeData \<Rightarrow> (nat \<Rightarrow> vec6 list) \<Rightarrow> nat option \<Rightarrow> vec6 list option" where
  "variadicGetJacobianClassicDeriv k s bd jacOf bn = variadicGetJacobian k s bd jacOf bn"

definition variadicGetLinearJacobianDeriv ::
  "rkin \<Rightarrow> ReferentialSkeleton \<Rightarrow> bodyNodeData \<Rightarrow> (nat \<Rightarrow> vec3 list) \<Rightarrow> nat option \<Rightarrow> vec3 list option" where
  "variadicGetLinearJacobianDeriv k s bd jacOf bn = variadicGetJacobian k s bd jacOf bn"

definition variadicGetAngularJacobianDeriv ::
  "rkin \<Rightarrow> ReferentialSkeleton \<Rightarrow> bodyNodeData \<Rightarrow> (nat \<Rightarrow> vec3 list) \<Rightarrow> nat option \<Rightarrow> vec3 list option" where
  "variadicGetAngularJacobianDeriv k s bd jacOf bn = variadicGetJacobian k s bd jacOf bn"

section \<open>Blocks of the skeletons' matrices and vectors\<close>

definition matUpd :: "real list list \<Rightarrow> nat \<Rightarrow> nat \<Rightarrow> real \<Rightarrow> real list list" where
  "matUpd M i j v = M[i := (M ! i)[j := v]]"

text \<open>\<open>setMatrixFromSkeletonData\<close>: the diagonal entry of each DOF, then, for
  each later DOF of the same skeleton and tree, both off-diagonal entries
  from the upper triangle of the tree's matrix; entries across trees stay
  zero.\<close>

fun setMatrixInner ::
  "dofData \<Rightarrow> treeMatrixFn \<Rightarrow> DegreeOfFreedomPtr list \<Rightarrow> nat \<Rightarrow> nat list \<Rightarrow> real list list \<Rightarrow> real list list" where
  "setMatrixInner dd getMatrix dofs i [] M = M"
| "setMatrixInner dd getMatrix dofs i (j # js) M =
     (let dof_i = dofs ! i; dof_j = dofs ! j in
      setMatrixInner dd getMatrix dofs i js
        (if dofSkeleton dd dof_i = dofSkeleton dd dof_j \<and> dofTreeIndex dd dof_i = dofTreeIndex dd dof_j
         then (let v = getMatrix (dofSkeleton dd dof_i) (dofTreeIndex dd dof_i)
                         (dofIndexInTree dd dof_i) (dofIndexInTree dd dof_j) in
               matUpd (matUpd M i j v) j i v)
         else M))"

fun setMatrixOuter ::
  "dofData \<Rightarrow> treeMatrixFn \<Rightarrow> DegreeOfFreedomPtr list \<Rightarrow> nat list \<Rightarrow> real list list \<Rightarrow> real list list" where
  "setMatrixOuter dd getMatrix dofs [] M = M"
| "setMatrixOuter dd getMatrix dofs (i # is) M =
     (let dof_i = dofs ! i; index_i = dofIndexInTree dd dof_i in
      setMatrixOuter dd getMatrix dofs is
        (setMatrixInner dd getMatrix dofs i [Suc i..<length dofs]
           (matUpd M i i (getMatrix (dofSkeleton dd dof_i) (dofTreeIndex dd dof_i) index_i index_i))))"

definition setMatrixFromSkeletonData ::
  "dofData \<Rightarrow> treeMatrixFn \<Rightarrow> DegreeOfFreedomPtr list \<Rightarrow> real list list" where
  "setMatrixFromSkeletonData dd getMatrix dofs =
     (let nDofs = length dofs in
      setMatrixOuter dd getMatrix dofs [0..<nDofs] (replicate nDofs (replicate nDofs 0)))"

text \<open>\<open>getMassMatrix\<close>, \<open>getAugMassMatrix\<close>, \<open>getInvMassMatrix\<close> and
  \<open>getInvAugMassMatrix\<close> are this function on \<open>mRawConstDofs\<close> with the
  corresponding skeleton getter; the loop dereferences every entry, so a
  null entry fails (\<open>None\<close>).\<close>

definition getMassMatrix :: "dofData \<Rightarrow> treeMatrixFn \<Rightarrow> rsObject \<Rightarrow> real list list option" where
  "getMassMatrix dd skelMassMatrix ob =
     map_option (setMatrixFromSkeletonData dd skelMassMatrix) (those (mRawConstDofs ob))"

text \<open>\<open>setVectorFromSkeletonData\<close>: entry \<open>i\<close> is the tree vector's entry of DOF
  \<open>i\<close>; \<open>getCoriolisForces\<close>, \<open>getGravityForces\<close>,
  \<open>getCoriolisAndGravityForces\<close>, \<open>getExternalForces\<close> and
  \<open>getConstraintForces\<close> are this function on \<open>mRawConstDofs\<close> with the
  skeleton's getter.\<close>

fun setVectorLoop ::
  "dofData \<Rightarrow> treeVectorFn \<Rightarrow> DegreeOfFreedomPtr list \<Rightarrow> nat list \<Rightarrow> real list \<Rightarrow> real list" where
  "setVectorLoop dd getVector dofs [] V = V"
| "setVectorLoop dd getVector dofs (i # is) V =
     (let dof_i = dofs ! i in
      setVectorLoop dd getVector dofs is
        (V[i := getVector (dofSkeleton dd dof_i) (dofTreeIndex dd dof_i) (dofIndexInTree dd dof_i)]))"

definition setVectorFromSkeletonData ::
  "dofData \<Rightarrow> treeVectorFn \<Rightarrow> DegreeOfFreedomPtr list \<Rightarrow> real list" where
  "setVectorFromSkeletonData dd getVector dofs =
     setVectorLoop dd getVector dofs [0..<length dofs] (replicate (length dofs) 0)"

definition getCoriolisForces :: "dofData \<Rightarrow> treeVectorFn \<Rightarrow> rsObject \<Rightarrow> real list option" where
  "getCoriolisForces dd skelCoriolisForces ob =
     map_option (setVectorFromSkeletonData dd skelCoriolisForces) (those (mRawConstDofs ob))"

section \<open>Sums over the view's body nodes\<close>

text \<open>A range-for over a vector of raw body-node pointers that adds a
  quantity of each; a null entry is dereferenced (\<open>None\<close>).\<close>

fun sumBodies :: "(real \<Rightarrow> nat \<Rightarrow> real) \<Rightarrow> real \<Rightarrow> nat option list \<Rightarrow> real option" where
  "sumBodies add acc [] = Some acc"
| "sumBodies add acc (bn # bns) = (case bn of None \<Rightarrow> None | Some b \<Rightarrow> sumBodies add (add acc b) bns)"

text \<open>\<open>getMass\<close>, \<open>getKineticEnergy\<close>, \<open>getPotentialEnergy\<close>: loops over the
  cache \<open>mRawBodyNodes\<close>.\<close>

definition getMass :: "bodyNodeData \<Rightarrow> rsObject \<Rightarrow> real option" where
  "getMass bd ob = sumBodies (\<lambda>mass bn. mass + bnMass bd bn) 0 (mRawBodyNodes ob)"

text \<open>\<open>getKineticEnergy\<close> asserts that the sum is not negative; as every
  \<open>assert\<close> of the file, a failed one is \<open>None\<close> (the abort of a debug
  build).\<close>

definition getKineticEnergy :: "bodyNodeData \<Rightarrow> rsObject \<Rightarrow> real option" where
  "getKineticEnergy bd ob =
     do { KE \<leftarrow> sumBodies (\<lambda>KE bn. KE + bnKineticEnergy bd bn) 0 (mRawBodyNodes ob);
          if 0 \<le> KE then Some KE else None }"

definition getPotentialEnergy :: "bodyNodeData \<Rightarrow> rsObject \<Rightarrow> real option" where
  "getPotentialEnergy bd ob =
     sumBodies (\<lambda>PE bn. PE + bnPotentialEnergy bd bn + bnJointPotentialEnergy bd bn) 0 (mRawBodyNodes ob)"

text \<open>\<open>getCOM\<close>: the mass-weighted mean of the centres of mass of the body
  nodes in the cache \<open>mRawConstBodyNodes\<close>; a zero total mass fails the
  code's assertion (\<open>None\<close>).\<close>

fun comLoop :: "bodyNodeData \<Rightarrow> vec3 \<times> real \<Rightarrow> nat option list \<Rightarrow> (vec3 \<times> real) option" where
  "comLoop bd acc [] = Some acc"
| "comLoop bd (com, totalMass) (bn # bns) =
     (case bn of
        None \<Rightarrow> None
      | Some b \<Rightarrow> comLoop bd (com + scale3 (bnMass bd b) (bnCOM bd b), totalMass + bnMass bd b) bns)"

definition getCOM :: "bodyNodeData \<Rightarrow> rsObject \<Rightarrow> vec3 option" where
  "getCOM bd ob =
     do { (com, totalMass) \<leftarrow> comLoop bd (0, 0) (mRawConstBodyNodes ob);
          if totalMass = 0 then None else Some (scale3 (1 / totalMass) com) }"

text \<open>\<open>getCOMPropertyTemplate\<close> (\<open>getCOMSpatialVelocity\<close>,
  \<open>getCOMLinearVelocity\<close>, \<open>getCOMSpatialAcceleration\<close>,
  \<open>getCOMLinearAcceleration\<close>): it calls \<open>getBodyNodes() const\<close>, then
  takes the mass-weighted mean of a body-node property \<open>prop\<close> (the frames
  are fixed by the caller); \<open>scale\<close> is the scalar product of the property's
  type.  The result comes with the object after the refresh.\<close>

fun comPropertyLoop ::
  "bodyNodeData \<Rightarrow> (real \<Rightarrow> 'v \<Rightarrow> 'v) \<Rightarrow> (nat \<Rightarrow> 'v) \<Rightarrow> 'v::plus \<times> real \<Rightarrow> nat option list
   \<Rightarrow> ('v \<times> real) option" where
  "comPropertyLoop bd scale prop acc [] = Some acc"
| "comPropertyLoop bd scale prop (result, totalMass) (bn # bns) =
     (case bn of
        None \<Rightarrow> None
      | Some b \<Rightarrow> comPropertyLoop bd scale prop (result + scale (bnMass bd b) (prop b), totalMass + bnMass bd b) bns)"

definition getCOMPropertyTemplate ::
  "bodyNodeData \<Rightarrow> (real \<Rightarrow> 'v \<Rightarrow> 'v) \<Rightarrow> (nat \<Rightarrow> 'v::{zero, plus}) \<Rightarrow> rsObject \<Rightarrow> 'v option \<times> rsObject" where
  "getCOMPropertyTemplate bd scale prop ob =
     (case getBodyNodesConst ob of
        (bodyNodes, ob') \<Rightarrow>
          (do { (result, totalMass) \<leftarrow> comPropertyLoop bd scale prop (0, 0) bodyNodes;
                if totalMass = 0 then None else Some (scale (1 / totalMass) result) }, ob'))"

text \<open>\<open>getCOMJacobianTemplate\<close>: it calls \<open>getBodyNodes() const\<close>, which
  refreshes \<open>mRawConstBodyNodes\<close>; then each body node's Jacobian at its local
  COM, scaled by its mass, is added column by column at the view's index of
  each dependent DOF, and the sum is divided by the total mass.  \<open>scale\<close> is
  the scalar product of the column type.  The result comes with the object
  after the refresh.\<close>

fun addJacobianLoop ::
  "rkin \<Rightarrow> ReferentialSkeleton \<Rightarrow> 'c list \<Rightarrow> 'c::plus list \<Rightarrow> (dof \<times> nat) list \<Rightarrow> 'c list option" where
  "addJacobianLoop k s bnJ J [] = Some J"
| "addJacobianLoop k s bnJ J ((d, i) # rest) =
     (case getIndexOfDof k s (Some d) of
        None \<Rightarrow> addJacobianLoop k s bnJ J rest
      | Some index \<Rightarrow>
          if index < length J \<and> i < length bnJ
          then addJacobianLoop k s bnJ (J[index := J ! index + bnJ ! i]) rest
          else None)"

fun comJacobianLoop ::
  "rkin \<Rightarrow> ReferentialSkeleton \<Rightarrow> bodyNodeData \<Rightarrow> (real \<Rightarrow> 'c \<Rightarrow> 'c) \<Rightarrow> (nat \<Rightarrow> 'c::plus list)
   \<Rightarrow> nat option list \<Rightarrow> 'c list \<times> real \<Rightarrow> ('c list \<times> real) option" where
  "comJacobianLoop k s bd scale jacOf [] acc = Some acc"
| "comJacobianLoop k s bd scale jacOf (bn # bns) (J, totalMass) =
     (case bn of
        None \<Rightarrow> None
      | Some b \<Rightarrow>
          (let bnJ = map (scale (bnMass bd b)) (jacOf b);
               dofs = bnDependentDofs bd b in
           case addJacobianLoop k s bnJ J (zip dofs [0..<length dofs]) of
             None \<Rightarrow> None
           | Some J' \<Rightarrow> comJacobianLoop k s bd scale jacOf bns (J', totalMass + bnMass bd b)))"

definition getCOMJacobianTemplate ::
  "rkin \<Rightarrow> bodyNodeData \<Rightarrow> (real \<Rightarrow> 'c \<Rightarrow> 'c) \<Rightarrow> (nat \<Rightarrow> 'c::{zero, plus} list) \<Rightarrow> rsObject
   \<Rightarrow> 'c list option \<times> rsObject" where
  "getCOMJacobianTemplate k bd scale jacOf ob =
     (case getBodyNodesConst ob of
        (bodyNodes, ob') \<Rightarrow>
          (do { (J, totalMass) \<leftarrow> comJacobianLoop k (rsView ob') bd scale jacOf bodyNodes
                                   (replicate (getNumDofs (rsView ob')) 0, 0);
                if totalMass = 0 then None else Some (map (scale (1 / totalMass)) J) }, ob'))"

section \<open>Clearing the body nodes' forces\<close>

text \<open>\<open>clearExternalForces()\<close> and \<open>clearInternalForces()\<close> call
  \<open>BodyNode::clearExternalForces()\<close> (resp. \<open>clearInternalForces()\<close>) on every
  pointer of \<open>mRawBodyNodes\<close>.  The body-node mutator is not under \<open>src/\<close>: it
  is a parameter acting on the body nodes' state \<open>'b\<close>.  Calling it through a
  null pointer is a crash (\<open>None\<close>).\<close>

fun forEachRawBodyNode :: "(nat \<Rightarrow> 'b \<Rightarrow> 'b) \<Rightarrow> nat option list \<Rightarrow> 'b \<Rightarrow> 'b option" where
  "forEachRawBodyNode clr [] st = Some st"
| "forEachRawBodyNode clr (None # bns) st = None"
| "forEachRawBodyNode clr (Some bn # bns) st = forEachRawBodyNode clr bns (clr bn st)"

definition clearExternalForces :: "(nat \<Rightarrow> 'b \<Rightarrow> 'b) \<Rightarrow> rsObject \<Rightarrow> 'b \<Rightarrow> 'b option" where
  "clearExternalForces bnClearExternalForces ob st =
     forEachRawBodyNode bnClearExternalForces (mRawBodyNodes ob) st"

definition clearInternalForces :: "(nat \<Rightarrow> 'b \<Rightarrow> 'b) \<Rightarrow> rsObject \<Rightarrow> 'b \<Rightarrow> 'b option" where
  "clearInternalForces bnClearInternalForces ob st =
     forEachRawBodyNode bnClearInternalForces (mRawBodyNodes ob) st"

section \<open>Reference: the view's block of a tree matrix\<close>

text \<open>A matrix given by its entries, and the entry the view's mass matrix
  should have: the tree matrix's entry (earlier DOF, later DOF) for two DOFs
  of one tree of one skeleton, zero across trees.\<close>

definition tabulate :: "nat \<Rightarrow> (nat \<Rightarrow> nat \<Rightarrow> 'a) \<Rightarrow> 'a list list" where
  "tabulate n f = map (\<lambda>r. map (\<lambda>c. f r c) [0..<n]) [0..<n]"

definition sameTree :: "dofData \<Rightarrow> DegreeOfFreedomPtr \<Rightarrow> DegreeOfFreedomPtr \<Rightarrow> bool" where
  "sameTree dd a b \<longleftrightarrow> dofSkeleton dd a = dofSkeleton dd b \<and> dofTreeIndex dd a = dofTreeIndex dd b"

definition treeEntry :: "dofData \<Rightarrow> treeMatrixFn \<Rightarrow> DegreeOfFreedomPtr \<Rightarrow> DegreeOfFreedomPtr \<Rightarrow> real" where
  "treeEntry dd getMatrix a b = getMatrix (dofSkeleton dd a) (dofTreeIndex dd a) (dofIndexInTree dd a) (dofIndexInTree dd b)"

definition viewMatrixEntry :: "dofData \<Rightarrow> treeMatrixFn \<Rightarrow> DegreeOfFreedomPtr list \<Rightarrow> nat \<Rightarrow> nat \<Rightarrow> real" where
  "viewMatrixEntry dd getMatrix dofs r c =
     (if sameTree dd (dofs ! r) (dofs ! c)
      then treeEntry dd getMatrix (dofs ! min r c) (dofs ! max r c) else 0)"

section \<open>Examples\<close>

text \<open>DOF data where DOF pointers \<open>(1, _)\<close> and \<open>(2, _)\<close> share tree 0 and
  \<open>(3, _)\<close> is alone in tree 1, a tree matrix that is not symmetric, and body
  nodes with one dependent DOF each (the DOF of the joint of the same
  number).\<close>

definition ex_dd :: dofData where
  "ex_dd = \<lparr>dofSkeleton = (\<lambda>p. 0), dofTreeIndex = (\<lambda>p. if fst p = 3 then 1 else 0),
            dofIndexInTree = fst\<rparr>"

definition ex_treeMatrix :: treeMatrixFn where
  "ex_treeMatrix sk t a b = real (10 * a + b)"

definition ex_bd :: bodyNodeData where
  "ex_bd = \<lparr>bnDependentDofs = (\<lambda>b. [ex_dof b]), bnMass = (\<lambda>b. real b + 1),
            bnKineticEnergy = (\<lambda>b. 1), bnPotentialEnergy = (\<lambda>b. 0), bnJointPotentialEnergy = (\<lambda>b. 0),
            bnCOM = (\<lambda>b. V3 (real b) 0 0)\<rparr>"

definition ex_bnJacobian :: "nat \<Rightarrow> vec6 list" where
  "ex_bnJacobian b = [V6 (V3 0 0 1) (V3 0 (real b) 0)]"

text \<open>The object after registering the DOF of joint 1 and calling
  \<open>getBodyNodes()\<close>.\<close>

definition ex_object :: rsObject where
  "ex_object = \<lparr>rsView = ex_view, mRawBodyNodes = [Some 1, Some 1], mRawConstBodyNodes = [],
                 mRawDofs = [], mRawConstDofs = []\<rparr>"

text \<open>An object on the view \<open>ex_view2\<close> after \<open>getDofs() const\<close>.\<close>

definition ex_object2 :: rsObject where
  "ex_object2 = \<lparr>rsView = ex_view2, mRawBodyNodes = [], mRawConstBodyNodes = [],
                  mRawDofs = [], mRawConstDofs = [Some (1, 0), Some (2, 0)]\<rparr>"

section \<open>Lemmas: the matrix loops\<close>

lemma tabulate_cong:
  "(\<And>r c. r < n \<Longrightarrow> c < n \<Longrightarrow> f r c = g r c) \<Longrightarrow> tabulate n f = tabulate n g"
  by (simp add: tabulate_def)

lemma tabulate_nth [simp]: "r < n \<Longrightarrow> c < n \<Longrightarrow> tabulate n f ! r ! c = f r c"
  by (simp add: tabulate_def)

lemma tabulate_shape [simp]: "length (tabulate n f) = n" "r < n \<Longrightarrow> length (tabulate n f ! r) = n"
  by (simp_all add: tabulate_def)

lemma matUpd_tabulate:
  assumes "i < n" "j < n"
  shows "matUpd (tabulate n f) i j v = tabulate n (\<lambda>r c. if r = i \<and> c = j then v else f r c)"
  using assms by (auto simp: matUpd_def tabulate_def intro!: nth_equalityI simp: nth_list_update)

lemma setMatrixInner_Cons:
  "setMatrixInner dd getMatrix dofs i (j # js) M =
     setMatrixInner dd getMatrix dofs i js
       (if sameTree dd (dofs ! i) (dofs ! j)
        then matUpd (matUpd M i j (treeEntry dd getMatrix (dofs ! i) (dofs ! j))) j i
               (treeEntry dd getMatrix (dofs ! i) (dofs ! j))
        else M)"
  by (simp only: setMatrixInner.simps Let_def sameTree_def treeEntry_def)

lemma setMatrixInner_tabulate:
  assumes "i < n" "\<forall>j \<in> set js. i < j \<and> j < n"
  shows "setMatrixInner dd getMatrix dofs i js (tabulate n f)
       = tabulate n (\<lambda>r c. if ((r = i \<and> c \<in> set js) \<or> (c = i \<and> r \<in> set js)) \<and> sameTree dd (dofs ! r) (dofs ! c)
                          then treeEntry dd getMatrix (dofs ! i) (dofs ! (if r = i then c else r)) else f r c)"
  using assms(2)
proof (induction js arbitrary: f)
  case Nil
  then show ?case by simp
next
  case (Cons j js)
  have j: "i < j" "j < n" using Cons.prems by auto
  define f1 where "f1 = (\<lambda>r c. if ((r = i \<and> c = j) \<or> (c = i \<and> r = j)) \<and> sameTree dd (dofs ! r) (dofs ! c)
                               then treeEntry dd getMatrix (dofs ! i) (dofs ! j) else f r c)"
  have step: "(if sameTree dd (dofs ! i) (dofs ! j)
               then matUpd (matUpd (tabulate n f) i j (treeEntry dd getMatrix (dofs ! i) (dofs ! j))) j i
                      (treeEntry dd getMatrix (dofs ! i) (dofs ! j))
               else tabulate n f) = tabulate n f1"
  proof (cases "sameTree dd (dofs ! i) (dofs ! j)")
    case True
    have "sameTree dd (dofs ! j) (dofs ! i)" using True by (auto simp: sameTree_def)
    then show ?thesis using True j assms(1)
      by (auto simp: matUpd_tabulate f1_def intro!: tabulate_cong)
  next
    case False
    have "\<not> sameTree dd (dofs ! j) (dofs ! i)" using False by (auto simp: sameTree_def)
    then show ?thesis using False by (auto simp: f1_def intro!: tabulate_cong)
  qed
  have "setMatrixInner dd getMatrix dofs i (j # js) (tabulate n f) = setMatrixInner dd getMatrix dofs i js (tabulate n f1)"
    using step by (simp only: setMatrixInner_Cons)
  also have "\<dots> = tabulate n (\<lambda>r c. if ((r = i \<and> c \<in> set js) \<or> (c = i \<and> r \<in> set js)) \<and> sameTree dd (dofs ! r) (dofs ! c)
                          then treeEntry dd getMatrix (dofs ! i) (dofs ! (if r = i then c else r)) else f1 r c)"
    using Cons by simp
  also have "\<dots> = tabulate n (\<lambda>r c. if ((r = i \<and> c \<in> set (j # js)) \<or> (c = i \<and> r \<in> set (j # js))) \<and> sameTree dd (dofs ! r) (dofs ! c)
                          then treeEntry dd getMatrix (dofs ! i) (dofs ! (if r = i then c else r)) else f r c)"
    using j by (intro tabulate_cong) (auto simp: f1_def)
  finally show ?case .
qed

lemma setMatrixOuter_Cons:
  "setMatrixOuter dd getMatrix dofs (i # is) M =
     setMatrixOuter dd getMatrix dofs is
       (setMatrixInner dd getMatrix dofs i [Suc i..<length dofs]
          (matUpd M i i (treeEntry dd getMatrix (dofs ! i) (dofs ! i))))"
  by (simp only: setMatrixOuter.simps Let_def treeEntry_def)

lemma sameTree_refl [simp]: "sameTree dd a a"
  by (simp add: sameTree_def)

lemma sameTree_sym: "sameTree dd a b \<longleftrightarrow> sameTree dd b a"
  by (auto simp: sameTree_def)

lemma setMatrixOuter_tabulate:
  assumes "n = length dofs" "a \<le> n"
  shows "setMatrixOuter dd getMatrix dofs [a..<n]
           (tabulate n (\<lambda>r c. if min r c < a then viewMatrixEntry dd getMatrix dofs r c else 0))
         = tabulate n (viewMatrixEntry dd getMatrix dofs)"
  using assms(2)
proof (induction "n - a" arbitrary: a)
  case 0
  then have "n = a" by simp
  then show ?case by (auto intro!: tabulate_cong)
next
  case (Suc x)
  then have a: "a < n" and up: "[a..<n] = a # [Suc a..<n]" and xn: "x = n - Suc a"
    by (simp_all add: upt_conv_Cons)
  let ?V = "viewMatrixEntry dd getMatrix dofs"
  let ?D = "treeEntry dd getMatrix (dofs ! a) (dofs ! a)"
  have diag: "matUpd (tabulate n (\<lambda>r c. if min r c < a then ?V r c else 0)) a a ?D
      = tabulate n (\<lambda>r c. if r = a \<and> c = a then ?D else if min r c < a then ?V r c else 0)"
    using a by (simp add: matUpd_tabulate)
  have inner: "setMatrixInner dd getMatrix dofs a [Suc a..<length dofs]
       (tabulate n (\<lambda>r c. if r = a \<and> c = a then ?D else if min r c < a then ?V r c else 0))
     = tabulate n (\<lambda>r c. if min r c < Suc a then ?V r c else 0)"
  proof -
    have "setMatrixInner dd getMatrix dofs a [Suc a..<length dofs]
       (tabulate n (\<lambda>r c. if r = a \<and> c = a then ?D else if min r c < a then ?V r c else 0))
     = tabulate n (\<lambda>r c. if ((r = a \<and> c \<in> set [Suc a..<n]) \<or> (c = a \<and> r \<in> set [Suc a..<n]))
                              \<and> sameTree dd (dofs ! r) (dofs ! c)
                          then treeEntry dd getMatrix (dofs ! a) (dofs ! (if r = a then c else r))
                          else if r = a \<and> c = a then ?D else if min r c < a then ?V r c else 0)"
      using setMatrixInner_tabulate [OF a] assms(1) by simp
    also have "\<dots> = tabulate n (\<lambda>r c. if min r c < Suc a then ?V r c else 0)"
      by (rule tabulate_cong)
        (auto simp: viewMatrixEntry_def min_def max_def sameTree_sym)
    finally show ?thesis .
  qed
  have "setMatrixOuter dd getMatrix dofs [a..<n] (tabulate n (\<lambda>r c. if min r c < a then ?V r c else 0))
      = setMatrixOuter dd getMatrix dofs [Suc a..<n] (tabulate n (\<lambda>r c. if min r c < Suc a then ?V r c else 0))"
    unfolding up setMatrixOuter_Cons diag inner ..
  also have "\<dots> = tabulate n ?V"
    using Suc.hyps(1) [of "Suc a"] xn a by simp
  finally show ?case .
qed

lemma setMatrixFromSkeletonData_tabulate:
  "setMatrixFromSkeletonData dd getMatrix dofs = tabulate (length dofs) (viewMatrixEntry dd getMatrix dofs)"
proof -
  have "replicate (length dofs) (replicate (length dofs) 0)
      = tabulate (length dofs) (\<lambda>r c. if min r c < 0 then viewMatrixEntry dd getMatrix dofs r c else (0::real))"
    by (simp add: tabulate_def map_replicate_const)
  then show ?thesis
    using setMatrixOuter_tabulate [of "length dofs" dofs 0 dd getMatrix]
    by (simp add: setMatrixFromSkeletonData_def)
qed

section \<open>Lemmas: the Jacobian loops\<close>

lemma getIndexOfDof_unindexed:
  "mIndexMap s = Map.empty \<Longrightarrow> getIndexOfDof k s (Some d) = None"
  by (simp add: getIndexOfDof_def)

lemma assignJacobianLoop_unindexed:
  "mIndexMap s = Map.empty \<Longrightarrow> assignJacobianLoop k s JB J ps = Some J"
  by (induction ps arbitrary: J) (auto simp: getIndexOfDof_unindexed)

lemma addJacobianLoop_unindexed:
  "mIndexMap s = Map.empty \<Longrightarrow> addJacobianLoop k s bnJ J ps = Some J"
  by (induction ps arbitrary: J) (auto simp: getIndexOfDof_unindexed)

lemma comJacobianLoop_unindexed:
  "mIndexMap s = Map.empty \<Longrightarrow>
   comJacobianLoop k s bd scale jacOf (map Some bns) (J, t) = Some (J, foldl (\<lambda>t bn. t + bnMass bd bn) t bns)"
  by (induction bns arbitrary: t) (simp_all add: addJacobianLoop_unindexed Let_def)

lemma foldl_plus_sum_list:
  "foldl (\<lambda>a x. a + f x) a0 xs = a0 + sum_list (map f xs)"
  by (induction xs arbitrary: a0) (simp_all add: algebra_simps)

lemma sum_list_doubled:
  "sum_list (map f (concat (map (\<lambda>p. [fst p, fst p]) ds))) = (2::real) * sum_list (map (\<lambda>p. f (fst p)) ds)"
  by (induction ds) (simp_all add: algebra_simps)

lemma scale6_zero_vec [simp]: "scale6 r 0 = 0"
  by (simp add: scale6_def scale3_def)

section \<open>Lemmas: the pointer caches\<close>

lemma convertLoop_nth:
  assumes "\<forall>i \<in> set is. i < length t2"
  shows "length (convertLoop t1 t2 is) = length t2
    \<and> (\<forall>j < length t2. convertLoop t1 t2 is ! j = (if j \<in> set is then Some (t1 ! j) else t2 ! j))"
  using assms by (induction "is" arbitrary: t2) (auto simp: nth_list_update)

lemma convertVector_map_Some [simp]: "convertVector t1 t2 = map Some t1"
proof -
  let ?t = "resize t2 (length t1) None"
  have len: "length ?t = length t1" by (simp add: resize_def)
  then have "length (convertLoop t1 ?t [0..<length t1]) = length t1
    \<and> (\<forall>j < length t1. convertLoop t1 ?t [0..<length t1] ! j = Some (t1 ! j))"
    using convertLoop_nth [of "[0..<length t1]" ?t t1] by simp
  then show ?thesis by (simp add: convertVector_def nth_equalityI)
qed

lemma those_map_Some [simp]: "those (map Some xs) = Some xs"
  by (induction xs) simp_all


lemma sumBodies_map_Some: "sumBodies add acc (map Some xs) = Some (foldl add acc xs)"
  by (induction xs arbitrary: acc) simp_all

lemma getters_keep_view [simp]:
  "rsView (snd (getBodyNodes ob)) = rsView ob" "rsView (snd (getBodyNodesConst ob)) = rsView ob"
  "rsView (snd (getDofs ob)) = rsView ob" "rsView (snd (getDofsConst ob)) = rsView ob"
  by (simp_all add: getBodyNodes_def getBodyNodesConst_def getDofs_def getDofsConst_def Let_def)

lemma objReachable_view: "objReachable k ob \<Longrightarrow> rsReachable k (rsView ob)"
proof (induction rule: objReachable.induct)
  case (obj_init n)
  then show ?case by (simp add: newObject_def rs_init)
next
  case (obj_step ob op ob')
  then show ?case by (cases op) (auto intro: rs_step)
qed

lemma objReachable_caches:
  assumes "objReachable k ob"
  shows "(\<exists>s. rsReachable k s \<and> mRawBodyNodes ob = map Some (mBodyNodes s))
    \<and> (\<exists>s. rsReachable k s \<and> mRawConstDofs ob = map Some (mDofs s))"
  using assms
proof (induction rule: objReachable.induct)
  case (obj_init n)
  have "mBodyNodes (emptyReferentialSkeleton n) = []" "mDofs (emptyReferentialSkeleton n) = []"
    by (simp_all add: emptyReferentialSkeleton_def)
  then show ?case using rs_init [of k n] by (metis list.simps(8) newObject_def rsObject.select_convs(2,5))
next
  case (obj_step ob op ob')
  have view: "rsReachable k (rsView ob)" using obj_step.hyps(1) by (rule objReachable_view)
  show ?case
    using obj_step view
    by (cases op) (auto simp: getBodyNodes_def getBodyNodesConst_def getDofs_def getDofsConst_def Let_def)
qed

lemma ex_object_reachable: "objReachable ex_rkin ex_object"
proof -
  have "objReachable ex_rkin (newObject ''arm'')" by (rule obj_init)
  then have "objReachable ex_rkin ((newObject ''arm'')\<lparr>rsView := ex_view\<rparr>)"
    using obj_step [of ex_rkin "newObject ''arm''" "ViewOp (OpRegisterDegreeOfFreedom (ex_dof 1))"]
    by (simp add: ex_view_def newObject_def)
  then show ?thesis
    using obj_step [of ex_rkin "(newObject ''arm'')\<lparr>rsView := ex_view\<rparr>" OpGetBodyNodes]
    by (simp add: getBodyNodes_def ex_object_def ex_view_eq newObject_def Let_def)
qed


lemma forEachRawBodyNode_map_Some:
  "forEachRawBodyNode clr (map Some bns) st = Some (fold clr bns st)"
  by (induction bns arbitrary: st) simp_all

lemma fold_reset:
  "fold (\<lambda>b f. f(b := 0)) bns f = (\<lambda>b. if b \<in> set bns then 0 else f b)"
  by (induction bns arbitrary: f) (auto simp: fun_eq_iff)

section \<open>Properties of the aggregates\<close>



text \<open>
  C19.  The nested loop of \<open>setMatrixFromSkeletonData\<close> computes the block
  structure: entry (r, c) is the tree matrix's entry for (earlier DOF, later
  DOF) when the two DOFs are in the same tree of the same skeleton, and zero
  otherwise.
\<close>

theorem getMassMatrix_tree_blocks:
  assumes "those (mRawConstDofs ob) = Some dofs" "r < length dofs" "c < length dofs"
  shows "\<exists>M. getMassMatrix dd getMatrix ob = Some M \<and> M ! r ! c =
           (if dofSkeleton dd (dofs ! r) = dofSkeleton dd (dofs ! c)
               \<and> dofTreeIndex dd (dofs ! r) = dofTreeIndex dd (dofs ! c)
            then getMatrix (dofSkeleton dd (dofs ! min r c)) (dofTreeIndex dd (dofs ! min r c))
                   (dofIndexInTree dd (dofs ! min r c)) (dofIndexInTree dd (dofs ! max r c))
            else 0)"
  using assms
  by (simp add: getMassMatrix_def setMatrixFromSkeletonData_tabulate viewMatrixEntry_def
      sameTree_def treeEntry_def)

lemma getMassMatrix_tree_blocks_witness:
  "\<exists>M. getMassMatrix ex_dd ex_treeMatrix ex_object2 = Some M \<and> M ! 1 ! 0 = 12"
  using getMassMatrix_tree_blocks [of ex_object2 "[(1, 0), (2, 0)]" 1 0 ex_dd ex_treeMatrix]
  by (simp add: ex_object2_def ex_dd_def ex_treeMatrix_def)

text \<open>
  C20.  In every reachable object the registration defect (C13) reaches the
  aggregates: every Jacobian query returns zero columns, the COM Jacobian is
  zero (or fails on a zero total mass), and \<open>getMass\<close> counts, twice, the
  body node of every DOF the view held at the last \<open>getBodyNodes()\<close>.
\<close>

theorem reachable_object_aggregates:
  assumes "objReachable k ob"
  shows "variadicGetJacobian k (rsView ob) bd jacOf bn = Some (replicate (getNumDofs (rsView ob)) 0)
     \<and> fst (getCOMJacobianTemplate k bd scale6 jac6Of ob) \<in> {None, Some (replicate (getNumDofs (rsView ob)) 0)}
     \<and> (\<exists>ds :: DegreeOfFreedomPtr list. mRawBodyNodes ob = map Some (concat (map (\<lambda>p. [fst p, fst p]) ds))
            \<and> getMass bd ob = Some (2 * sum_list (map (\<lambda>p. bnMass bd (fst p)) ds)))"
proof -
  have shape: "mIndexMap (rsView ob) = Map.empty"
    using rsReachable_shape [OF objReachable_view [OF assms]] by (simp add: rsDefectShape_def)
  obtain s where s: "rsReachable k s" "mRawBodyNodes ob = map Some (mBodyNodes s)"
    using objReachable_caches [OF assms] by blast
  have ds: "mBodyNodes s = concat (map (\<lambda>p. [fst p, fst p]) (mDofs s))"
    using rsReachable_shape [OF s(1)] by (simp add: rsDefectShape_def)
  have mass: "getMass bd ob = Some (2 * sum_list (map (\<lambda>p. bnMass bd (fst p)) (mDofs s)))"
    using s(2) ds by (simp add: getMass_def sumBodies_map_Some foldl_plus_sum_list sum_list_doubled)
  have com: "fst (getCOMJacobianTemplate k bd scale6 jac6Of ob) \<in> {None, Some (replicate (getNumDofs (rsView ob)) 0)}"
    by (simp add: getCOMJacobianTemplate_def getBodyNodesConst_def comJacobianLoop_unindexed [OF shape] Let_def)
  have "variadicGetJacobian k (rsView ob) bd jacOf bn = Some (replicate (getNumDofs (rsView ob)) 0)"
    by (simp add: variadicGetJacobian_def assignJacobian_def assignJacobianLoop_unindexed [OF shape] Let_def)
  moreover have "\<exists>ds :: DegreeOfFreedomPtr list. mRawBodyNodes ob = map Some (concat (map (\<lambda>p. [fst p, fst p]) ds))
            \<and> getMass bd ob = Some (2 * sum_list (map (\<lambda>p. bnMass bd (fst p)) ds))"
  proof -
    have "mRawBodyNodes ob = map Some (concat (map (\<lambda>p. [fst p, fst p]) (mDofs s)))
        \<and> getMass bd ob = Some (2 * sum_list (map (\<lambda>p. bnMass bd (fst p)) (mDofs s)))"
      using mass s(2) ds by simp
    then show ?thesis by blast
  qed
  ultimately show ?thesis using com by blast
qed

lemma reachable_object_aggregates_witness:
  "variadicGetJacobian ex_rkin ex_view ex_bd ex_bnJacobian (Some 1) = Some [0]
   \<and> fst (getCOMJacobianTemplate ex_rkin ex_bd scale6 ex_bnJacobian ex_object) \<in> {None, Some [0]}
   \<and> getMass ex_bd ex_object = Some 4"
proof -
  have "getMass ex_bd ex_object = Some 4"
    by (simp add: getMass_def ex_object_def ex_bd_def)
  then show ?thesis
    using reachable_object_aggregates [OF ex_object_reachable, of ex_bd ex_bnJacobian "Some 1" ex_bnJacobian]
    unfolding ex_object_def ex_view_eq getNumDofs_def by auto
qed

text \<open>
  C21.  The mass, the energies, the centre of mass and the mass matrix read
  the pointer caches: a mutator of the view leaves them as they were, and
  from every object two getter calls, \<open>getBodyNodes()\<close> and
  \<open>getDofs() const\<close>, reach one with the same view where \<open>getMass\<close> sums the
  view's body nodes and \<open>getMassMatrix\<close> is built from the view's DOFs.
\<close>

theorem aggregates_read_caches:
  "(objStep k (ViewOp op) ob = Some ob' \<longrightarrow>
       getMass bd ob' = getMass bd ob \<and> getKineticEnergy bd ob' = getKineticEnergy bd ob
     \<and> getPotentialEnergy bd ob' = getPotentialEnergy bd ob \<and> getCOM bd ob' = getCOM bd ob
     \<and> getMassMatrix dd getMatrix ob' = getMassMatrix dd getMatrix ob)
   \<and> (\<exists>ob1 ob2. objStep k OpGetBodyNodes ob = Some ob1 \<and> objStep k OpGetDofsConst ob1 = Some ob2
        \<and> rsView ob2 = rsView ob
        \<and> getMass bd ob2 = Some (sum_list (map (bnMass bd) (mBodyNodes (rsView ob))))
        \<and> getMassMatrix dd getMatrix ob2 = Some (setMatrixFromSkeletonData dd getMatrix (mDofs (rsView ob))))"
proof -
  have stale: "getMass bd ob' = getMass bd ob \<and> getKineticEnergy bd ob' = getKineticEnergy bd ob
     \<and> getPotentialEnergy bd ob' = getPotentialEnergy bd ob \<and> getCOM bd ob' = getCOM bd ob
     \<and> getMassMatrix dd getMatrix ob' = getMassMatrix dd getMatrix ob"
    if "objStep k (ViewOp op) ob = Some ob'"
    using that by (auto simp: getMass_def getKineticEnergy_def getPotentialEnergy_def getCOM_def getMassMatrix_def)
  have fresh: "getMass bd (snd (getDofsConst (snd (getBodyNodes ob))))
      = Some (sum_list (map (bnMass bd) (mBodyNodes (rsView ob))))
    \<and> getMassMatrix dd getMatrix (snd (getDofsConst (snd (getBodyNodes ob))))
      = Some (setMatrixFromSkeletonData dd getMatrix (mDofs (rsView ob)))"
    by (simp add: getMass_def getMassMatrix_def getBodyNodes_def getDofsConst_def sumBodies_map_Some
        foldl_plus_sum_list Let_def)
  show ?thesis using stale fresh by auto
qed

lemma aggregates_read_caches_witness:
  "getMass ex_bd ((newObject ''arm'')\<lparr>rsView := ex_view\<rparr>) = Some 0
   \<and> (\<exists>ob2. rsView ob2 = ex_view \<and> getMass ex_bd ob2 = Some 4)"
proof -
  let ?ob1 = "(newObject ''arm'')\<lparr>rsView := ex_view\<rparr>"
  have reg: "objStep ex_rkin (ViewOp (OpRegisterDegreeOfFreedom (ex_dof 1))) (newObject ''arm'') = Some ?ob1"
    by (simp add: ex_view_def newObject_def)
  have "getMass ex_bd ?ob1 = getMass ex_bd (newObject ''arm'')"
    using aggregates_read_caches [of ex_rkin "OpRegisterDegreeOfFreedom (ex_dof 1)" "newObject ''arm''" ?ob1
        ex_bd ex_dd ex_treeMatrix] reg
    by simp
  then have stale: "getMass ex_bd ?ob1 = Some 0"
    by (simp add: getMass_def newObject_def)
  obtain ob1 ob2 where "rsView ob2 = rsView ?ob1"
      "getMass ex_bd ob2 = Some (sum_list (map (bnMass ex_bd) (mBodyNodes (rsView ?ob1))))"
    using aggregates_read_caches [of ex_rkin _ ?ob1 _ ex_bd ex_dd ex_treeMatrix] by blast
  then have "rsView ob2 = ex_view \<and> getMass ex_bd ob2 = Some 4"
    by (simp add: ex_view_eq ex_bd_def)
  then show ?thesis using stale by blast
qed

text \<open>
  C22.  \<open>clearExternalForces\<close> and \<open>clearInternalForces\<close> never reach a null
  pointer on a reachable object, and they reset exactly the body nodes of
  the raw-pointer cache: a body node registered since the last
  \<open>getBodyNodes()\<close> keeps its forces, and one unregistered since is still
  cleared.
\<close>

theorem clearForces_reset_cached_bodies:
  assumes "objReachable k ob"
  shows "clearExternalForces (\<lambda>b f. f(b := 0)) ob (fext :: nat \<Rightarrow> vec6)
           = Some (\<lambda>b. if Some b \<in> set (mRawBodyNodes ob) then 0 else fext b)
       \<and> clearInternalForces (\<lambda>b f. f(b := 0)) ob (fint :: nat \<Rightarrow> real)
           = Some (\<lambda>b. if Some b \<in> set (mRawBodyNodes ob) then 0 else fint b)"
proof -
  obtain s :: ReferentialSkeleton where "mRawBodyNodes ob = map Some (mBodyNodes s)"
    using objReachable_caches [OF assms] by blast
  then show ?thesis
    by (simp add: clearExternalForces_def clearInternalForces_def forEachRawBodyNode_map_Some fold_reset
        image_iff)
qed

lemma clearForces_reset_cached_bodies_witness:
  "mBodyNodes ex_view = [1, 1]
   \<and> clearExternalForces (\<lambda>b f. f(b := 0)) ((newObject ''arm'')\<lparr>rsView := ex_view\<rparr>) (\<lambda>b. V6 0 (V3 1 0 0))
       = Some (\<lambda>b. V6 0 (V3 1 0 0))
   \<and> clearExternalForces (\<lambda>b f. f(b := 0)) ex_object (\<lambda>b. V6 0 (V3 1 0 0))
       = Some (\<lambda>b. if b = 1 then 0 else V6 0 (V3 1 0 0))"
proof -
  let ?ob1 = "(newObject ''arm'')\<lparr>rsView := ex_view\<rparr>"
  have r1: "objReachable ex_rkin ?ob1"
    using obj_init [of ex_rkin "''arm''"]
      obj_step [of ex_rkin "newObject ''arm''" "ViewOp (OpRegisterDegreeOfFreedom (ex_dof 1))" ?ob1]
    by (simp add: ex_view_def newObject_def)
  show ?thesis
    using clearForces_reset_cached_bodies [OF r1, of "\<lambda>b. V6 0 (V3 1 0 0)" "\<lambda>b. 0"]
      clearForces_reset_cached_bodies [OF ex_object_reachable, of "\<lambda>b. V6 0 (V3 1 0 0)" "\<lambda>b. 0"]
    by (simp add: ex_view_eq newObject_def ex_object_def)
qed

end
