(* ===== verification/VariationalAspects.thy ===== *)
theory VariationalAspects
  imports PerturbationEstimates
begin

text \<open>
  The state of the experimental variational-integrator aspects declared in
  \<open>src/dart/experimental/SkeletonViRiqnSvi.hpp\<close> (lines 44-109 and 159-223):
  \<open>SkeletonViRiqnSvi\<close>, the RIQN-SVI integrator attached to a skeleton, and
  \<open>BodyNodeViRiqnDrnea\<close>, the per-body-node state of the discrete recursive
  Newton-Euler pass.  Only the class declarations are under \<open>src/\<close>: the data
  members, their in-class initialisers and the defaulted constructors are
  modelled; the methods (\<open>integrate\<close>, \<open>evaluateDel\<close>, \<open>stepForward\<close>, the
  setters and getters) have no body there and are not.  A raw pointer is an
  option (\<open>None\<close> is \<open>nullptr\<close>), \<open>VectorXd\<close> a list, \<open>Isometry3d\<close> a
  \<open>transform\<close> and \<open>Vector6d\<close> a \<open>vec6\<close>.
\<close>

section \<open>\<open>SkeletonViRiqnSvi\<close>\<close>

text \<open>The outcome of \<open>integrate()\<close>.\<close>

datatype TerminalCondition = Invalid | StaticSkeleton | MaximumIteration | Tolerance

record SkeletonViRiqnSvi =
  mSkeletonDerivatives :: "nat option"
  mTolerance :: real
  mMaxIteration :: nat
  mNeedD2LdUpdate :: bool
  mD2Ld :: "real list"
  mD1Ld :: "real list"

text \<open>\<open>SkeletonViRiqnSvi() = default\<close>, with the in-class initialisers.\<close>

definition newSkeletonViRiqnSvi :: SkeletonViRiqnSvi where
  "newSkeletonViRiqnSvi =
     \<lparr>mSkeletonDerivatives = None, mTolerance = 1 / 1000000000, mMaxIteration = 30,
      mNeedD2LdUpdate = True, mD2Ld = [], mD1Ld = []\<rparr>"

section \<open>\<open>BodyNodeViRiqnDrnea\<close>\<close>

record BodyNodeViRiqnDrnea =
  mNeedPrevMomentumUpdate :: bool
  mNextWorldTransform :: transform
  mWorldTransformDisplacement :: transform
  mPreAverageSpatialVelocity :: vec6
  mPostAverageSpatialVelocity :: vec6
  mPrevMomentum :: vec6
  mPostMomentum :: vec6
  mParentImpulse :: vec6

text \<open>\<open>BodyNodeViRiqnDrnea() = default\<close>, with the in-class initialisers.\<close>

definition newBodyNodeViRiqnDrnea :: BodyNodeViRiqnDrnea where
  "newBodyNodeViRiqnDrnea =
     \<lparr>mNeedPrevMomentumUpdate = True, mNextWorldTransform = identityTransform,
      mWorldTransformDisplacement = identityTransform, mPreAverageSpatialVelocity = 0,
      mPostAverageSpatialVelocity = 0, mPrevMomentum = 0, mPostMomentum = 0, mParentImpulse = 0\<rparr>"

end
