(* ===== verification/JumpWormDemo.thy ===== *)
theory JumpWormDemo
  imports Prelude
begin

text \<open>
  The Jump Worm tutorial, the Python program carried by
  \<open>src/python/_diffdart/neural/BackpropSnapshot.cpp\<close> (lines 158-278): it
  builds a planar worm of a sliding root and three revolute tail segments on a
  floor, sets up a multiple-shooting trajectory with a loss on the root's
  height, runs IPOPT and should write and serve the result.  The dartpy
  objects it calls are DART's (not under \<open>src/\<close>): only what the script sets is
  modelled, the rest of a joint keeps DART's defaults (position 0, no limit,
  identity offsets).  A joint's limit is a \<open>real option\<close>, \<open>None\<close> the
  unbounded default (\<open>\<plusminus>\<infinity>\<close>); an offset is the translation of its
  \<open>Isometry3\<close> (the script sets no rotation).  Python's exceptions are values
  of \<open>pyExc\<close>.
\<close>

section \<open>Skeletons\<close>

datatype JointType = TranslationalJoint2D | RevoluteJoint | WeldJoint

datatype PlaneType = XY | YZ | ZX

record DemoJoint =
  jType :: JointType
  jParentBody :: "nat option"
  jPlane :: PlaneType
  jAxis :: vec3
  jPositions :: "real list"
  jPositionLower :: "real option list"
  jPositionUpper :: "real option list"
  jVelocityLower :: "real option list"
  jVelocityUpper :: "real option list"
  jForceLower :: "real option list"
  jForceUpper :: "real option list"
  jFromParent :: vec3
  jFromChild :: vec3

record DemoBody =
  bShape :: "vec3 option"
  bVisual :: bool
  bColor :: "vec3 option"
  bCollision :: bool

record DemoSkeleton =
  skName :: string
  skJoints :: "DemoJoint list"
  skBodies :: "DemoBody list"

definition jointDofs :: "JointType \<Rightarrow> nat" where
  "jointDofs k = (case k of TranslationalJoint2D \<Rightarrow> 2 | RevoluteJoint \<Rightarrow> 1 | WeldJoint \<Rightarrow> 0)"

definition newJoint :: "JointType \<Rightarrow> nat option \<Rightarrow> DemoJoint" where
  "newJoint k parent =
     (let n = jointDofs k in
      \<lparr>jType = k, jParentBody = parent, jPlane = XY, jAxis = V3 1 0 0,
       jPositions = replicate n 0, jPositionLower = replicate n None,
       jPositionUpper = replicate n None, jVelocityLower = replicate n None,
       jVelocityUpper = replicate n None, jForceLower = replicate n None,
       jForceUpper = replicate n None, jFromParent = 0, jFromChild = 0\<rparr>)"

definition newBody :: DemoBody where
  "newBody = \<lparr>bShape = None, bVisual = False, bColor = None, bCollision = False\<rparr>"

definition newSkeleton :: DemoSkeleton where
  "newSkeleton = \<lparr>skName = ''Skeleton'', skJoints = [], skBodies = []\<rparr>"

text \<open>\<open>create<Joint>AndBodyNodePair(parent)\<close>: a new joint and its child body;
  both get the next index, which the pair returns.\<close>

definition createJointAndBodyNodePair ::
  "JointType \<Rightarrow> nat option \<Rightarrow> DemoSkeleton \<Rightarrow> DemoSkeleton \<times> nat" where
  "createJointAndBodyNodePair k parent sk =
     (sk\<lparr>skJoints := skJoints sk @ [newJoint k parent], skBodies := skBodies sk @ [newBody]\<rparr>,
      length (skBodies sk))"

definition updJoint :: "nat \<Rightarrow> (DemoJoint \<Rightarrow> DemoJoint) \<Rightarrow> DemoSkeleton \<Rightarrow> DemoSkeleton" where
  "updJoint i f sk = sk\<lparr>skJoints := (skJoints sk)[i := f (skJoints sk ! i)]\<rparr>"

definition updBody :: "nat \<Rightarrow> (DemoBody \<Rightarrow> DemoBody) \<Rightarrow> DemoSkeleton \<Rightarrow> DemoSkeleton" where
  "updBody i f sk = sk\<lparr>skBodies := (skBodies sk)[i := f (skBodies sk ! i)]\<rparr>"

text \<open>The joint setters take a DOF index; DART reports an index past the
  joint's DOFs and returns, which is the list update's behaviour there.\<close>

definition setForceUpperLimit :: "nat \<Rightarrow> real \<Rightarrow> DemoJoint \<Rightarrow> DemoJoint" where
  "setForceUpperLimit i v j = j\<lparr>jForceUpper := (jForceUpper j)[i := Some v]\<rparr>"

definition setForceLowerLimit :: "nat \<Rightarrow> real \<Rightarrow> DemoJoint \<Rightarrow> DemoJoint" where
  "setForceLowerLimit i v j = j\<lparr>jForceLower := (jForceLower j)[i := Some v]\<rparr>"

definition setVelocityUpperLimit :: "nat \<Rightarrow> real \<Rightarrow> DemoJoint \<Rightarrow> DemoJoint" where
  "setVelocityUpperLimit i v j = j\<lparr>jVelocityUpper := (jVelocityUpper j)[i := Some v]\<rparr>"

definition setVelocityLowerLimit :: "nat \<Rightarrow> real \<Rightarrow> DemoJoint \<Rightarrow> DemoJoint" where
  "setVelocityLowerLimit i v j = j\<lparr>jVelocityLower := (jVelocityLower j)[i := Some v]\<rparr>"

definition setPositionUpperLimit :: "nat \<Rightarrow> real \<Rightarrow> DemoJoint \<Rightarrow> DemoJoint" where
  "setPositionUpperLimit i v j = j\<lparr>jPositionUpper := (jPositionUpper j)[i := Some v]\<rparr>"

definition setPositionLowerLimit :: "nat \<Rightarrow> real \<Rightarrow> DemoJoint \<Rightarrow> DemoJoint" where
  "setPositionLowerLimit i v j = j\<lparr>jPositionLower := (jPositionLower j)[i := Some v]\<rparr>"

definition setPosition :: "nat \<Rightarrow> real \<Rightarrow> DemoJoint \<Rightarrow> DemoJoint" where
  "setPosition i v j = j\<lparr>jPositions := (jPositions j)[i := v]\<rparr>"

text \<open>A shape node with a box shape, then its visual and collision aspects.\<close>

definition createShapeNode :: "vec3 \<Rightarrow> DemoBody \<Rightarrow> DemoBody" where
  "createShapeNode box b = b\<lparr>bShape := Some box\<rparr>"

definition createVisualAspect :: "DemoBody \<Rightarrow> DemoBody" where
  "createVisualAspect b = b\<lparr>bVisual := True\<rparr>"

definition setColor :: "vec3 \<Rightarrow> DemoBody \<Rightarrow> DemoBody" where
  "setColor c b = b\<lparr>bColor := Some c\<rparr>"

definition createCollisionAspect :: "DemoBody \<Rightarrow> DemoBody" where
  "createCollisionAspect b = b\<lparr>bCollision := True\<rparr>"

text \<open>\<open>Skeleton::setPositions\<close> writes the vector over the DOFs in joint order
  and refuses a vector of the wrong size.\<close>

fun splitPositions :: "DemoJoint list \<Rightarrow> real list \<Rightarrow> DemoJoint list" where
  "splitPositions [] q = []"
| "splitPositions (j # js) q =
     (let n = jointDofs (jType j) in j\<lparr>jPositions := take n q\<rparr> # splitPositions js (drop n q))"

definition skNumDofs :: "DemoSkeleton \<Rightarrow> nat" where
  "skNumDofs sk = sum_list (map (jointDofs \<circ> jType) (skJoints sk))"

definition setPositions :: "real list \<Rightarrow> DemoSkeleton \<Rightarrow> DemoSkeleton option" where
  "setPositions q sk =
     (if length q = skNumDofs sk then Some (sk\<lparr>skJoints := splitPositions (skJoints sk) q\<rparr>)
      else None)"

section \<open>The worm and the floor (lines 169-242)\<close>

definition deg :: "real \<Rightarrow> real" where
  "deg d = d * (31415 / 10000) / 180"

text \<open>The root: a 2-D translational joint in the XY plane with a 10 cm box,
  no actuation and velocity limits of 1000.\<close>

definition wormRoot :: "DemoSkeleton \<times> nat" where
  "wormRoot =
     (let (sk, rootBody) = createJointAndBodyNodePair TranslationalJoint2D None newSkeleton;
          sk = updJoint rootBody (\<lambda>j. j\<lparr>jPlane := XY\<rparr>) sk;
          sk = updBody rootBody (setColor (V3 (7/10) (7/10) (7/10)) \<circ> createCollisionAspect
                 \<circ> createVisualAspect \<circ> createShapeNode (V3 (1/10) (1/10) (1/10))) sk;
          sk = updJoint rootBody (setVelocityLowerLimit 1 (-1000) \<circ> setVelocityUpperLimit 1 1000
                 \<circ> setVelocityLowerLimit 0 (-1000) \<circ> setVelocityUpperLimit 0 1000
                 \<circ> setForceLowerLimit 1 0 \<circ> setForceUpperLimit 1 0
                 \<circ> setForceLowerLimit 0 0 \<circ> setForceUpperLimit 0 0) sk
      in (sk, rootBody))"

text \<open>The nested \<open>createTailSegment(parent, color)\<close>, with the closure's
  \<open>jumpworm\<close> passed in and returned and its \<open>root\<close> a parameter; only a segment
  hung from another segment gets the parent offset.\<close>

definition createTailSegment ::
  "nat \<Rightarrow> DemoSkeleton \<Rightarrow> nat \<Rightarrow> vec3 \<Rightarrow> DemoSkeleton \<times> nat" where
  "createTailSegment rootBody sk parent color =
     (let (sk, pole) = createJointAndBodyNodePair RevoluteJoint (Some parent) sk;
          sk = updJoint pole (\<lambda>j. j\<lparr>jAxis := V3 0 0 1\<rparr>) sk;
          sk = updBody pole (setColor color \<circ> createVisualAspect
                 \<circ> createShapeNode (V3 (5/100) (25/100) (5/100))) sk;
          sk = updJoint pole (setVelocityLowerLimit 0 (-10000) \<circ> setVelocityUpperLimit 0 10000
                 \<circ> setForceLowerLimit 0 (-100) \<circ> setForceUpperLimit 0 100) sk;
          sk = updJoint pole (\<lambda>j. j\<lparr>jFromChild := V3 0 (-(125/1000)) 0\<rparr>) sk;
          sk = updJoint pole (setPositionLowerLimit 0 (deg 0) \<circ> setPositionUpperLimit 0 (deg 180)
                 \<circ> setPosition 0 (deg 90)) sk;
          sk = updBody pole createCollisionAspect sk;
          sk = (if parent \<noteq> rootBody then updJoint pole (\<lambda>j. j\<lparr>jFromParent := V3 0 (125/1000) 0\<rparr>) sk
                else sk)
      in (sk, pole))"

definition tailColors :: "vec3 list" where
  "tailColors = [V3 (182/255) (223/255) (144/255), V3 (223/255) (228/255) (163/255),
                 V3 (221/255) (193/255) (121/255)]"

definition jumpworm :: "DemoSkeleton option" where
  "jumpworm =
     (let (sk, rootBody) = wormRoot;
          (sk, tail1) = createTailSegment rootBody sk rootBody (tailColors ! 0);
          (sk, tail2) = createTailSegment rootBody sk tail1 (tailColors ! 1);
          (sk, tail3) = createTailSegment rootBody sk tail2 (tailColors ! 2)
      in setPositions (map deg [0, 0, 90, 90, 45]) sk)"

definition floorSkeleton :: DemoSkeleton where
  "floorSkeleton =
     (let sk = newSkeleton\<lparr>skName := ''floor''\<rparr>;
          (sk, floorBody) = createJointAndBodyNodePair WeldJoint None sk;
          sk = updJoint floorBody (\<lambda>j. j\<lparr>jFromParent := V3 0 (-(7/10)) 0\<rparr>) sk;
          sk = updBody floorBody (createCollisionAspect \<circ> setColor (V3 (1/2) (1/2) (1/2))
                 \<circ> createVisualAspect \<circ> createShapeNode (V3 (25/10) (25/100) (1/2))) sk
      in sk)"

section \<open>The loss (lines 246-254)\<close>

text \<open>The Python exceptions the script can raise.  \<open>RolloutError\<close> is the
  rollout's refusal of a mapping it does not hold (DART code, not under
  \<open>src/\<close>).\<close>

datatype pyExc = NameError string | UnboundLocalError string | IndexError | RolloutError string

text \<open>Indexing a tensor's first dimension (or a list) by a Python integer:
  a negative index counts from the end, an index out of range raises.\<close>

definition pyIndex :: "'a list \<Rightarrow> int \<Rightarrow> pyExc + 'a" where
  "pyIndex xs i =
     (let j = (if i < 0 then int (length xs) + i else i) in
      if 0 \<le> j \<and> j < int (length xs) then Inr (xs ! nat j) else Inl IndexError)"

text \<open>A rollout maps a mapping's name to a matrix stored as its rows: row
  \<open>i\<close> is coordinate \<open>i\<close> of the mapping over the time steps.\<close>

record TrajectoryRollout =
  rPoses :: "string \<Rightarrow> real list list option"
  rVels :: "string \<Rightarrow> real list list option"

definition getMapped :: "(string \<Rightarrow> real list list option) \<Rightarrow> string \<Rightarrow> pyExc + real list list" where
  "getMapped f key = (case f key of None \<Rightarrow> Inl (RolloutError key) | Some m \<Rightarrow> Inr m)"

definition signedSquare :: "real \<Rightarrow> real" where
  "signedSquare x = x * x * sgn x"

definition wormLoss :: "TrajectoryRollout \<Rightarrow> pyExc + real" where
  "wormLoss rollout =
     (case getMapped (rPoses rollout) ''ik'' of Inl e \<Rightarrow> Inl e | Inr pos \<Rightarrow>
      case getMapped (rVels rollout) ''ik'' of Inl e \<Rightarrow> Inl e | Inr vel \<Rightarrow>
      case pyIndex pos 1 of Inl e \<Rightarrow> Inl e | Inr row \<Rightarrow>
      let step_loss = - sum_list (map signedSquare row) in
      case pyIndex pos (-1) of Inl e \<Rightarrow> Inl e | Inr last_segment_pos \<Rightarrow>
      case pyIndex last_segment_pos 1 of Inl e \<Rightarrow> Inl e | Inr x \<Rightarrow>
      let final_loss = - 100 * x * x * sgn x in
      Inr (step_loss + final_loss))"

section \<open>The trajectory problem and \<open>main()\<close> (lines 168-278)\<close>

record DemoWorld =
  wGravity :: vec3
  wSkeletons :: "DemoSkeleton list"

text \<open>An IK mapping lists the body nodes whose world position it maps, as
  (skeleton index in the world, body index).\<close>

record IKMapping =
  ikLinearBodies :: "(nat \<times> nat) list"

record MultiShot =
  msWorld :: DemoWorld
  msLoss :: "TrajectoryRollout \<Rightarrow> pyExc + real"
  msSteps :: nat
  msShotLength :: nat
  msTuneStartingState :: bool
  msMappings :: "(string \<times> IKMapping) list"

text \<open>The settings the script gives the optimizer; \<open>None\<close> keeps DART's
  default.\<close>

record IPOptOptimizer =
  optTolerance :: "real option"
  optCheckDerivatives :: "bool option"
  optIterationLimit :: "nat option"

text \<open>What a run of \<open>main()\<close> leaves behind: the world, the trajectory after
  the optimizer ran on it, the optimizer, the files written and the JSON
  served to the web GUI.\<close>

record WormRun =
  runWorld :: DemoWorld
  runTrajectory :: MultiShot
  runOptimizer :: IPOptOptimizer
  runFiles :: "(string \<times> string) list"
  runServed :: "string list"

datatype WormMainResult = Aborted | Raised pyExc WormRun | Returned WormRun

text \<open>Python resolves a name that the function assigns somewhere as a local
  (unbound until assigned), any other name in the module's globals and then
  in the builtins; a name found nowhere raises \<open>NameError\<close>.\<close>

definition pyLoadName ::
  "string list \<Rightarrow> string list \<Rightarrow> string list \<Rightarrow> string set \<Rightarrow> string \<Rightarrow> pyExc option" where
  "pyLoadName localNames bound globals builtins x =
     (if x \<in> set localNames then (if x \<in> set bound then None else Some (UnboundLocalError x))
      else if x \<in> set globals \<or> x \<in> builtins then None else Some (NameError x))"

definition jumpWormGlobals :: "string list" where
  "jumpWormGlobals = [''np'', ''torch'', ''F'', ''random'', ''math'', ''time'', ''dart'',
     ''DartTorchLossFn'', ''DartTorchTrajectoryRollout'', ''main'']"

definition mainLocalNames :: "string list" where
  "mainLocalNames = [''world'', ''jumpworm'', ''rootJoint'', ''root'', ''rootShape'', ''rootVisual'',
     ''createTailSegment'', ''tail1'', ''tail2'', ''tail3'', ''floor'', ''floorJoint'', ''floorBody'',
     ''floorOffset'', ''floorShape'', ''floorVisual'', ''loss'', ''dartLoss'', ''trajectory'',
     ''ikMap'', ''optimizer'', ''json'', ''text_file'', ''n'']"

text \<open>The locals bound when line 269 runs.\<close>

definition boundBeforeResult :: "string list" where
  "boundBeforeResult = take 21 mainLocalNames"

text \<open>\<open>main()\<close>, with \<open>optimizer.optimize(trajectory)\<close> (IPOPT, outside the
  repository) a parameter that updates the trajectory, and \<open>toJson\<close> what
  \<open>result.toJson(world)\<close> would return were \<open>result\<close> bound.  A refused
  \<open>setPositions\<close> aborts.\<close>

definition jumpWormMain ::
  "(IPOptOptimizer \<Rightarrow> MultiShot \<Rightarrow> MultiShot) \<Rightarrow> string set \<Rightarrow> (DemoWorld \<Rightarrow> string)
   \<Rightarrow> WormMainResult" where
  "jumpWormMain optimize builtins toJson =
     (case jumpworm of None \<Rightarrow> Aborted | Some worm \<Rightarrow>
      let world = \<lparr>wGravity = V3 0 (-(981/100)) 0, wSkeletons = []\<rparr>;
          world = world\<lparr>wSkeletons := wSkeletons world @ [worm]\<rparr>;
          world = world\<lparr>wSkeletons := wSkeletons world @ [floorSkeleton]\<rparr>;
          trajectory = \<lparr>msWorld = world, msLoss = wormLoss, msSteps = 400, msShotLength = 20,
                        msTuneStartingState = False, msMappings = []\<rparr>;
          ikMap = \<lparr>ikLinearBodies = [(0, snd wormRoot)]\<rparr>;
          trajectory = trajectory\<lparr>msMappings := msMappings trajectory @ [(''ik'', ikMap)]\<rparr>;
          optimizer = \<lparr>optTolerance = Some (1/100000), optCheckDerivatives = Some False,
                       optIterationLimit = Some 400\<rparr>;
          trajectory = optimize optimizer trajectory;
          run = \<lparr>runWorld = world, runTrajectory = trajectory, runOptimizer = optimizer,
                 runFiles = [], runServed = []\<rparr>
      in case pyLoadName mainLocalNames boundBeforeResult jumpWormGlobals builtins ''result'' of
           Some e \<Rightarrow> Raised e run
         | None \<Rightarrow> (let json = toJson world in
                    Returned (run\<lparr>runFiles := [(''worm.txt'', json)], runServed := [json]\<rparr>)))"

section \<open>Properties\<close>

lemma demoSkeleton_upd_simps [simp]:
  "skBodies (updJoint i f sk) = skBodies sk" "skJoints (updBody i g sk) = skJoints sk"
  "skName (updJoint i f sk) = skName sk" "skName (updBody i g sk) = skName sk"
  "length (skJoints (updJoint i f sk)) = length (skJoints sk)"
  "length (skBodies (updBody i g sk)) = length (skBodies sk)"
  by (simp_all add: updJoint_def updBody_def)

lemma createJointAndBodyNodePair_simps [simp]:
  "createJointAndBodyNodePair k parent sk =
     (sk\<lparr>skJoints := skJoints sk @ [newJoint k parent], skBodies := skBodies sk @ [newBody]\<rparr>,
      length (skBodies sk))"
  by (simp add: createJointAndBodyNodePair_def)

lemmas demo_setter_defs = setForceUpperLimit_def setForceLowerLimit_def setVelocityUpperLimit_def
  setVelocityLowerLimit_def setPositionUpperLimit_def setPositionLowerLimit_def setPosition_def
  createShapeNode_def createVisualAspect_def setColor_def createCollisionAspect_def
  updJoint_def updBody_def newJoint_def newBody_def newSkeleton_def jointDofs_def

lemma createTailSegment_appends:
  assumes "length (skJoints sk) = length (skBodies sk)"
  shows "createTailSegment r sk p c =
    (sk\<lparr>skJoints := skJoints sk @
        [(newJoint RevoluteJoint (Some p))\<lparr>jAxis := V3 0 0 1, jPositions := [deg 90],
           jPositionLower := [Some (deg 0)], jPositionUpper := [Some (deg 180)],
           jVelocityLower := [Some (-10000)], jVelocityUpper := [Some 10000],
           jForceLower := [Some (-100)], jForceUpper := [Some 100],
           jFromParent := (if p \<noteq> r then V3 0 (125/1000) 0 else 0),
           jFromChild := V3 0 (-(125/1000)) 0\<rparr>],
        skBodies := skBodies sk @ [newBody\<lparr>bShape := Some (V3 (5/100) (25/100) (5/100)),
           bVisual := True, bColor := Some c, bCollision := True\<rparr>]\<rparr>,
     length (skBodies sk))"
  using assms by (simp add: createTailSegment_def Let_def demo_setter_defs nth_append list_update_append)

lemma wormRoot_value:
  "wormRoot = (newSkeleton\<lparr>skJoints := [(newJoint TranslationalJoint2D None)\<lparr>
        jVelocityLower := [Some (-1000), Some (-1000)], jVelocityUpper := [Some 1000, Some 1000],
        jForceLower := [Some 0, Some 0], jForceUpper := [Some 0, Some 0]\<rparr>],
      skBodies := [newBody\<lparr>bShape := Some (V3 (1/10) (1/10) (1/10)), bVisual := True,
        bColor := Some (V3 (7/10) (7/10) (7/10)), bCollision := True\<rparr>]\<rparr>, 0)"
  by (simp add: wormRoot_def Let_def demo_setter_defs numeral_2_eq_2)

lemma jumpworm_defined: "jumpworm \<noteq> None"
  by (simp add: jumpworm_def wormRoot_value createTailSegment_appends setPositions_def skNumDofs_def
      demo_setter_defs)

lemma pyIndex_nonneg [simp]: "0 \<le> i \<Longrightarrow> nat i < length xs \<Longrightarrow> pyIndex xs i = Inr (xs ! nat i)"
  by (simp add: pyIndex_def)

lemma pyIndex_minus_one [simp]: "xs \<noteq> [] \<Longrightarrow> pyIndex xs (-1) = Inr (last xs)"
  by (cases xs rule: rev_cases) (simp_all add: pyIndex_def)



text \<open>
  C27.  \<open>main()\<close> never writes \<open>worm.txt\<close> nor serves the GUI: the
  optimizer's result is discarded (line 267) and \<open>result\<close> is bound
  nowhere, so line 269 raises \<open>NameError\<close> after the optimizer has run on the
  400-step, 20-step-shot trajectory with the \<open>ik\<close> mapping of the root.
\<close>

lemma jumpWormMain_raises_NameError:
  assumes "''result'' \<notin> builtins"
  shows "\<exists>run t. jumpWormMain optimize builtins toJson = Raised (NameError ''result'') run
     \<and> runFiles run = [] \<and> runServed run = []
     \<and> runTrajectory run = optimize (runOptimizer run) t
     \<and> msSteps t = 400 \<and> msShotLength t = 20 \<and> \<not> msTuneStartingState t
     \<and> msMappings t = [(''ik'', \<lparr>ikLinearBodies = [(0, 0)]\<rparr>)]
     \<and> runOptimizer run = \<lparr>optTolerance = Some (1/100000), optCheckDerivatives = Some False,
                              optIterationLimit = Some 400\<rparr>"
  using assms jumpworm_defined
  by (auto simp: jumpWormMain_def pyLoadName_def mainLocalNames_def jumpWormGlobals_def wormRoot_value
      Let_def split: option.split)

lemma jumpWormMain_witness:
  "\<exists>run. jumpWormMain (\<lambda>_ t. t) {''print'', ''open''} (\<lambda>_. []) = Raised (NameError ''result'') run"
  using jumpWormMain_raises_NameError [of "{''print'', ''open''}" "\<lambda>_ t. t" "\<lambda>_. []"] by auto

end
