(* ===== verification/HangingDemo.thy ===== *)
theory HangingDemo
  imports Prelude
begin

text \<open>
  The stand-alone demo \<open>main()\<close> of \<open>src/unnamed/part_000\<close> ("This is going to
  hurt!"), written against DART's first API (\<open>kinematics\<close>, \<open>dynamics\<close>,
  \<open>simulation\<close>).  It loads four skeleton files, hangs the full-body
  character from the ceiling by writing seven pose coordinates, makes the
  ground immobile, builds the world (gravity, time step, collision detector,
  the four skeletons, a controller for the character) and opens the window
  before entering GLUT's main loop.

  What it calls is DART's and GLUT's (not under \<open>src/\<close>).  The skeleton
  loader is a parameter: \<open>FileInfoSkel::loadFile\<close> leaves \<open>getSkel()\<close> null
  when a file does not parse, so a load is a \<open>HangSkeleton option\<close> and
  \<open>None\<close> is the null pointer.  Eigen's \<open>operator[]\<close> on a \<open>VectorXd\<close> does not
  check its index in a release build (it asserts in a debug build): a write
  past the end is \<open>None\<close>, and so is a dereference of a null skeleton, by
  \<open>getPose\<close>, \<open>setImmobileState\<close> or \<open>World::addSkeleton\<close> (which reads the
  skeleton it is given).  The
  result is the state in which \<open>glutMainLoop()\<close> is entered; that call does
  not return, so \<open>return 0\<close> is never reached and is not modelled.
\<close>

section \<open>State\<close>





section \<open>The program\<close>








section \<open>Properties\<close>



end
