(* ===== verification/Spec2Isabelle.thy ===== *)
theory Spec2Isabelle
  imports AbstractShot PerturbationEstimates ReferentialAggregates VariationalAspects JumpWormDemo
    HangingDemo
begin

text \<open>
  A verification development for the analytical contact differentiator of
  diffdart (\<open>src/dart/neural/DifferentiableContactConstraint.cpp\<close>), the
  finite-difference validator beside it, the backprop snapshot that turns the
  contact rows into step Jacobians with its Python binding
  (\<open>src/python/_diffdart/neural/BackpropSnapshot.cpp\<close>), the Dantzig LCP
  plugin (\<open>src/dart/constraint/DantzigBoxedLcpSolver.cpp\<close>), and
  \<open>ReferentialSkeleton\<close> with the declarations of the variational-integrator
  aspects (the text carried by \<open>src/dart/experimental/SkeletonViRiqnSvi.hpp\<close>),
  the trajectory interface \<open>AbstractShot\<close> and the two demo programs (the
  C++ hanging demo and the Python Jump Worm tutorial).
  Everything is a shallow embedding: C++ functions are HOL functions, objects
  are records, null dereferences, unchecked \<open>operator[]\<close> reads and undefined
  behaviour are \<open>None\<close> or an error value, loops are recursion over lists
  (\<open>map_opt\<close> for a loop whose body may fail) or a \<open>partial_function (option)\<close>
  where the loop may not stop.  Reals stand for doubles: rounding is not
  modelled.

  \<^bold>\<open>How the parts interact.\<close>  A \<open>DifferentiableContactConstraint\<close> wraps one
  LCP row of a contact (row 0 is the normal, rows 1..k the tangent basis).
  It asks the kinematic tree which DOFs move which contact body
  (\<open>isParent\<close>), classifies each DOF against the contact
  (\<open>getDofContactType\<close>), and from that builds the gradients of the contact
  point, normal, force direction and 6-force, the generalized constraint
  forces and their Jacobians.  A forward step solves the boxed LCP through the
  plugin (degrading the step on failure); the backprop snapshot records the
  step and uses the clamping constraints' generalized constraint forces as
  the rows of \<open>J\<close> for its Jacobians, which Python reaches through the
  binding.  The validator re-runs the simulator with perturbed positions,
  finds the same row in the new snapshot (\<open>getPeerConstraint\<close>) and takes
  difference quotients.  \<open>ReferentialSkeleton\<close> is DART's view on a subset of
  a skeleton's body nodes and DOFs, with the index bookkeeping of such DOF
  lists and aggregates (Jacobians, mass matrices, energies) over them.

  \<^bold>\<open>Theories, in import order.\<close>
  \<^item> \<open>Prelude\<close>: 3- and 6-vectors (Eigen's \<open>Vector3d\<close>, \<open>Vector6d\<close>) as
    \<open>ab_group_add\<close> instances with \<open>dot\<close>, \<open>cross\<close>, \<open>dot6\<close> and their algebra;
    \<open>map_opt\<close> and its lemmas (length, nth, append, commuting two loops);
    \<open>col\<close>, a checked column read.
  \<^item> \<open>DenseMatrix\<close>: Eigen's \<open>MatrixXd\<close> as functions of the indices with an
    explicit inner dimension per product, and its algebra (associativity,
    identity, distributivity, matrix-vector products, perturbing one
    coordinate).
  \<^item> \<open>Spatial\<close>: \<open>math::AdT\<close>, \<open>math::ad\<close>, \<open>math::gradientWrtTheta\<close>,
    \<open>math::gradientWrtThetaPureRotation\<close> (not under \<open>src/\<close>; modelled from the
    spec at \<open>theta = 0\<close>, the only value the code passes), and the identity
    that turns the power of a wrench on a screw into a point velocity.
  \<^item> \<open>Kinematics\<close>: the kinematic oracle (\<open>Joint\<close>, \<open>BodyNode\<close>,
    \<open>DegreeOfFreedom\<close>, \<open>Skeleton\<close>, \<open>World\<close> getters) as the record \<open>kin\<close>;
    \<open>isParentBody\<close> and \<open>isParentDof\<close> (cpp 1224-1283) with their walk
    \<open>walkToJoint\<close>; \<open>getWorldScrewAxis\<close> (cpp 1286-1303).  Reference
    semantics: the inductive ancestor relation \<open>jointAncestor\<close>.  Invariant:
    \<open>wf_kin\<close> (a parent joint is in the same skeleton and tree, with a smaller
    index in the tree).  The index is \<open>getIndexInTree(0)\<close> (cpp 1237); a
    non-root joint with no DOF (a weld), for which that call has no DOF to
    read, is outside \<open>wf_kin\<close>, so the theorems assuming it (C1-C4, C6, C7, C11, C12) do
    not cover skeletons with such joints.
  \<^item> \<open>ContactClassifier\<close>: the constraint record (constructor, cpp 17-34),
    its position, normal, force-direction and 6-force queries (cpp 37-94), the
    classifier \<open>classifyDofContact\<close>/\<open>getDofContactType\<close> (cpp 98-155),
    \<open>getForceMultiple\<close> (cpp 1194-1221), \<open>getEdges\<close>,
    \<open>setOffsetIntoWorld\<close> and \<open>getPeerConstraint\<close>.
  \<^item> \<open>ContactGradients\<close>: every analytical gradient and Jacobian
    (cpp 158-697).  These are the position, normal, force-direction and
    6-force gradients, the screw-axis gradient, the constraint force and its
    derivative, the skeleton- and world-level Jacobians, and the block
    assembly over skeletons.  \<open>math::getContactPointGradient\<close> is a
    parameter.
  \<^item> \<open>FiniteDifference\<close>: the four \<open>bruteForce*Jacobian\<close> routines
    (cpp 698-843) and the single-DOF probes \<open>bruteForcePerturbed*\<close>,
    \<open>bruteForceScrewAxis\<close>, \<open>bruteForceEdges\<close> (cpp 1064-1183).  The world's
    dynamic state is the record \<open>worldState\<close> (positions, velocities,
    forces: what a \<open>RestorableSnapshot\<close> saves, spec 4.G), with
    \<open>World::setPositions\<close> as \<open>setWorldPositions\<close> and
    \<open>RestorableSnapshot::restore\<close> as \<open>restore\<close>.  The simulator (not under
    \<open>src/\<close>) is an interface record: a world step returning the snapshot, the
    snapshot's constraint lists, the kinematic view of a state.
    \<open>neural::forwardPass(world, idempotent)\<close> is \<open>forwardPass\<close>, the step
    followed by a restore when \<open>idempotent\<close> holds; every routine calls it
    with \<open>true\<close>.  The reference is one perturbation from the saved state
    (spec 4.F).
  \<^item> \<open>LcpSolver\<close>: \<open>DantzigBoxedLcpSolver\<close> (\<open>getType\<close>, \<open>getStaticType\<close>,
    \<open>solve\<close>, \<open>canSolve\<close>; lcp cpp 41-84) with ODE's \<open>dSolveLCP\<close> as a
    parameter that returns or throws.  The plugin is seen through a
    \<open>BoxedLcpSolver\<close> interface record by \<open>lcpSolveStep\<close>, the spec's LCP
    failure policy (degrade, one fallback solver), whose caller is not under
    \<open>src/\<close>.
  \<^item> \<open>BackpropSnapshot\<close>: the snapshot of spec 4.E (its C++ class is not
    under \<open>src/\<close>): the state it captures from the world after a step
    (\<open>snapshotWorld\<close>, with the LCP step's degraded flag and the unsupported
    rows), the semi-implicit step \<open>semiImplicitStep\<close> with clamping impulses
    solving \<open>J M\<^sup>-\<^sup>1 J\<^sup>T f = -b\<close>, and the Jacobians \<open>getVelVelJacobian\<close>,
    \<open>getForceVelJacobian\<close>, \<open>getVelPosJacobian\<close>, \<open>getPosPosJacobian\<close>, whose
    \<open>J\<close> is \<open>getConstraintForces(world)\<close> of the clamping constraints.  The
    linear solver and pos\<open>\<rightarrow>\<close>vel are parameters.  The Python binding (binding
    cpp 42-130) is translated as its argument table (\<open>backpropSnapshotInitArgs\<close>,
    \<open>backpropSnapshotMethods\<close>) over a model of pybind11's argument binding
    (\<open>bindArgs\<close>: positional, keyword, default, \<open>TypeError\<close>) and dispatch
    (\<open>pyConstruct\<close>, \<open>pyCall\<close>).
  \<^item> \<open>PerturbationEstimates\<close>: the \<open>estimatePerturbed*\<close> routines
    (cpp 845-1053), where a contact point, normal, force direction, edge pair
    or screw axis moves when one DOF turns by \<open>eps\<close>; \<open>math::expMap\<close> and
    \<open>math::getContactPoint\<close> are parameters.
  \<^item> \<open>ReferentialSkeleton\<close>: the view's state record (body vector, DOF
    vector, index map), every lookup and mutator (hpp 273-484, 1145-1283),
    and the public API as a step function \<open>rsStep\<close> with the reachability
    relation \<open>rsReachable\<close>.
  \<^item> \<open>ReferentialAggregates\<close>: the object around the view with its four
    raw-pointer caches (\<open>mRawBodyNodes\<close>, \<open>mRawConstBodyNodes\<close>, \<open>mRawDofs\<close>,
    \<open>mRawConstDofs\<close>), which only \<open>getBodyNodes\<close>/\<open>getDofs\<close> refresh
    (\<open>convertVector\<close>, hpp 320-443), as a step function \<open>objStep\<close> with
    the reachability relation \<open>objReachable\<close>; and the aggregate queries
    (hpp 484-1143) over oracle records of \<open>BodyNode\<close>, \<open>DegreeOfFreedom\<close>
    and \<open>Skeleton\<close> getters: the Jacobian templates (\<open>assignJacobian\<close>,
    \<open>variadicGetJacobian\<close>), the mass-matrix and force-vector blocks
    (\<open>setMatrixFromSkeletonData\<close>, \<open>setVectorFromSkeletonData\<close>), the mass,
    energy and centre-of-mass sums, the COM property and COM Jacobian
    templates, and \<open>clearExternalForces\<close>/\<open>clearInternalForces\<close> (hpp
    958-969, the \<open>BodyNode\<close> mutator a parameter), each reading the cache the
    code reads.
  \<^item> \<open>VariationalAspects\<close>: the data members, in-class initialisers and
    defaulted constructors of \<open>SkeletonViRiqnSvi\<close> and \<open>BodyNodeViRiqnDrnea\<close>
    (hpp 44-109, 159-223) and the \<open>TerminalCondition\<close> enum.
  \<^item> \<open>AbstractShot\<close>: the trajectory interface of \<open>src/unnamed/part_001\<close>.  Its
    pure virtual methods are the interface record \<open>ShotInterface\<close> over a
    concrete shot's state, its protected members the record
    \<open>AbstractShotState\<close>, with the setters and \<open>getNumSteps\<close>.
  \<^item> \<open>JumpWormDemo\<close>: the Jump Worm tutorial's Python program (binding cpp
    158-278): the worm and floor built through the dartpy calls it makes
    (\<open>wormRoot\<close>, \<open>createTailSegment\<close>, \<open>jumpworm\<close>, \<open>floorSkeleton\<close>), its loss
    \<open>wormLoss\<close> with Python's indexing, and \<open>jumpWormMain\<close> with Python's name
    resolution and IPOPT's \<open>optimize\<close> as a parameter.
  \<^item> \<open>HangingDemo\<close>: the C++ demo \<open>main()\<close> of \<open>src/unnamed/part_000\<close> up to
    GLUT's main loop (\<open>hangingDemoMain\<close>), with the skeleton loader a
    parameter, null pointers and unchecked \<open>operator[]\<close> writes as \<open>None\<close>;
    \<open>World::addSkeleton\<close> reads the skeleton it is given, so a null one is
    \<open>None\<close> too.

  \<^bold>\<open>What is proved.\<close>
  \<^item> Termination and correctness of the ancestor walks (C1): on a
    well-formed tree both \<open>isParent\<close> return, and return exactly
    \<open>jointAncestor\<close>; the early exits are sound.  The walk is a
    \<open>partial_function (option)\<close> because on a cyclic parent graph the C++
    loop does not stop; the termination theorem states \<open>Some\<close> results.
  \<^item> The classifier: \<open>NONE\<close> exactly for unrelated DOFs (C2), the table of
    the supported contact types (C3), the force-multiple table (C4), and the
    negation of the force multiple and of the world force vector when the
    two bodies are exchanged (C5).
  \<^item> Physical consistency of the gradients: unrelated DOFs have no
    influence and shared ancestors cancel (C6), the constraint force is the
    virtual power of the contact force (C7), normal gradients are
    orthogonal to the normal except for edge contacts (C8).
  \<^item> Equivalences: the batched Jacobian loops equal the per-DOF gradients
    and the block assembly over skeletons equals the world-level Jacobian
    (C9, C10); the world force vector equals the per-DOF forces (C11).
  \<^item> The screw-axis gradient is the Lie bracket exactly for driving DOFs
    (C12).
  \<^item> The registration defect of \<open>ReferentialSkeleton\<close> holds as an invariant
    of every reachable state, and with it every index lookup fails (C13).
  \<^item> The validator: the brute-force Jacobians compute the reference and
    leave the world in the saved state (C14), the constraint-forces one too,
    though it never restores between perturbations, because every
    \<open>forwardPass(world, true)\<close> leaves the state it was given.  The single-DOF
    probes give the Jacobians' columns and restore the world (C16);
    \<open>bruteForceScrewAxis\<close> ends in the state it started from (C17).
  \<^item> Gradients and estimates agree on what a DOF leaves in place (C15, this
    theory).
  \<^item> The aggregates: the mass matrix is square and symmetric (C18) and is
    the tree matrices' block structure (C19); in every reachable object the
    registration defect makes every Jacobian zero and doubles \<open>getMass\<close>
    (C20); the mass, energies, COM and mass matrix are stale after a
    mutator, and two getter calls bring them up to date (C21);
    \<open>clear*Forces\<close> reset exactly the cached body nodes (C22).
  \<^item> The snapshot: with the solver inverting \<open>J M\<^sup>-\<^sup>1 J\<^sup>T\<close>, the recorded step
    stops every clamping contact along its generalized constraint force
    (C23); on a fixed active set finite differences of the step reproduce
    the vel\<open>\<rightarrow>\<close>vel and vel\<open>\<rightarrow>\<close>pos Jacobians exactly (C24); vel\<open>\<rightarrow>\<close>vel is a
    projection annihilated by \<open>J\<close> (C25).  The binding constructs by keyword
    as positionally, returns what was passed, forwards each Jacobian method
    to the C++ method of its name with \<open>perfLog\<close> defaulting to \<open>nullptr\<close>,
    and raises \<open>TypeError\<close> without a world (C26).
  \<^item> The Jump Worm tutorial raises \<open>NameError\<close> on \<open>result\<close> after optimizing,
    so it never writes or serves its result (C27); its loss weights the last
    mapped coordinate at the second time step, not the final height (C28).
  \<^item> The C++ demo reaches the main loop exactly when all four skeleton
    files load and the character has 36 pose coordinates (C29).
  The helper theorem \<open>PerturbationEstimates.estimates_at_zero\<close> shows where
  the estimates start at \<open>eps = 0\<close> (the edge DOFs at the edge cross product
  and the closest point of the edge lines, not at the contact's values).

  \<^bold>\<open>Bounds and fuel.\<close>  No fuel is used.  The only loop that may not stop
  is the ancestor walk, a \<open>partial_function (option)\<close>; it is proved to
  return on well-formed trees by induction on the index in the tree.  Every
  other loop runs over a finite list (DOFs, skeletons, columns, arguments,
  flat coordinates) and is structural recursion.  The difference quotients
  keep the code's \<open>EPS\<close> (\<open>1e-6\<close>, \<open>1e-7\<close>), and the force-direction
  threshold keeps its \<open>1e-12\<close>.  The snapshot theorems hold for every
  \<open>eps \<noteq> 0\<close>, since on a fixed active set the map is affine in the
  perturbed coordinate.  A failed C++ \<open>assert\<close> is a failure value (the
  abort of a debug build), as are null dereferences and out-of-range
  element accesses.

  \<^bold>\<open>Not modelled.\<close>
  \<^item> The Eigen, \<open>dart/math\<close>, collision, simulator and dartpy code the
    sources call.  Their code is not under \<open>src/\<close>; they appear as interface
    records, parameters, or (for the objects the tutorial configures) the
    settings it makes over DART's defaults.
  \<^item> ODE's \<open>dSolveLCP\<close> and DART's constraint solver around the LCP plugin
    (not under \<open>src/\<close>): a parameter, and the spec's failure policy.
  \<^item> Of the snapshot: pos\<open>\<rightarrow>\<close>vel (the spec gives no formula, only that it
    needs \<open>\<partial>J/\<partial>q\<close> and \<open>\<partial>M/\<partial>q\<close>), \<open>backprop\<close> and the snapshot-level
    \<open>finiteDifference*\<close> methods, whose semantics is neither under \<open>src/\<close> nor
    in the spec: the binding forwards them to parameters.
  \<^item> The methods of the variational-integrator aspects (\<open>integrate\<close>,
    \<open>evaluateDel\<close>, \<open>stepForward\<close>, setters, getters): only declared under
    \<open>src/\<close>, and the spec does not describe them.
  \<^item> Of \<open>AbstractShot\<close>: \<open>finiteDifferenceJacobian\<close>,
    \<open>bruteForceGradOfLossInputs\<close>, \<open>finiteDifferenceGradient\<close> and the
    start-state Jacobians, which are declared with no body under \<open>src/\<close>;
    the concrete shots (\<open>SingleShot\<close>, \<open>MultiShot\<close>) are not in the
    repository's sources.
  \<^item> A skeleton outside the world that a single-DOF probe perturbs: the model's
    state is the world's, so the moved DOF, which no world snapshot puts
    back, is outside it.
  \<^item> Of the demos: GLUT's event loop and rendering, IPOPT's optimisation and
    the skeleton-file parser, all outside the repository.
\<close>

section \<open>Properties across components\<close>

text \<open>
  C15.  The analytical gradients (\<open>ContactGradients\<close>) and the perturbation
  estimates (\<open>PerturbationEstimates\<close>) agree on what a DOF leaves in place:
  for every DOF whose type does not move the contact point, the position
  gradient is zero and the position estimate is the current point, for any
  perturbation; for every DOF whose type does not turn the normal, the normal
  and force-direction gradients are zero and the normal and force-direction
  estimates are the current ones.
\<close>

theorem estimates_agree_with_gradients:
  assumes "col (skelDofs skel) i = Some d" "getDofContactType k c d = Some t"
  shows "(t \<notin> {VERTEX, VERTEX_FACE_SELF_COLLISION, EDGE_EDGE_SELF_COLLISION, EDGE_A, EDGE_B} \<longrightarrow>
            getContactPositionGradient cpg k c d = Some 0
          \<and> estimatePerturbedContactPosition expMap gcp k c skel i eps = Some (getContactWorldPosition c))
    \<and> (t \<notin> {FACE, VERTEX_FACE_SELF_COLLISION, EDGE_EDGE_SELF_COLLISION, EDGE_A, EDGE_B} \<longrightarrow>
            getContactNormalGradient k c d = Some 0 \<and> getContactForceGradient k c d = Some 0
          \<and> estimatePerturbedContactNormal expMap k c skel i eps = Some (getContactWorldNormal c)
          \<and> estimatePerturbedContactForceDirection expMap k c skel i eps = getContactWorldForceDirection c)"
proof -
  have pos: "getContactPositionGradient cpg k c d = Some 0
      \<and> estimatePerturbedContactPosition expMap gcp k c skel i eps = Some (getContactWorldPosition c)"
    if "t \<notin> {VERTEX, VERTEX_FACE_SELF_COLLISION, EDGE_EDGE_SELF_COLLISION, EDGE_A, EDGE_B}"
    using that positionGradient_by_type [OF assms(2)] positionEstimate_by_type [OF assms]
    by (simp add: Let_def)
  have nrm: "getContactNormalGradient k c d = Some 0 \<and> getContactForceGradient k c d = Some 0
      \<and> estimatePerturbedContactNormal expMap k c skel i eps = Some (getContactWorldNormal c)
      \<and> estimatePerturbedContactForceDirection expMap k c skel i eps = getContactWorldForceDirection c"
    if t: "t \<notin> {FACE, VERTEX_FACE_SELF_COLLISION, EDGE_EDGE_SELF_COLLISION, EDGE_A, EDGE_B}"
  proof -
    have n: "estimatePerturbedContactNormal expMap k c skel i eps = Some (getContactWorldNormal c)"
      using t normalEstimate_by_type [OF assms] by (simp add: Let_def)
    have "t = VERTEX \<or> t = NONE \<or> t = DOF_UNSUPPORTED"
      using t by (cases t) simp_all
    then show ?thesis
      using normalGradient_by_type [OF assms(2)] forceGradient_zero_types [OF assms(2)] n
        forceDirectionEstimate_unmoved [OF assms n]
      by auto
  qed
  show ?thesis using pos nrm by blast
qed

lemma estimates_agree_with_gradients_witness:
  "getContactNormalGradient ex_kin (ex_dcc 2 3 VERTEX_FACE 0) (ex_dof 1) = Some 0
   \<and> estimatePerturbedContactNormal ex_expMap ex_kin (ex_dcc 2 3 VERTEX_FACE 0) ex_arm 1 (1 / 10) = Some (V3 0 1 0)
   \<and> estimatePerturbedContactForceDirection ex_expMap ex_kin (ex_dcc 2 3 VERTEX_FACE 0) ex_arm 1 (1 / 10)
       = Some (V3 0 1 0)"
  using estimates_agree_with_gradients [of ex_arm 1 "ex_dof 1" ex_kin "ex_dcc 2 3 VERTEX_FACE 0" VERTEX ex_cpg]
    ex_arm_dof
  by (simp add: ex_dofContactType classifyDofContact_def)
end
